theory Spec2Isabelle
  imports
    Complex_Main
    "HOL-Library.List_Lexorder"
    "HOL-Library.Product_Lexorder"
    "HOL-Library.Option_ord"
begin

section \<open>CapDB: the receipt categorizer (src/receipt\_processor.py)\<close>

text \<open>
  A shallow embedding of class \<open>DbCategorizer\<close>: the two category tables of the class,
  the SQLite store it keeps in \<open>receipts.db\<close>, the persistence operations
  \<open>add_receipt\<close> and \<open>update_receipt\<close>, the aggregation queries, and the line parser
  of \<open>process_receipt\<close>.
\<close>

subsection \<open>Python strings\<close>

text \<open>
  A Python \<open>str\<close> is a sequence of Unicode code points; the category names of the
  program are Hangul, so a string is modelled as the list of its code points.
  \<open>u\<close> embeds an ASCII literal. With \<open>List_Lexorder\<close> the order on strings is the
  lexicographic order on code points, which is Python's \<open><\<close> on \<open>str\<close> and SQLite's
  BINARY collation on UTF-8 text.
\<close>

type_synonym ustr = "nat list"

definition u :: "string \<Rightarrow> ustr" where
  "u s = map of_char s"

text \<open>\<open>str.isspace\<close> of one character (CPython 3.11, Unicode 14).\<close>

definition is_space :: "nat \<Rightarrow> bool" where
  "is_space c \<longleftrightarrow>
     (0x9 \<le> c \<and> c \<le> 0xD) \<or> (0x1C \<le> c \<and> c \<le> 0x20) \<or> c = 0x85 \<or> c = 0xA0 \<or>
     c = 0x1680 \<or> (0x2000 \<le> c \<and> c \<le> 0x200A) \<or> c = 0x2028 \<or> c = 0x2029 \<or>
     c = 0x202F \<or> c = 0x205F \<or> c = 0x3000"

text \<open>\<open>s.strip()\<close>: leading and trailing whitespace removed.\<close>

definition py_strip :: "ustr \<Rightarrow> ustr" where
  "py_strip s = rev (dropWhile is_space (rev (dropWhile is_space s)))"

text \<open>\<open>d.get(k, default)\<close> on a dict kept as an association list in insertion order.\<close>

definition dict_get :: "('k \<times> 'v) list \<Rightarrow> 'k \<Rightarrow> 'v \<Rightarrow> 'v" where
  "dict_get d k dflt = (case map_of d k of None \<Rightarrow> dflt | Some v \<Rightarrow> v)"

subsection \<open>The two category tables\<close>

text \<open>
  \<open>self.valid_categories\<close>, set in \<open>__init__\<close> (lines 25-35) under the comment
  "definition of the valid categories and subcategories". The store is seeded from it
  and the fuzzy correction draws its candidates from it. In source order the keys are
  beauty, shopping, transport, medical, travel, food, hobby, investment, utilities.
\<close>

definition valid_categories :: "(ustr \<times> ustr list) list" where
  "valid_categories =
   [([0xBBF8, 0xC6A9],
     [[0xD53C, 0xBD80, 0x20, 0xBBF8, 0xC6A9],
      [0xD5E4, 0xC5B4],
      [0xD654, 0xC7A5]]),
    ([0xC1FC, 0xD551],
     [[0xC0DD, 0xD544, 0xD488],
      [0xC758, 0xB958],
      [0xAC00, 0xC804],
      [0xAC00, 0xAD6C],
      [0xC2DD, 0xC7AC, 0xB8CC],
      [0xC7A5, 0xB09C, 0xAC10],
      [0xD654, 0xC7A5, 0xD488],
      [0xC2A4, 0xB9C8, 0xD2B8, 0xAE30, 0xAE30]]),
    ([0xAD50, 0xD1B5],
     [[0xD0DD, 0xC2DC],
      [0xB300, 0xC911, 0xAD50, 0xD1B5],
      [0xC5EC, 0xAC1D, 0xC120],
      [0xAE30, 0xCC28],
      [0xD56D, 0xACF5, 0xAE30],
      [0xC8FC, 0xC720]]),
    ([0xC758, 0xB8CC],
     [[0xC57D, 0xD488],
      [0xC9C4, 0xB8CC]]),
    ([0xC5EC, 0xD589],
     [[0xC2DD, 0xBE44],
      [0xC219, 0xBC15, 0xBE44],
      [0xD2F0, 0xCF13]]),
    ([0xC74C, 0xC2DD],
     [[0xC544, 0xCE68],
      [0xC810, 0xC2EC],
      [0xC800, 0xB141],
      [0xAC04, 0xC2DD],
      [0xC74C, 0xB8CC],
      [0xACFC, 0xC77C],
      [0xB514, 0xC800, 0xD2B8],
      [0xC720, 0xC81C, 0xD488]]),
    ([0xCDE8, 0xBBF8],
     [[0xAC8C, 0xC784],
      [0xC601, 0xD654],
      [0xACF5, 0xC5F0],
      [0xB180, 0xC774, 0xACF5, 0xC6D0],
      [0xC6B4, 0xB3D9],
      [0xB3C4, 0xC11C]]),
    ([0xD22C, 0xC790],
     [[0xAD50, 0xC721],
      [0xBCF4, 0xD5D8],
      [0xC8FC, 0xC2DD],
      [0xBD80, 0xB3D9, 0xC0B0],
      [0xC2E0, 0xC6A9, 0xCE74, 0xB4DC]]),
    ([0xACF5, 0xACFC, 0xAE08],
     [[0xD1B5, 0xC2E0, 0xBE44],
      [0xC804, 0xAE30, 0xC138],
      [0xAC00, 0xC2A4, 0xBE44],
      [0xAD6C, 0xB3C5, 0xB8CC],
      [0xBA64, 0xBC84, 0xC2ED],
      [0xC778, 0xD130, 0xB137, 0x20, 0xC694, 0xAE08],
      [0xD734, 0xB300, 0xD3F0, 0x20, 0xC694, 0xAE08],
      [0xC138, 0xAE08]])]"

text \<open>
  The local \<open>valid_categories\<close> of \<open>_is_valid_category\<close> (lines 735-741), a second
  table written out inside the method: food, shopping, transport, beauty, hobby.
\<close>

definition local_valid_categories :: "(ustr \<times> ustr list) list" where
  "local_valid_categories =
   [([0xC74C, 0xC2DD],
     [[0xC74C, 0xB8CC],
      [0xAC04, 0xC2DD],
      [0xC544, 0xCE68],
      [0xC810, 0xC2EC],
      [0xC800, 0xB141],
      [0xB514, 0xC800, 0xD2B8],
      [0xACFC, 0xC77C],
      [0xC720, 0xC81C, 0xD488]]),
    ([0xC1FC, 0xD551],
     [[0xC0DD, 0xD544, 0xD488],
      [0xC758, 0xB958],
      [0xAC00, 0xC804],
      [0xAC00, 0xAD6C],
      [0xC2DD, 0xC7AC, 0xB8CC],
      [0xC7A5, 0xB09C, 0xAC10],
      [0xD654, 0xC7A5, 0xD488],
      [0xC2A4, 0xB9C8, 0xD2B8, 0xAE30, 0xAE30]]),
    ([0xAD50, 0xD1B5],
     [[0xD0DD, 0xC2DC],
      [0xB300, 0xC911, 0xAD50, 0xD1B5],
      [0xC5EC, 0xAC1D, 0xC120],
      [0xAE30, 0xCC28],
      [0xD56D, 0xACF5, 0xAE30],
      [0xC8FC, 0xC720]]),
    ([0xBBF8, 0xC6A9],
     [[0xD53C, 0xBD80, 0x20, 0xBBF8, 0xC6A9],
      [0xD5E4, 0xC5B4],
      [0xD654, 0xC7A5],
      [0xC138, 0xC815]]),
    ([0xCDE8, 0xBBF8],
     [[0xAC8C, 0xC784],
      [0xC601, 0xD654],
      [0xACF5, 0xC5F0],
      [0xB180, 0xC774, 0xACF5, 0xC6D0],
      [0xC6B4, 0xB3D9],
      [0xB3C4, 0xC11C]])]"

text \<open>
  \<open>_is_valid_category\<close> (lines 732-752): both arguments are stripped, then looked up
  in the local table.
\<close>

definition is_valid_category :: "ustr \<Rightarrow> ustr \<Rightarrow> bool" where
  "is_valid_category category subcategory =
     (let category = py_strip category;
          subcategory = py_strip subcategory
      in case map_of local_valid_categories category of
           None \<Rightarrow> False
         | Some subs \<Rightarrow> subcategory \<in> set subs)"

text \<open>The (category, subcategory) pairs of a table.\<close>

definition pairs_of :: "(ustr \<times> ustr list) list \<Rightarrow> (ustr \<times> ustr) list" where
  "pairs_of table = concat (map (\<lambda>(cat, subs). map (\<lambda>sub. (cat, sub)) subs) table)"

subsection \<open>The store\<close>

text \<open>
  The four tables created by \<open>_init_db\<close> (lines 58-103). Every \<open>id\<close> is
  \<open>INTEGER PRIMARY KEY AUTOINCREMENT\<close>: a new row gets the table's sequence value plus
  one, and an identifier is never used again after its row is deleted, so each table
  carries its sequence value (the engine keeps it in \<open>sqlite_sequence\<close>, at least as
  large as every \<open>id\<close> the table has held). When the sequence value is the largest
  64-bit integer, an \<open>INSERT\<close> raises
  \<open>sqlite3.OperationalError: database or disk is full\<close>. The column \<open>created_at\<close>,
  filled by the engine's clock,
  is read by no statement of the program and is left out of the rows. SQLite declares
  the foreign keys of \<open>items\<close> and \<open>sub_categories\<close> but does not enforce them unless
  the connection turns enforcement on, and no connection of the program does.
\<close>

record main_category_row =
  mc_id :: int
  mc_name :: ustr

record sub_category_row =
  sc_id :: int
  sc_main_category_id :: int
  sc_name :: ustr

record receipt_row =
  r_id :: int
  r_store_name :: ustr
  r_date :: ustr
  r_total_amount :: int

record item_row =
  i_id :: int
  i_receipt_id :: int
  i_name :: ustr
  i_main_category_id :: int
  i_sub_category_id :: int
  i_amount :: int

record db =
  main_categories :: "main_category_row list"
  main_categories_seq :: int
  sub_categories :: "sub_category_row list"
  sub_categories_seq :: int
  receipts :: "receipt_row list"
  receipts_seq :: int
  items :: "item_row list"
  items_seq :: int

text \<open>
  The exceptions the modelled statements can raise. An \<open>int\<close> parameter outside the
  64-bit range makes the \<open>sqlite3\<close> binding raise \<open>OverflowError\<close>; a \<open>str\<close>
  parameter that holds a surrogate code point (U+D800 to U+DFFF) has no UTF-8 encoding
  and makes it raise \<open>UnicodeEncodeError\<close>; a statement that names a column its
  tables do not have raises \<open>sqlite3.OperationalError\<close>, and so does a statement that
  finds the database locked; \<open>SUM\<close> over integers raises on 64-bit overflow; \<open>int()\<close>
  raises \<open>ValueError\<close>. Limits of the machine (a text of more than 10^9 bytes, a
  full disk, no memory) are outside the model.
\<close>

datatype py_error =
  OverflowError
  | UnicodeEncodeError
  | OperationalError string
  | ValueError

definition sqlite_int :: "int \<Rightarrow> bool" where
  "sqlite_int n \<longleftrightarrow> - (2 ^ 63) \<le> n \<and> n < 2 ^ 63"

definition sqlite_text :: "ustr \<Rightarrow> bool" where
  "sqlite_text s \<longleftrightarrow> list_all (\<lambda>c. c < 0xD800 \<or> 0xDFFF < c) s"

definition max_rowid :: int where
  "max_rowid = 2 ^ 63 - 1"

text \<open>The state after the four \<open>DROP TABLE\<close> and \<open>CREATE TABLE\<close> statements.\<close>

definition empty_db :: db where
  "empty_db = \<lparr>main_categories = [], main_categories_seq = 0,
               sub_categories = [], sub_categories_seq = 0,
               receipts = [], receipts_seq = 0,
               items = [], items_seq = 0\<rparr>"

text \<open>
  \<open>INSERT OR IGNORE INTO main_categories (name) VALUES (?)\<close>: the row is skipped when
  the name is already there (\<open>name\<close> is \<open>UNIQUE\<close>).
\<close>

definition insert_main_category :: "ustr \<Rightarrow> db \<Rightarrow> db" where
  "insert_main_category name d =
     (if name \<in> mc_name ` set (main_categories d) then d
      else d\<lparr>main_categories := main_categories d @
                 [\<lparr>mc_id = main_categories_seq d + 1, mc_name = name\<rparr>],
               main_categories_seq := main_categories_seq d + 1\<rparr>)"

text \<open>
  \<open>INSERT OR IGNORE INTO sub_categories (main_category_id, name)
  SELECT id, ? FROM main_categories WHERE name = ?\<close>: one candidate row for each main
  category of that name, skipped when the pair is already there
  (\<open>UNIQUE(main_category_id, name)\<close>).
\<close>

definition insert_sub_category_row :: "int \<Rightarrow> ustr \<Rightarrow> db \<Rightarrow> db" where
  "insert_sub_category_row main_id name d =
     (if (main_id, name) \<in> (\<lambda>r. (sc_main_category_id r, sc_name r)) ` set (sub_categories d)
      then d
      else d\<lparr>sub_categories := sub_categories d @
                 [\<lparr>sc_id = sub_categories_seq d + 1, sc_main_category_id = main_id,
                   sc_name = name\<rparr>],
               sub_categories_seq := sub_categories_seq d + 1\<rparr>)"

definition insert_sub_category :: "ustr \<Rightarrow> ustr \<Rightarrow> db \<Rightarrow> db" where
  "insert_sub_category main_cat sub_cat d =
     fold (\<lambda>r. insert_sub_category_row (mc_id r) sub_cat)
       (filter (\<lambda>r. mc_name r = main_cat) (main_categories d)) d"

text \<open>
  \<open>_init_db\<close> (lines 45-123): the tables are dropped and created again, the main
  categories are inserted in the order of the keys of \<open>self.valid_categories\<close>, then
  the subcategories of each category.
\<close>

definition seed_db :: "(ustr \<times> ustr list) list \<Rightarrow> db" where
  "seed_db table =
     fold (\<lambda>(main_cat, sub_cats) d. fold (insert_sub_category main_cat) sub_cats d) table
       (fold insert_main_category (map fst table) empty_db)"

definition init_db :: db where
  "init_db = seed_db valid_categories"

text \<open>
  \<open>_get_category_ids\<close> (lines 125-153). It opens a connection of its own, so it reads
  the committed state of the two category tables; no statement of the program changes
  them after \<open>_init_db\<close>. \<open>fetchone\<close> gives the first row of the result or \<open>None\<close>.

  \<open>add_receipt\<close> and \<open>update_receipt\<close> call it while their own connection has a
  write transaction open. While that transaction holds the reserved lock only, the
  second connection can read. Once the engine has taken the exclusive lock for it
  (the page cache of the writing connection is full of changed pages and spills to
  the file, after about two megabytes of changes), the \<open>SELECT\<close> of the second
  connection waits for its timeout and raises
  \<open>sqlite3.OperationalError: database is locked\<close>. The engine's pager decides when
  that happens, so the lock state a lookup meets is a parameter \<open>locked\<close> of the model.

  \<open>select_category_ids\<close> is the body of the \<open>try\<close> block, each \<open>execute\<close> binding
  its text parameter first; the handler \<open>except Exception\<close> of \<open>_get_category_ids\<close>
  turns every exception into \<open>(None, None)\<close>.
\<close>

definition fetchone :: "'a list \<Rightarrow> 'a option" where
  "fetchone rs = (case rs of [] \<Rightarrow> None | r # _ \<Rightarrow> Some r)"

definition select_category_ids ::
  "bool \<Rightarrow> db \<Rightarrow> ustr \<Rightarrow> ustr \<Rightarrow> py_error + (int option \<times> int option)" where
  "select_category_ids locked d main_category sub_category =
     (if locked then Inl (OperationalError ''database is locked'')
      else if \<not> sqlite_text main_category then Inl UnicodeEncodeError
      else
        (case fetchone (filter (\<lambda>r. mc_name r = main_category) (main_categories d)) of
           None \<Rightarrow> Inr (None, None)
         | Some main_row \<Rightarrow>
             if \<not> sqlite_text sub_category then Inl UnicodeEncodeError
             else
               (case fetchone (filter (\<lambda>r. sc_main_category_id r = mc_id main_row \<and>
                                            sc_name r = sub_category) (sub_categories d)) of
                  None \<Rightarrow> Inr (Some (mc_id main_row), None)
                | Some sub_row \<Rightarrow> Inr (Some (mc_id main_row), Some (sc_id sub_row)))))"

definition get_category_ids :: "bool \<Rightarrow> db \<Rightarrow> ustr \<Rightarrow> ustr \<Rightarrow> int option \<times> int option" where
  "get_category_ids locked d main_category sub_category =
     (case select_category_ids locked d main_category sub_category of
        Inl e \<Rightarrow> (None, None)
      | Inr ids \<Rightarrow> ids)"

text \<open>
  Truthiness of an identifier as tested by \<open>if main_id and sub_id\<close>: \<open>None\<close> and \<open>0\<close>
  are false.
\<close>

definition truthy_id :: "int option \<Rightarrow> bool" where
  "truthy_id x = (case x of None \<Rightarrow> False | Some n \<Rightarrow> n \<noteq> 0)"

subsection \<open>Fuzzy correction\<close>

text \<open>
  \<open>difflib\<close> is not part of the repository. The similarity
  \<open>SequenceMatcher(None, x, word).ratio()\<close> is a parameter \<open>ratio x word\<close> of the model,
  the value of the float it returns. \<open>get_close_matches(word, possibilities, n=1,
  cutoff=0.4)\<close> keeps the possibilities whose ratio is at least the cutoff
  (\<open>real_quick_ratio\<close> and \<open>quick_ratio\<close> are upper bounds of \<open>ratio\<close>, so the three
  tests amount to the last), pairs each with its score, and returns the largest pair,
  scores first and strings second. A float is at least the float \<open>0.4\<close> exactly when
  its value is at least \<open>2/5\<close>, since \<open>0.4\<close> is the float next above \<open>2/5\<close>.
\<close>

type_synonym similarity = "ustr \<Rightarrow> ustr \<Rightarrow> rat"

definition cutoff :: rat where
  "cutoff = 2 / 5"

definition get_close_matches :: "similarity \<Rightarrow> ustr \<Rightarrow> ustr list \<Rightarrow> ustr list" where
  "get_close_matches ratio word possibilities =
     (let result = map (\<lambda>x. (ratio x word, x))
                     (filter (\<lambda>x. cutoff \<le> ratio x word) possibilities)
      in case result of
           [] \<Rightarrow> []
         | r # rs \<Rightarrow> [snd (fold max rs r)])"

text \<open>
  An item as the callers pass it: a dict with the keys \<open>name\<close>, \<open>category\<close>,
  \<open>subcategory\<close> and \<open>amount\<close>.
\<close>

record item =
  item_name :: ustr
  item_category :: ustr
  item_subcategory :: ustr
  item_amount :: int

text \<open>
  Lines 168-177 of \<open>add_receipt\<close>, repeated as lines 212-220 of \<open>update_receipt\<close>:
  the exact lookup, and when it does not give two identifiers, the closest
  subcategory of \<open>self.valid_categories.get(category, [])\<close> looked up in its place.
  \<open>locked\<close> holds the lock state that the first lookup meets and the one that the
  second lookup meets.
\<close>

definition resolve_ids ::
  "similarity \<Rightarrow> bool \<times> bool \<Rightarrow> db \<Rightarrow> ustr \<Rightarrow> ustr \<Rightarrow> int option \<times> int option" where
  "resolve_ids ratio locked d category subcategory =
     (let (main_id, sub_id) = get_category_ids (fst locked) d category subcategory
      in if \<not> (truthy_id main_id \<and> truthy_id sub_id) then
           (let valid_subcats = dict_get valid_categories category [];
                best_match = get_close_matches ratio subcategory valid_subcats
            in case best_match of
                 [] \<Rightarrow> (main_id, sub_id)
               | best # _ \<Rightarrow> get_category_ids (snd locked) d category best)
         else (main_id, sub_id))"

subsection \<open>Persistence: \<open>add_receipt\<close> and \<open>update_receipt\<close>\<close>

text \<open>
  \<open>INSERT INTO receipts (store_name, date, total_amount) VALUES (?, ?, ?)\<close>; the new
  identifier is \<open>cursor.lastrowid\<close>.
\<close>

definition insert_receipt :: "ustr \<Rightarrow> ustr \<Rightarrow> int \<Rightarrow> db \<Rightarrow> py_error + db" where
  "insert_receipt store_name date total_amount d =
     (if \<not> sqlite_text store_name \<or> \<not> sqlite_text date then Inl UnicodeEncodeError
      else if \<not> sqlite_int total_amount then Inl OverflowError
      else if max_rowid \<le> receipts_seq d then Inl (OperationalError ''database or disk is full'')
      else
        Inr (d\<lparr>receipts := receipts d @
                  [\<lparr>r_id = receipts_seq d + 1, r_store_name = store_name, r_date = date,
                    r_total_amount = total_amount\<rparr>],
                receipts_seq := receipts_seq d + 1\<rparr>))"

definition lastrowid_receipts :: "db \<Rightarrow> int" where
  "lastrowid_receipts d = receipts_seq d"

text \<open>
  \<open>INSERT INTO items (receipt_id, name, main_category_id, sub_category_id, amount)
  VALUES (?, ?, ?, ?, ?)\<close>. The two category identifiers were read from the store.
  The receipt identifier is either \<open>lastrowid\<close> or, in \<open>update_receipt\<close>, a value
  the \<open>UPDATE\<close> statement has bound before; the name and the amount come from the
  caller.
\<close>

definition insert_item :: "int \<Rightarrow> item \<Rightarrow> int \<Rightarrow> int \<Rightarrow> db \<Rightarrow> py_error + db" where
  "insert_item receipt_id it main_id sub_id d =
     (if \<not> sqlite_text (item_name it) then Inl UnicodeEncodeError
      else if \<not> sqlite_int (item_amount it) then Inl OverflowError
      else if max_rowid \<le> items_seq d then Inl (OperationalError ''database or disk is full'')
      else
        Inr (d\<lparr>items := items d @
                  [\<lparr>i_id = items_seq d + 1, i_receipt_id = receipt_id, i_name = item_name it,
                    i_main_category_id = main_id, i_sub_category_id = sub_id,
                    i_amount = item_amount it\<rparr>],
                items_seq := items_seq d + 1\<rparr>))"

text \<open>
  The loop \<open>for item in items\<close> (lines 167-193 and 211-236, the same text twice). It
  either runs to its end, or leaves the function by \<open>return\<close> at the first item that
  does not resolve, or raises. \<open>committed\<close> is the state \<open>_get_category_ids\<close> reads
  through its own connection, \<open>d\<close> the state of the open transaction, and \<open>locks k\<close>
  the lock states that the two lookups for the item at position \<open>k\<close> of the list meet.
\<close>

datatype loop_exit = Completed db | Returned db

type_synonym lock_states = "nat \<Rightarrow> bool \<times> bool"

fun insert_items ::
  "similarity \<Rightarrow> lock_states \<Rightarrow> db \<Rightarrow> int \<Rightarrow> item list \<Rightarrow> db \<Rightarrow> py_error + loop_exit" where
  "insert_items ratio locks committed receipt_id [] d = Inr (Completed d)"
| "insert_items ratio locks committed receipt_id (it # rest) d =
     (case resolve_ids ratio (locks 0) committed (item_category it) (item_subcategory it) of
        (Some main_id, Some sub_id) \<Rightarrow>
          if main_id \<noteq> 0 \<and> sub_id \<noteq> 0 then
            (case insert_item receipt_id it main_id sub_id d of
               Inl e \<Rightarrow> Inl e
             | Inr d' \<Rightarrow> insert_items ratio (\<lambda>k. locks (Suc k)) committed receipt_id rest d')
          else Inr (Returned d)
      | _ \<Rightarrow> Inr (Returned d))"

text \<open>
  \<open>add_receipt\<close> (lines 155-198). The body runs inside
  \<open>with sqlite3.connect(...) as conn\<close>, inside \<open>try\<close>. Leaving the \<open>with\<close> block by
  \<open>return None\<close> is a normal exit, so the connection commits what was written so
  far; leaving it by an exception rolls the transaction back, and the handler
  returns \<open>None\<close>.
\<close>

definition add_receipt ::
  "similarity \<Rightarrow> lock_states \<Rightarrow> ustr \<Rightarrow> ustr \<Rightarrow> item list \<Rightarrow> int \<Rightarrow> db \<Rightarrow> int option \<times> db" where
  "add_receipt ratio locks store_name date new_items total_amount d =
     (case insert_receipt store_name date total_amount d of
        Inl e \<Rightarrow> (None, d)
      | Inr d1 \<Rightarrow>
          (let receipt_id = lastrowid_receipts d1
           in case insert_items ratio locks d receipt_id new_items d1 of
                Inl e \<Rightarrow> (None, d)
              | Inr (Returned d2) \<Rightarrow> (None, d2)
              | Inr (Completed d2) \<Rightarrow> (Some receipt_id, d2)))"

text \<open>
  \<open>update_receipt\<close> (lines 200-241): \<open>UPDATE receipts SET ... WHERE id = ?\<close>,
  \<open>DELETE FROM items WHERE receipt_id = ?\<close>, then the same loop. Nothing checks that
  a receipt with this identifier exists.
\<close>

definition update_receipt_row :: "int \<Rightarrow> ustr \<Rightarrow> ustr \<Rightarrow> int \<Rightarrow> db \<Rightarrow> py_error + db" where
  "update_receipt_row receipt_id store_name date total_amount d =
     (if \<not> sqlite_text store_name \<or> \<not> sqlite_text date then Inl UnicodeEncodeError
      else if \<not> sqlite_int total_amount \<or> \<not> sqlite_int receipt_id then Inl OverflowError
      else
        Inr (d\<lparr>receipts :=
                  map (\<lambda>r. if r_id r = receipt_id
                            then r\<lparr>r_store_name := store_name, r_date := date,
                                   r_total_amount := total_amount\<rparr>
                            else r) (receipts d)\<rparr>))"

definition delete_items :: "int \<Rightarrow> db \<Rightarrow> db" where
  "delete_items receipt_id d = d\<lparr>items := filter (\<lambda>i. i_receipt_id i \<noteq> receipt_id) (items d)\<rparr>"

definition update_receipt ::
  "similarity \<Rightarrow> lock_states \<Rightarrow> int \<Rightarrow> ustr \<Rightarrow> ustr \<Rightarrow> item list \<Rightarrow> int \<Rightarrow> db \<Rightarrow> bool \<times> db" where
  "update_receipt ratio locks receipt_id store_name date new_items total_amount d =
     (case update_receipt_row receipt_id store_name date total_amount d of
        Inl e \<Rightarrow> (False, d)
      | Inr d1 \<Rightarrow>
          (case insert_items ratio locks d receipt_id new_items (delete_items receipt_id d1) of
             Inl e \<Rightarrow> (False, d)
           | Inr (Returned d2) \<Rightarrow> (False, d2)
           | Inr (Completed d2) \<Rightarrow> (True, d2)))"

subsection \<open>Queries\<close>

text \<open>
  The period format shared by the aggregation methods (lines 250-254, 587-591,
  648-652): a dict lookup with the monthly format as default.
\<close>

definition date_format :: "ustr \<Rightarrow> ustr" where
  "date_format period =
     dict_get [(u ''daily'', u ''%Y-%m-%d''), (u ''monthly'', u ''%Y-%m''), (u ''yearly'', u ''%Y'')]
       period (u ''%Y-%m'')"

text \<open>
  SQLite's \<open>strftime(format, timestring)\<close> belongs to the engine and is a parameter of
  the model: the text it returns, or \<open>None\<close> for \<open>NULL\<close> (a time string it cannot
  read).
\<close>

type_synonym strftime = "ustr \<Rightarrow> ustr \<Rightarrow> ustr option"

text \<open>
  \<open>SUM\<close> over integers raises "integer overflow" when the running total leaves the
  64-bit range at any point.
\<close>

fun sql_sum_from :: "int \<Rightarrow> int list \<Rightarrow> py_error + int" where
  "sql_sum_from acc [] = Inr acc"
| "sql_sum_from acc (x # xs) =
     (if sqlite_int (acc + x) then sql_sum_from (acc + x) xs else Inl (OperationalError ''integer overflow''))"

definition sql_sum :: "int list \<Rightarrow> py_error + int" where
  "sql_sum xs = sql_sum_from 0 xs"

text \<open>Running a list of fallible steps: the first error ends it.\<close>

fun sequence_err :: "('e + 'a) list \<Rightarrow> 'e + 'a list" where
  "sequence_err [] = Inr []"
| "sequence_err (x # xs) =
     (case x of
        Inl e \<Rightarrow> Inl e
      | Inr v \<Rightarrow> (case sequence_err xs of Inl e \<Rightarrow> Inl e | Inr vs \<Rightarrow> Inr (v # vs)))"

text \<open>
  The statistics query of \<open>get_statistics\<close> (lines 257-270): the join of the four
  tables, grouped by period, main category name and subcategory name, with \<open>COUNT(*)\<close>
  and \<open>SUM(i.amount)\<close>, ordered by period and total, both descending (\<open>NULL\<close> sorts
  below every text).

  The order in which the engine works matters twice: \<open>SUM\<close> raises when its running
  total overflows, and rows that tie in the \<open>ORDER BY\<close> come out in the order they
  went in. No table of the program has an index on a joined column other than its
  \<open>id\<close>, and the program never runs \<open>ANALYZE\<close>, so the plan is the same for every
  store: scan \<open>items\<close> in the order of its \<open>id\<close>, and look up the receipt, the main
  category and the subcategory of each item by \<open>id\<close>. The joined rows are then sorted
  by the grouping key (ascending, \<open>NULL\<close> first, texts byte by byte in UTF-8, which
  is the order of the code points) keeping the join order within a group, summed
  group by group, and sorted again by the \<open>ORDER BY\<close> key. Both sorts are stable.
  The item rows of the model are in order of insertion, which is the order of their
  \<open>id\<close>.
\<close>

type_synonym stats_row = "ustr option \<times> ustr \<times> ustr \<times> nat \<times> int"

definition statistics_join :: "strftime \<Rightarrow> ustr \<Rightarrow> db \<Rightarrow> ((ustr option \<times> ustr \<times> ustr) \<times> int) list" where
  "statistics_join strftime fmt d =
     [((strftime fmt (r_date r), mc_name mc, sc_name sc), i_amount i).
        i \<leftarrow> items d,
        r \<leftarrow> receipts d, r_id r = i_receipt_id i,
        mc \<leftarrow> main_categories d, i_main_category_id i = mc_id mc,
        sc \<leftarrow> sub_categories d, i_sub_category_id i = sc_id sc]"

definition group_row :: "(('k \<times> int) list) \<Rightarrow> 'k \<Rightarrow> py_error + ('k \<times> nat \<times> int)" where
  "group_row joined k =
     (let amounts = map snd (filter (\<lambda>row. fst row = k) joined)
      in case sql_sum amounts of
           Inl e \<Rightarrow> Inl e
         | Inr tot \<Rightarrow> Inr (k, length amounts, tot))"

definition statistics_query :: "strftime \<Rightarrow> ustr \<Rightarrow> db \<Rightarrow> py_error + stats_row list" where
  "statistics_query strftime fmt d =
     (let joined = statistics_join strftime fmt d
      in case sequence_err (map (group_row joined) (sort (remdups (map fst joined)))) of
           Inl e \<Rightarrow> Inl e
         | Inr groups \<Rightarrow>
             Inr (map (\<lambda>((period, main_cat, sub_cat), cnt, tot). (period, main_cat, sub_cat, cnt, tot))
                    (rev (sort_key (\<lambda>((period, _, _), _, tot). (period, tot)) (rev groups)))))"

text \<open>
  The result of \<open>get_statistics\<close>: nested dicts, kept as association lists in insertion
  order. \<open>dict_set\<close> is \<open>d[k] = v\<close>: an existing key keeps its place.
\<close>

fun dict_set :: "('k \<times> 'v) list \<Rightarrow> 'k \<Rightarrow> 'v \<Rightarrow> ('k \<times> 'v) list" where
  "dict_set [] k v = [(k, v)]"
| "dict_set (p # ps) k v = (if fst p = k then (k, v) # ps else p # dict_set ps k v)"

record sub_stats =
  ss_count :: nat
  ss_total_amount :: int

record cat_stats =
  cs_total_amount :: int
  cs_subcategories :: "(ustr \<times> sub_stats) list"

record period_stats =
  ps_total_amount :: int
  ps_categories :: "(ustr \<times> cat_stats) list"

type_synonym stats = "(ustr option \<times> period_stats) list"

text \<open>
  The body of \<open>for row in results\<close> (lines 276-297). A missing period or category is
  first created with total 0 and no entries, which is the default of the two lookups.
\<close>

definition add_stats_row :: "stats_row \<Rightarrow> stats \<Rightarrow> stats" where
  "add_stats_row row stats =
     (case row of (period, main_cat, sub_cat, cnt, tot) \<Rightarrow>
        let ps = dict_get stats period \<lparr>ps_total_amount = 0, ps_categories = []\<rparr>;
            cs = dict_get (ps_categories ps) main_cat \<lparr>cs_total_amount = 0, cs_subcategories = []\<rparr>;
            cs' = \<lparr>cs_total_amount = cs_total_amount cs + tot,
                   cs_subcategories = dict_set (cs_subcategories cs) sub_cat
                                     \<lparr>ss_count = cnt, ss_total_amount = tot\<rparr>\<rparr>;
            ps' = \<lparr>ps_total_amount = ps_total_amount ps + tot,
                   ps_categories = dict_set (ps_categories ps) main_cat cs'\<rparr>
        in dict_set stats period ps')"

text \<open>\<open>get_statistics\<close> (lines 243-303); any exception gives \<open>None\<close>.\<close>

definition get_statistics :: "strftime \<Rightarrow> ustr \<Rightarrow> db \<Rightarrow> stats option" where
  "get_statistics strftime period d =
     (case statistics_query strftime (date_format period) d of
        Inl e \<Rightarrow> None
      | Inr results \<Rightarrow> Some (fold add_stats_row results []))"

text \<open>
  The statements of \<open>get_receipts\<close> and \<open>get_expense_trends\<close> read the table
  \<open>receipts\<close> alone. SQLite resolves every column name when it compiles a statement,
  before any row is read, and a name that is no column of the table is an
  \<open>OperationalError\<close>.
\<close>

definition receipts_columns :: "string list" where
  "receipts_columns = [''id'', ''store_name'', ''date'', ''total_amount'', ''created_at'']"

datatype sql_value = SqlInt int | SqlText ustr | SqlNull

definition receipts_cell :: "string \<Rightarrow> receipt_row \<Rightarrow> sql_value" where
  "receipts_cell c r =
     (if c = ''id'' then SqlInt (r_id r)
      else if c = ''store_name'' then SqlText (r_store_name r)
      else if c = ''date'' then SqlText (r_date r)
      else if c = ''total_amount'' then SqlInt (r_total_amount r)
      else SqlNull)"

definition select_receipts :: "string list \<Rightarrow> receipt_row list \<Rightarrow> py_error + sql_value list list" where
  "select_receipts cols rows =
     (case filter (\<lambda>c. c \<notin> set receipts_columns) cols of
        [] \<Rightarrow> Inr (map (\<lambda>r. map (\<lambda>c. receipts_cell c r) cols) rows)
      | c # _ \<Rightarrow> Inl (OperationalError (''no such column: '' @ c)))"

text \<open>
  \<open>get_receipts\<close> (lines 539-578): \<open>SELECT store_name, date, total_amount, category,
  subcategory FROM receipts ORDER BY date DESC\<close>; each fetched row becomes a dict of
  these five keys, here the list of the five values. \<open>except sqlite3.Error\<close> returns
  the empty list.
\<close>

definition get_receipts :: "db \<Rightarrow> sql_value list list" where
  "get_receipts d =
     (case select_receipts [''store_name'', ''date'', ''total_amount'', ''category'', ''subcategory'']
             (rev (sort_key r_date (receipts d))) of
        Inl e \<Rightarrow> []
      | Inr rows \<Rightarrow> rows)"

text \<open>
  \<open>get_expense_trends\<close> (lines 641-687): \<open>SELECT strftime(fmt, date) as period,
  SUM(amount) as total_amount FROM receipts\<close>, with \<open>WHERE category = '...'\<close>
  appended when a non-empty category is given, then \<open>GROUP BY period ORDER BY
  period\<close>. The result dict has the keys \<open>periods\<close>, \<open>amounts\<close> and \<open>total\<close>.
\<close>

record trends =
  t_periods :: "ustr option list"
  t_amounts :: "int list"
  t_total :: int

definition sql_int :: "sql_value \<Rightarrow> int" where
  "sql_int v = (case v of SqlInt n \<Rightarrow> n | _ \<Rightarrow> 0)"

definition sql_strftime :: "strftime \<Rightarrow> ustr \<Rightarrow> sql_value \<Rightarrow> ustr option" where
  "sql_strftime strftime fmt v = (case v of SqlText t \<Rightarrow> strftime fmt t | _ \<Rightarrow> None)"

definition trends_query ::
  "strftime \<Rightarrow> ustr \<Rightarrow> ustr option \<Rightarrow> receipt_row list \<Rightarrow> py_error + (ustr option \<times> int) list" where
  "trends_query strftime fmt category rows =
     (let filtered = (case category of
                        None \<Rightarrow> [''date'', ''amount'']
                      | Some c \<Rightarrow> if c = [] then [''date'', ''amount'']
                                  else [''date'', ''amount'', ''category''])
      in case select_receipts filtered rows of
           Inl e \<Rightarrow> Inl e
         | Inr cells \<Rightarrow>
             (let kept = filter (\<lambda>cs. length cs < 3 \<or> Some (cs ! 2) = map_option SqlText category) cells;
                  joined = map (\<lambda>cs. (sql_strftime strftime fmt (cs ! 0), sql_int (cs ! 1))) kept
              in case sequence_err (map (group_row joined) (sort (remdups (map fst joined)))) of
                   Inl e \<Rightarrow> Inl e
                 | Inr groups \<Rightarrow> Inr (map (\<lambda>(period, cnt, amount). (period, amount)) groups)))"

definition get_expense_trends :: "strftime \<Rightarrow> ustr option \<Rightarrow> ustr \<Rightarrow> db \<Rightarrow> trends option" where
  "get_expense_trends strftime category period d =
     (case trends_query strftime (date_format period) category (receipts d) of
        Inl e \<Rightarrow> None
      | Inr results \<Rightarrow>
          Some \<lparr>t_periods = map fst results, t_amounts = map snd results,
                t_total = sum_list (map snd results)\<rparr>)"

subsection \<open>Text primitives of the parser\<close>

text \<open>
  \<open>re\<close>'s \<open>\d\<close> on \<open>str\<close> is the Unicode category Nd (CPython 3.11, Unicode 14):
  66 runs of ten code points, each run the digits 0 to 9 in order. \<open>int()\<close> reads
  the same digits.
\<close>

definition decimal_starts :: "nat list" where
  "decimal_starts =
     [0x30, 0x660, 0x6F0, 0x7C0, 0x966, 0x9E6, 0xA66, 0xAE6, 0xB66, 0xBE6, 0xC66, 0xCE6,
      0xD66, 0xDE6, 0xE50, 0xED0, 0xF20, 0x1040, 0x1090, 0x17E0, 0x1810, 0x1946, 0x19D0,
      0x1A80, 0x1A90, 0x1B50, 0x1BB0, 0x1C40, 0x1C50, 0xA620, 0xA8D0, 0xA900, 0xA9D0,
      0xA9F0, 0xAA50, 0xABF0, 0xFF10, 0x104A0, 0x10D30, 0x11066, 0x110F0, 0x11136,
      0x111D0, 0x112F0, 0x11450, 0x114D0, 0x11650, 0x116C0, 0x11730, 0x118E0, 0x11950,
      0x11C50, 0x11D50, 0x11DA0, 0x16A60, 0x16AC0, 0x16B50, 0x1D7CE, 0x1D7D8, 0x1D7E2,
      0x1D7EC, 0x1D7F6, 0x1E140, 0x1E2F0, 0x1E950, 0x1FBF0]"

definition decimal_value :: "nat \<Rightarrow> nat option" where
  "decimal_value c = map_option (\<lambda>s. c - s) (find (\<lambda>s. s \<le> c \<and> c < s + 10) decimal_starts)"

definition is_decimal :: "nat \<Rightarrow> bool" where
  "is_decimal c \<longleftrightarrow> decimal_value c \<noteq> None"

text \<open>\<open>str.isdigit\<close> of one character: the decimal digits and the other digit characters.\<close>

definition other_digit_ranges :: "(nat \<times> nat) list" where
  "other_digit_ranges =
     [(0xB2, 0xB3), (0xB9, 0xB9), (0x1369, 0x1371), (0x19DA, 0x19DA), (0x2070, 0x2070),
      (0x2074, 0x2079), (0x2080, 0x2089), (0x2460, 0x2468), (0x2474, 0x247C),
      (0x2488, 0x2490), (0x24EA, 0x24EA), (0x24F5, 0x24FD), (0x24FF, 0x24FF),
      (0x2776, 0x277E), (0x2780, 0x2788), (0x278A, 0x2792), (0x10A40, 0x10A43),
      (0x10E60, 0x10E68), (0x11052, 0x1105A), (0x1F100, 0x1F10A)]"

definition isdigit :: "nat \<Rightarrow> bool" where
  "isdigit c \<longleftrightarrow> is_decimal c \<or> list_ex (\<lambda>(lo, hi). lo \<le> c \<and> c \<le> hi) other_digit_ranges"

text \<open>\<open>sub in s\<close> for strings.\<close>

fun starts_with :: "ustr \<Rightarrow> ustr \<Rightarrow> bool" where
  "starts_with [] s = True"
| "starts_with (p # ps) [] = False"
| "starts_with (p # ps) (c # cs) = (p = c \<and> starts_with ps cs)"

fun contains :: "ustr \<Rightarrow> ustr \<Rightarrow> bool" where
  "contains [] sub = starts_with sub []"
| "contains (c # cs) sub = (starts_with sub (c # cs) \<or> contains cs sub)"

text \<open>
  \<open>s.replace(old, new)\<close> for a non-empty \<open>old\<close> (every call of the program passes
  one): the occurrences are replaced from the left, without overlap. \<open>skip\<close> counts
  the characters of an occurrence still to be passed over.
\<close>

fun replace_from :: "ustr \<Rightarrow> ustr \<Rightarrow> nat \<Rightarrow> ustr \<Rightarrow> ustr" where
  "replace_from old new skip [] = []"
| "replace_from old new (Suc k) (c # cs) = replace_from old new k cs"
| "replace_from old new 0 (c # cs) =
     (if starts_with old (c # cs) then new @ replace_from old new (length old - 1) cs
      else c # replace_from old new 0 cs)"

definition py_replace :: "ustr \<Rightarrow> ustr \<Rightarrow> ustr \<Rightarrow> ustr" where
  "py_replace s old new = replace_from old new 0 s"

text \<open>\<open>s.split(sep)\<close> for a separator of one character.\<close>

fun py_split :: "nat \<Rightarrow> ustr \<Rightarrow> ustr list" where
  "py_split sep [] = [[]]"
| "py_split sep (c # cs) =
     (if c = sep then [] # py_split sep cs
      else (case py_split sep cs of [] \<Rightarrow> [[c]] | p # ps \<Rightarrow> (c # p) # ps))"

text \<open>
  \<open>int(s)\<close> in base 10 (CPython 3.11). Characters from 127 on are first mapped to
  ASCII: a whitespace to a space, a decimal digit to its ASCII digit, anything else
  is an error. Then ASCII whitespace around the number is skipped, a sign may come
  first, and the digits may be separated by single underscores. More than 4300 digits
  are refused.
\<close>

definition to_ascii :: "nat \<Rightarrow> nat option" where
  "to_ascii c =
     (if c < 127 then Some c
      else if is_space c then Some 0x20
      else map_option (\<lambda>v. 0x30 + v) (decimal_value c))"

definition c_isspace :: "nat \<Rightarrow> bool" where
  "c_isspace c \<longleftrightarrow> (0x9 \<le> c \<and> c \<le> 0xD) \<or> c = 0x20"

definition ascii_digit :: "nat \<Rightarrow> bool" where
  "ascii_digit c \<longleftrightarrow> 0x30 \<le> c \<and> c \<le> 0x39"

fun digits_value :: "int \<Rightarrow> ustr \<Rightarrow> int option" where
  "digits_value acc [] = Some acc"
| "digits_value acc (c # cs) =
     (if ascii_digit c then digits_value (acc * 10 + int (c - 0x30)) cs
      else if c = 0x5F then
        (case cs of
           [] \<Rightarrow> None
         | c' # _ \<Rightarrow> if ascii_digit c' then digits_value acc cs else None)
      else None)"

definition unsigned_value :: "ustr \<Rightarrow> int option" where
  "unsigned_value s =
     (case s of
        [] \<Rightarrow> None
      | c # _ \<Rightarrow> if ascii_digit c \<and> length (filter ascii_digit s) \<le> 4300
                 then digits_value 0 s else None)"

definition py_int :: "ustr \<Rightarrow> py_error + int" where
  "py_int s =
     (case those (map to_ascii s) of
        None \<Rightarrow> Inl ValueError
      | Some a \<Rightarrow>
          (let body = rev (dropWhile c_isspace (rev (dropWhile c_isspace a)));
               signed = (case body of
                           [] \<Rightarrow> None
                         | c # cs \<Rightarrow>
                             if c = 0x2D then map_option uminus (unsigned_value cs)
                             else if c = 0x2B then unsigned_value cs
                             else unsigned_value body)
           in case signed of None \<Rightarrow> Inl ValueError | Some n \<Rightarrow> Inr n))"

subsection \<open>Regular expressions\<close>

text \<open>
  The patterns of the program are concatenations of literals, counted or starred
  character classes, and one capturing group around a class. \<open>re\<close> matches by
  backtracking: each piece offers its ways to match in order of preference (a greedy
  repetition the longest first), and the first way in which the rest of the pattern
  also matches is taken. \<open>rx_atom\<close> lists the ways of one piece as (matched text,
  rest of the input); \<open>rx_seq\<close> lists the ways of a whole pattern as (text of the
  group, rest of the input), most preferred first.
\<close>

datatype rx =
  Lit ustr
  | Rep nat "nat \<Rightarrow> bool"
  | Star "nat \<Rightarrow> bool"
  | Plus "nat \<Rightarrow> bool"
  | Opt "nat \<Rightarrow> bool"
  | Group rx

fun rx_atom :: "rx \<Rightarrow> ustr \<Rightarrow> (ustr \<times> ustr) list" where
  "rx_atom (Lit w) s = (if starts_with w s then [(w, drop (length w) s)] else [])"
| "rx_atom (Rep n P) s =
     (if n \<le> length s \<and> list_all P (take n s) then [(take n s, drop n s)] else [])"
| "rx_atom (Star P) s =
     map (\<lambda>k. (take k s, drop k s)) (rev [0..<Suc (length (takeWhile P s))])"
| "rx_atom (Plus P) s =
     map (\<lambda>k. (take k s, drop k s)) (rev [1..<Suc (length (takeWhile P s))])"
| "rx_atom (Opt P) s =
     (case s of
        [] \<Rightarrow> [([], [])]
      | c # cs \<Rightarrow> if P c then [([c], cs), ([], s)] else [([], s)])"
| "rx_atom (Group r) s = rx_atom r s"

fun is_group :: "rx \<Rightarrow> bool" where
  "is_group (Group r) = True"
| "is_group r = False"

fun rx_seq :: "rx list \<Rightarrow> ustr \<Rightarrow> (ustr option \<times> ustr) list" where
  "rx_seq [] s = [(None, s)]"
| "rx_seq (r # rs) s =
     concat (map (\<lambda>(matched, rest).
                    map (\<lambda>(cap, rest'). (if is_group r then Some matched else cap, rest'))
                      (rx_seq rs rest))
               (rx_atom r s))"

text \<open>
  A match object: the whole matched text (\<open>group()\<close>) and the text of the group
  (\<open>group(1)\<close>). \<open>re.search\<close> takes the leftmost position at which the pattern
  matches.
\<close>

type_synonym match = "ustr \<times> ustr option"

definition rx_match_at :: "rx list \<Rightarrow> ustr \<Rightarrow> match option" where
  "rx_match_at p s =
     (case rx_seq p s of
        [] \<Rightarrow> None
      | (cap, rest) # _ \<Rightarrow> Some (take (length s - length rest) s, cap))"

fun re_search :: "rx list \<Rightarrow> ustr \<Rightarrow> match option" where
  "re_search p [] = rx_match_at p []"
| "re_search p (c # cs) =
     (case rx_match_at p (c # cs) of Some m \<Rightarrow> Some m | None \<Rightarrow> re_search p cs)"

definition group1 :: "match \<Rightarrow> ustr" where
  "group1 m = (case snd m of None \<Rightarrow> [] | Some g \<Rightarrow> g)"

text \<open>\<open>re.sub(p, '', s)\<close> for a pattern that matches no empty text.\<close>

fun re_sub_empty :: "rx list \<Rightarrow> nat \<Rightarrow> ustr \<Rightarrow> ustr" where
  "re_sub_empty p skip [] = []"
| "re_sub_empty p (Suc k) (c # cs) = re_sub_empty p k cs"
| "re_sub_empty p 0 (c # cs) =
     (case rx_match_at p (c # cs) of
        None \<Rightarrow> c # re_sub_empty p 0 cs
      | Some (w, g) \<Rightarrow> if w = [] then c # re_sub_empty p 0 cs
                       else re_sub_empty p (length w - 1) cs)"

text \<open>\<open>\d{4}-\d{2}-\d{2}\<close> and \<open>\(([^)]+)\)\<close>.\<close>

definition date_re :: "rx list" where
  "date_re = [Rep 4 is_decimal, Lit (u ''-''), Rep 2 is_decimal, Lit (u ''-''), Rep 2 is_decimal]"

definition amount_re :: "rx list" where
  "amount_re = [Lit (u ''(''), Group (Plus (\<lambda>c. c \<noteq> 0x29)), Lit (u '')'')]"

text \<open>
  \<open>total_patterns\<close> (lines 435-442), in their order. Each ends in \<open>\s*[::]?\s*([\d,\s]+)\<close>,
  where the class of the optional character holds the colon and the fullwidth colon
  U+FF1A; the labels are "total payment amount" with optional spaces, the same
  without spaces, "sum", "total", "payment amount" and "total sum".
\<close>

definition total_tail :: "rx list" where
  "total_tail =
     [Star is_space, Opt (\<lambda>c. c = 0x3A \<or> c = 0xFF1A), Star is_space,
      Group (Plus (\<lambda>c. is_decimal c \<or> c = 0x2C \<or> is_space c))]"

definition total_patterns :: "rx list list" where
  "total_patterns =
     [[Lit [0xCD1D], Star is_space, Lit [0xACB0, 0xC81C], Star is_space, Lit [0xAE08, 0xC561]]
        @ total_tail,
      [Lit [0xCD1D, 0xACB0, 0xC81C, 0xAE08, 0xC561]] @ total_tail,
      [Lit [0xD569, 0xACC4]] @ total_tail,
      [Lit [0xCD1D, 0xC561]] @ total_tail,
      [Lit [0xACB0, 0xC81C, 0xAE08, 0xC561]] @ total_tail,
      [Lit [0xCD1D, 0xAE08, 0xC561]] @ total_tail]"

subsection \<open>The line parser of \<open>process_receipt\<close>\<close>

text \<open>The labels "store name:" and "date:", and the currency suffix "won".\<close>

definition store_label :: ustr where
  "store_label = [0xAC00, 0xAC8C, 0xBA85, 0x3A]"

definition date_label :: ustr where
  "date_label = [0xB0A0, 0xC9DC, 0x3A]"

definition won :: ustr where
  "won = [0xC6D0]"

text \<open>\<open>_parse_store_name\<close> (lines 393-401) and \<open>_parse_date\<close> (lines 403-415).\<close>

definition parse_store_name :: "ustr \<Rightarrow> ustr" where
  "parse_store_name line =
     py_strip (re_sub_empty date_re 0 (py_strip (py_replace line store_label [])))"

definition parse_date :: "ustr \<Rightarrow> ustr option" where
  "parse_date line =
     map_option fst (re_search date_re (py_strip (py_replace line date_label [])))"

text \<open>
  The fields collected by the loop over the lines (lines 429-432). A string counts
  as missing when it is \<open>None\<close> or empty, a total when it is \<open>None\<close> or 0.
\<close>

record draft =
  d_store_name :: "ustr option"
  d_date :: "ustr option"
  d_items :: "item list"
  d_total_amount :: "int option"

definition empty_draft :: draft where
  "empty_draft = \<lparr>d_store_name = None, d_date = None, d_items = [], d_total_amount = None\<rparr>"

definition truthy_str :: "ustr option \<Rightarrow> bool" where
  "truthy_str x = (case x of None \<Rightarrow> False | Some s \<Rightarrow> s \<noteq> [])"

definition truthy_int :: "int option \<Rightarrow> bool" where
  "truthy_int x = (case x of None \<Rightarrow> False | Some n \<Rightarrow> n \<noteq> 0)"

text \<open>
  Item parsing (lines 465-484): a line with a colon and both parentheses is split at
  the colons; with three parts or more and a parenthesised amount, the amount is read
  by \<open>int\<close> and the item is kept when \<open>_is_valid_category\<close> accepts its pair.
\<close>

definition parse_item :: "ustr \<Rightarrow> item list \<Rightarrow> py_error + item list" where
  "parse_item line its =
     (if contains line (u '':'') \<and> contains line (u ''('') \<and> contains line (u '')'') then
        (case py_split 0x3A line of
           p0 # p1 # p2 # _ \<Rightarrow>
             (let name = py_strip p0;
                  category = py_strip p1;
                  subcategory = py_strip (case py_split 0x28 p2 of [] \<Rightarrow> [] | s0 # _ \<Rightarrow> s0)
              in case re_search amount_re line of
                   None \<Rightarrow> Inr its
                 | Some amount_str \<Rightarrow>
                     (case py_int (py_replace (py_replace (group1 amount_str) (u '','') []) won []) of
                        Inl e \<Rightarrow> Inl e
                      | Inr amount \<Rightarrow>
                          if is_valid_category category subcategory then
                            Inr (its @ [\<lparr>item_name = name, item_category = category,
                                         item_subcategory = subcategory, item_amount = amount\<rparr>])
                          else Inr its))
         | _ \<Rightarrow> Inr its)
      else Inr its)"

text \<open>
  Total parsing (lines 487-494): every line that reaches this point is tried against
  the patterns in order; the first pattern that matches sets \<open>total_amount\<close>. The
  assignment is not guarded by the value already held, and the closing
  \<open>if total_amount: continue\<close> is the last statement of the loop body.
\<close>

fun first_match :: "rx list list \<Rightarrow> ustr \<Rightarrow> match option" where
  "first_match [] text = None"
| "first_match (p # ps) text =
     (case re_search p text of Some m \<Rightarrow> Some m | None \<Rightarrow> first_match ps text)"

definition parse_total :: "ustr \<Rightarrow> int option \<Rightarrow> py_error + int option" where
  "parse_total text total_amount =
     (case first_match total_patterns text of
        None \<Rightarrow> Inr total_amount
      | Some m \<Rightarrow>
          (case py_int (py_replace (py_replace (group1 m) (u '','') []) (u '' '') []) of
             Inl e \<Rightarrow> Inl e
           | Inr n \<Rightarrow> Inr (Some n)))"

text \<open>
  One turn of \<open>for line in lines\<close> (lines 445-494). \<open>try_store\<close> and \<open>try_date\<close>
  are the conditions of the two guarded blocks; each block ends the turn
  (\<open>continue\<close>) when it has filled its field.
\<close>

definition parse_line :: "ustr \<Rightarrow> draft \<Rightarrow> py_error + draft" where
  "parse_line raw dr =
     (let line = py_strip raw
      in if line = [] then Inr dr
         else
           (let try_store = \<not> truthy_str (d_store_name dr) \<and>
                              (contains line store_label \<or> \<not> list_ex isdigit line);
                dr1 = (if try_store then dr\<lparr>d_store_name := Some (parse_store_name line)\<rparr>
                       else dr)
            in if try_store \<and> truthy_str (d_store_name dr1) then Inr dr1
               else
                 (let try_date = \<not> truthy_str (d_date dr1) \<and>
                                   (contains line date_label \<or> re_search date_re line \<noteq> None);
                      dr2 = (if try_date then dr1\<lparr>d_date := parse_date line\<rparr> else dr1)
                  in if try_date \<and> truthy_str (d_date dr2) then Inr dr2
                     else
                       (case parse_item line (d_items dr2) of
                          Inl e \<Rightarrow> Inl e
                        | Inr its \<Rightarrow>
                            (case parse_total line (d_total_amount dr2) of
                               Inl e \<Rightarrow> Inl e
                             | Inr tot \<Rightarrow> Inr (dr2\<lparr>d_items := its, d_total_amount := tot\<rparr>))))))"

fun parse_lines :: "ustr list \<Rightarrow> draft \<Rightarrow> py_error + draft" where
  "parse_lines [] dr = Inr dr"
| "parse_lines (l # ls) dr =
     (case parse_line l dr of Inl e \<Rightarrow> Inl e | Inr dr' \<Rightarrow> parse_lines ls dr')"

text \<open>
  \<open>process_receipt\<close> (lines 417-537). \<open>response\<close> is what \<open>_call_ollama_api\<close>
  returned (\<open>None\<close> when the call failed), \<open>receipt_text\<close> the text the method was
  called with, scanned for a total when the response gave none. \<open>parse_response\<close>
  is the part up to the call of \<open>add_receipt\<close>: the draft, or \<open>None\<close> when a field
  is missing. Any exception makes \<open>process_receipt\<close> return \<open>False\<close>.
\<close>

definition parse_response :: "ustr \<Rightarrow> ustr \<Rightarrow> py_error + draft option" where
  "parse_response response receipt_text =
     (case parse_lines (py_split 0xA (py_strip response)) empty_draft of
        Inl e \<Rightarrow> Inl e
      | Inr dr \<Rightarrow>
          if \<not> truthy_str (d_store_name dr) then Inr None
          else if \<not> truthy_str (d_date dr) then Inr None
          else if d_items dr = [] then Inr None
          else if \<not> truthy_int (d_total_amount dr) then
            (case parse_total receipt_text (d_total_amount dr) of
               Inl e \<Rightarrow> Inl e
             | Inr tot \<Rightarrow> if truthy_int tot then Inr (Some (dr\<lparr>d_total_amount := tot\<rparr>))
                          else Inr None)
          else Inr (Some dr))"

definition process_receipt ::
  "similarity \<Rightarrow> lock_states \<Rightarrow> ustr option \<Rightarrow> ustr \<Rightarrow> db \<Rightarrow> bool \<times> db" where
  "process_receipt ratio locks response receipt_text d =
     (if \<not> truthy_str response then (False, d)
      else
        (case parse_response (case response of None \<Rightarrow> [] | Some r \<Rightarrow> r) receipt_text of
           Inr (Some dr) \<Rightarrow>
             (case (d_store_name dr, d_date dr, d_total_amount dr) of
                (Some store_name, Some date, Some total_amount) \<Rightarrow>
                  (case add_receipt ratio locks store_name date (d_items dr) total_amount d of
                     (result, d') \<Rightarrow> (truthy_id result, d'))
              | _ \<Rightarrow> (False, d))
         | _ \<Rightarrow> (False, d)))"

subsection \<open>Notions used in the statements\<close>

text \<open>
  The seeded tables in closed form: identifiers are handed out in order, the main
  categories first, then the subcategories category by category.
\<close>

fun main_rows_from :: "int \<Rightarrow> ustr list \<Rightarrow> main_category_row list" where
  "main_rows_from n [] = []"
| "main_rows_from n (c # cs) = \<lparr>mc_id = n + 1, mc_name = c\<rparr> # main_rows_from (n + 1) cs"

fun sub_rows_from :: "int \<Rightarrow> int \<Rightarrow> ustr list \<Rightarrow> sub_category_row list" where
  "sub_rows_from n m [] = []"
| "sub_rows_from n m (s # ss) =
     \<lparr>sc_id = n + 1, sc_main_category_id = m, sc_name = s\<rparr> # sub_rows_from (n + 1) m ss"

fun all_sub_rows :: "int \<Rightarrow> int \<Rightarrow> ustr list list \<Rightarrow> sub_category_row list" where
  "all_sub_rows n m [] = []"
| "all_sub_rows n m (ss # rest) =
     sub_rows_from n (m + 1) ss @ all_sub_rows (n + int (length ss)) (m + 1) rest"

text \<open>A store whose category tables are the ones \<open>_init_db\<close> wrote.\<close>

definition seeded :: "db \<Rightarrow> bool" where
  "seeded d \<longleftrightarrow>
     main_categories d = main_categories init_db \<and> sub_categories d = sub_categories init_db"

text \<open>The test \<open>if main_id and sub_id\<close> on a pair of identifiers.\<close>

definition resolved :: "int option \<times> int option \<Rightarrow> bool" where
  "resolved ids \<longleftrightarrow> truthy_id (fst ids) \<and> truthy_id (snd ids)"

text \<open>
  An item row that holds a given item for a given receipt, with the identifiers the
  item resolves to.
\<close>

definition stored_as ::
  "similarity \<Rightarrow> bool \<times> bool \<Rightarrow> db \<Rightarrow> int \<Rightarrow> item_row \<Rightarrow> item \<Rightarrow> bool" where
  "stored_as ratio locked d receipt_id r it \<longleftrightarrow>
     i_receipt_id r = receipt_id \<and> i_name r = item_name it \<and> i_amount r = item_amount it \<and>
     resolved (resolve_ids ratio locked d (item_category it) (item_subcategory it)) \<and>
     resolve_ids ratio locked d (item_category it) (item_subcategory it) =
       (Some (i_main_category_id r), Some (i_sub_category_id r))"

text \<open>
  Item rows that hold the items of a list one for one, in order, the item at position
  \<open>k\<close> resolved under the lock states \<open>locks k\<close>.
\<close>

fun stored_rows ::
  "similarity \<Rightarrow> lock_states \<Rightarrow> db \<Rightarrow> int \<Rightarrow> item_row list \<Rightarrow> item list \<Rightarrow> bool" where
  "stored_rows ratio locks d receipt_id [] [] \<longleftrightarrow> True"
| "stored_rows ratio locks d receipt_id (r # rs) (it # its) \<longleftrightarrow>
     stored_as ratio (locks 0) d receipt_id r it \<and>
     stored_rows ratio (\<lambda>k. locks (Suc k)) d receipt_id rs its"
| "stored_rows ratio locks d receipt_id [] (it # its) \<longleftrightarrow> False"
| "stored_rows ratio locks d receipt_id (r # rs) [] \<longleftrightarrow> False"

text \<open>
  The items of a list can all be inserted into the table \<open>items\<close> when its sequence
  value is \<open>seq\<close>: every name and amount can be bound, and an identifier is left for
  each row.
\<close>

fun can_insert :: "int \<Rightarrow> item list \<Rightarrow> bool" where
  "can_insert seq [] \<longleftrightarrow> True"
| "can_insert seq (it # its) \<longleftrightarrow>
     sqlite_text (item_name it) \<and> sqlite_int (item_amount it) \<and> seq < max_rowid \<and>
     can_insert (seq + 1) its"

text \<open>
  Two courses of the lock: \<open>never_locked\<close>, where every lookup can read (a call that
  writes little), and \<open>locked_from n\<close>, where the lookups for the items from position
  \<open>n\<close> on find the database locked (the insertion before position \<open>n\<close> made the
  transaction spill, for instance an item whose name has four million characters).
\<close>

definition never_locked :: lock_states where
  "never_locked k = (False, False)"

definition locked_from :: "nat \<Rightarrow> lock_states" where
  "locked_from n k = (n \<le> k, n \<le> k)"

definition db_of :: "loop_exit \<Rightarrow> db" where
  "db_of ex = (case ex of Completed d \<Rightarrow> d | Returned d \<Rightarrow> d)"

text \<open>
  An item row whose subcategory identifier names a subcategory row of its own main
  category, the two names being a pair of \<open>self.valid_categories\<close>.
\<close>

definition item_in_taxonomy :: "db \<Rightarrow> item_row \<Rightarrow> bool" where
  "item_in_taxonomy d r \<longleftrightarrow>
     list_ex (\<lambda>sr. sc_id sr = i_sub_category_id r \<and>
                   sc_main_category_id sr = i_main_category_id r \<and>
                   list_ex (\<lambda>mr. mc_id mr = i_main_category_id r \<and>
                                 (mc_name mr, sc_name sr) \<in> set (pairs_of valid_categories))
                     (main_categories d))
       (sub_categories d)"

definition store_invariant :: "db \<Rightarrow> bool" where
  "store_invariant d \<longleftrightarrow> seeded d \<and> list_all (item_in_taxonomy d) (items d)"

text \<open>
  What the documentation of \<open>difflib\<close> promises of \<open>ratio\<close>: a value in [0, 1] that
  is 1 for identical sequences.
\<close>

definition ratio_contract :: "similarity \<Rightarrow> bool" where
  "ratio_contract ratio \<longleftrightarrow> (\<forall>x w. 0 \<le> ratio x w \<and> ratio x w \<le> 1) \<and> (\<forall>w. ratio w w = 1)"

text \<open>
  The closest candidate in the sense of \<open>get_close_matches\<close>: one that reaches the
  cutoff and that no other candidate exceeds.
\<close>

definition closest :: "similarity \<Rightarrow> ustr \<Rightarrow> ustr list \<Rightarrow> ustr \<Rightarrow> bool" where
  "closest ratio word candidates best \<longleftrightarrow>
     best \<in> set candidates \<and> cutoff \<le> ratio best word \<and>
     (\<forall>c\<in>set candidates. ratio c word \<le> ratio best word)"

text \<open>
  Concrete instances of the two parameters, used to evaluate the model on examples.
  \<open>ratio_sample\<close> has the values of \<open>difflib\<close> on identical strings and on the
  candidates of "food" against "eumryosu" (a drink with a trailing syllable; 0.8 to
  "drink") and the candidates of "shopping" against "electronics" (at most 1/3), and is
  0 elsewhere. \<open>strftime_sample\<close> is SQLite's \<open>strftime\<close> for the three formats of
  the program on a text \<open>YYYY-MM-DD\<close> of ASCII digits with month 01 to 12 and day 01
  to 28, and \<open>None\<close> elsewhere.
\<close>

definition ratio_sample :: similarity where
  "ratio_sample x w =
     (if x = w then 1
      else if w = [0xC74C, 0xB8CC, 0xC218] \<and> x = [0xC74C, 0xB8CC] then 4 / 5
      else if w = [0xC804, 0xC790, 0xC81C, 0xD488] \<and> x = [0xAC00, 0xC804] then 1 / 3
      else if w = [0xC804, 0xC790, 0xC81C, 0xD488] \<and>
              (x = [0xC0DD, 0xD544, 0xD488] \<or> x = [0xD654, 0xC7A5, 0xD488]) then 2 / 7
      else 0)"

definition two_digits :: "nat \<Rightarrow> nat \<Rightarrow> nat option" where
  "two_digits a b =
     (if ascii_digit a \<and> ascii_digit b then Some ((a - 0x30) * 10 + (b - 0x30)) else None)"

definition strftime_sample :: strftime where
  "strftime_sample fmt t =
     (case t of
        [y1, y2, y3, y4, h1, m1, m2, h2, d1, d2] \<Rightarrow>
          (case (two_digits m1 m2, two_digits d1 d2) of
             (Some m, Some dd) \<Rightarrow>
               if list_all ascii_digit [y1, y2, y3, y4] \<and> h1 = 0x2D \<and> h2 = 0x2D \<and>
                  1 \<le> m \<and> m \<le> 12 \<and> 1 \<le> dd \<and> dd \<le> 28
               then (if fmt = u ''%Y-%m-%d'' then Some t
                     else if fmt = u ''%Y-%m'' then Some (take 7 t)
                     else if fmt = u ''%Y'' then Some (take 4 t)
                     else None)
               else None
           | _ \<Rightarrow> None)
      | _ \<Rightarrow> None)"

text \<open>
  A store with two receipts of March 2024, one item each under ("food", "drink"); it
  is the state after two calls of \<open>add_receipt\<close> on the fresh store
  (\<open>march_store_by_add_receipt\<close>).
\<close>

definition march_store :: db where
  "march_store =
     init_db\<lparr>receipts := [\<lparr>r_id = 1, r_store_name = u ''shop'', r_date = u ''2024-03-01'',
                             r_total_amount = 10000\<rparr>,
                           \<lparr>r_id = 2, r_store_name = u ''cafe'', r_date = u ''2024-03-20'',
                             r_total_amount = 5000\<rparr>],
             receipts_seq := 2,
             items := [\<lparr>i_id = 1, i_receipt_id = 1, i_name = u ''milk'', i_main_category_id = 6,
                         i_sub_category_id = 27, i_amount = 10000\<rparr>,
                       \<lparr>i_id = 2, i_receipt_id = 2, i_name = u ''tea'', i_main_category_id = 6,
                         i_sub_category_id = 27, i_amount = 5000\<rparr>],
             items_seq := 2\<rparr>"

text \<open>
  A response of five lines: "store name: Starbucks", "date: 2024-03-15",
  "americano: food:drink (4,500 won)", "total: 4,500 won", "sum: 9,000 won". The
  fourth line matches the fourth total pattern, the fifth line the third.
\<close>

definition line_store :: ustr where
  "line_store =
     [0xAC00, 0xAC8C, 0xBA85, 0x3A, 0x20, 0xC2A4, 0xD0C0, 0xBC85, 0xC2A4]"

definition line_date :: ustr where
  "line_date =
     [0xB0A0, 0xC9DC, 0x3A, 0x20, 0x32, 0x30, 0x32, 0x34, 0x2D, 0x30, 0x33, 0x2D, 0x31,
      0x35]"

definition line_item :: ustr where
  "line_item =
     [0xC544, 0xBA54, 0xB9AC, 0xCE74, 0xB178, 0x3A, 0x20, 0xC74C, 0xC2DD, 0x3A, 0xC74C,
      0xB8CC, 0x20, 0x28, 0x34, 0x2C, 0x35, 0x30, 0x30, 0xC6D0, 0x29]"

definition line_total :: ustr where
  "line_total =
     [0xCD1D, 0xC561, 0x3A, 0x20, 0x34, 0x2C, 0x35, 0x30, 0x30, 0xC6D0]"

definition line_sum :: ustr where
  "line_sum =
     [0xD569, 0xACC4, 0x3A, 0x20, 0x39, 0x2C, 0x30, 0x30, 0x30, 0xC6D0]"

definition two_totals_lines :: "ustr list" where
  "two_totals_lines = [line_store, line_date, line_item, line_total, line_sum]"

definition two_totals_response :: ustr where
  "two_totals_response =
     [0xAC00, 0xAC8C, 0xBA85, 0x3A, 0x20, 0xC2A4, 0xD0C0, 0xBC85, 0xC2A4, 0xA, 0xB0A0,
      0xC9DC, 0x3A, 0x20, 0x32, 0x30, 0x32, 0x34, 0x2D, 0x30, 0x33, 0x2D, 0x31, 0x35,
      0xA, 0xC544, 0xBA54, 0xB9AC, 0xCE74, 0xB178, 0x3A, 0x20, 0xC74C, 0xC2DD, 0x3A,
      0xC74C, 0xB8CC, 0x20, 0x28, 0x34, 0x2C, 0x35, 0x30, 0x30, 0xC6D0, 0x29, 0xA,
      0xCD1D, 0xC561, 0x3A, 0x20, 0x34, 0x2C, 0x35, 0x30, 0x30, 0xC6D0, 0xA, 0xD569,
      0xACC4, 0x3A, 0x20, 0x39, 0x2C, 0x30, 0x30, 0x30, 0xC6D0]"

section \<open>Properties\<close>

subsection \<open>The seeded tables\<close>

lemma names_main_rows_from: "mc_name ` set (main_rows_from n cs) = set cs"
  by (induction cs arbitrary: n) auto

lemma fold_insert_main_category:
  "distinct cs \<Longrightarrow> set cs \<inter> mc_name ` set (main_categories d) = {} \<Longrightarrow>
   fold insert_main_category cs d =
     d\<lparr>main_categories := main_categories d @ main_rows_from (main_categories_seq d) cs,
       main_categories_seq := main_categories_seq d + int (length cs)\<rparr>"
  by (induction cs arbitrary: d) (auto simp: insert_main_category_def)

lemma fold_insert_sub_category:
  "filter (\<lambda>r. mc_name r = c) (main_categories d) = [mr] \<Longrightarrow> distinct ss \<Longrightarrow>
   \<forall>r\<in>set (sub_categories d). sc_main_category_id r = mc_id mr \<longrightarrow> sc_name r \<notin> set ss \<Longrightarrow>
   fold (insert_sub_category c) ss d =
     d\<lparr>sub_categories := sub_categories d @ sub_rows_from (sub_categories_seq d) (mc_id mr) ss,
       sub_categories_seq := sub_categories_seq d + int (length ss)\<rparr>"
proof (induction ss arbitrary: d)
  case Nil
  then show ?case by simp
next
  case (Cons s ss)
  let ?d1 = "d\<lparr>sub_categories := sub_categories d @
                  [\<lparr>sc_id = sub_categories_seq d + 1, sc_main_category_id = mc_id mr, sc_name = s\<rparr>],
                sub_categories_seq := sub_categories_seq d + 1\<rparr>"
  have step: "insert_sub_category c s d = ?d1"
    using Cons.prems by (auto simp: insert_sub_category_def insert_sub_category_row_def)
  have "fold (insert_sub_category c) ss ?d1 =
          ?d1\<lparr>sub_categories := sub_categories ?d1 @ sub_rows_from (sub_categories_seq ?d1) (mc_id mr) ss,
              sub_categories_seq := sub_categories_seq ?d1 + int (length ss)\<rparr>"
    using Cons.prems by (intro Cons.IH) auto
  then show ?case by (simp add: step)
qed

lemma main_id_sub_rows_from: "sc_main_category_id ` set (sub_rows_from n k ss) \<subseteq> {k}"
  by (induction ss arbitrary: n) auto

lemma fold_seed_sub_categories:
  "main_categories d = pre @ main_rows_from m (map fst tb) \<Longrightarrow>
   distinct (map fst tb) \<Longrightarrow> set (map fst tb) \<inter> mc_name ` set pre = {} \<Longrightarrow>
   \<forall>(c, subs)\<in>set tb. distinct subs \<Longrightarrow>
   \<forall>r\<in>set (sub_categories d). sc_main_category_id r \<le> m \<Longrightarrow>
   fold (\<lambda>(main_cat, sub_cats) d. fold (insert_sub_category main_cat) sub_cats d) tb d =
     d\<lparr>sub_categories := sub_categories d @ all_sub_rows (sub_categories_seq d) m (map snd tb),
       sub_categories_seq := sub_categories_seq d + int (length (concat (map snd tb)))\<rparr>"
proof (induction tb arbitrary: d m pre)
  case Nil
  then show ?case by simp
next
  case (Cons e tb)
  obtain c subs where e: "e = (c, subs)" by (cases e)
  let ?mr = "\<lparr>mc_id = m + 1, mc_name = c\<rparr>"
  have flt: "filter (\<lambda>r. mc_name r = c) (main_categories d) = [?mr]"
  proof -
    have "filter (\<lambda>r. mc_name r = c) pre = []"
      using Cons.prems(3) e by (auto simp: filter_empty_conv)
    moreover have "filter (\<lambda>r. mc_name r = c) (main_rows_from (m + 1) (map fst tb)) = []"
      using Cons.prems(2) e names_main_rows_from[of "m + 1" "map fst tb"]
      by (auto simp: filter_empty_conv)
    ultimately show ?thesis using Cons.prems(1) e by simp
  qed
  let ?d1 = "d\<lparr>sub_categories := sub_categories d @ sub_rows_from (sub_categories_seq d) (m + 1) subs,
                sub_categories_seq := sub_categories_seq d + int (length subs)\<rparr>"
  have inner: "fold (insert_sub_category c) subs d = ?d1"
    using fold_insert_sub_category[OF flt, of subs] Cons.prems(4,5) e by fastforce
  have "fold (\<lambda>(main_cat, sub_cats) d. fold (insert_sub_category main_cat) sub_cats d) tb ?d1 =
     ?d1\<lparr>sub_categories := sub_categories ?d1 @ all_sub_rows (sub_categories_seq ?d1) (m + 1) (map snd tb),
       sub_categories_seq := sub_categories_seq ?d1 + int (length (concat (map snd tb)))\<rparr>"
  proof (rule Cons.IH[where pre = "pre @ [?mr]"])
    show "main_categories ?d1 = (pre @ [?mr]) @ main_rows_from (m + 1) (map fst tb)"
      using Cons.prems(1) e by simp
    show "distinct (map fst tb)" using Cons.prems(2) by simp
    show "set (map fst tb) \<inter> mc_name ` set (pre @ [?mr]) = {}"
      using Cons.prems(2,3) e by auto
    show "\<forall>(c, subs)\<in>set tb. distinct subs" using Cons.prems(4) by simp
    show "\<forall>r\<in>set (sub_categories ?d1). sc_main_category_id r \<le> m + 1"
      using Cons.prems(5) main_id_sub_rows_from[of "sub_categories_seq d" "m + 1" subs] by fastforce
  qed
  then show ?case by (simp add: e inner)
qed

lemma seed_db_closed_form:
  assumes "distinct (map fst table)" and "\<forall>(c, subs)\<in>set table. distinct subs"
  shows "seed_db table =
           \<lparr>main_categories = main_rows_from 0 (map fst table),
            main_categories_seq = int (length table),
            sub_categories = all_sub_rows 0 0 (map snd table),
            sub_categories_seq = int (length (concat (map snd table))),
            receipts = [], receipts_seq = 0, items = [], items_seq = 0\<rparr>"
proof -
  let ?d0 = "fold insert_main_category (map fst table) empty_db"
  have d0: "?d0 = empty_db\<lparr>main_categories := main_rows_from 0 (map fst table),
                              main_categories_seq := int (length table)\<rparr>"
    using fold_insert_main_category[of "map fst table" empty_db] assms(1)
    by (simp add: empty_db_def)
  have "fold (\<lambda>(main_cat, sub_cats) d. fold (insert_sub_category main_cat) sub_cats d) table ?d0 =
     ?d0\<lparr>sub_categories := sub_categories ?d0 @ all_sub_rows (sub_categories_seq ?d0) 0 (map snd table),
       sub_categories_seq := sub_categories_seq ?d0 + int (length (concat (map snd table)))\<rparr>"
    by (rule fold_seed_sub_categories[where pre = "[]"]) (use assms d0 in \<open>simp_all add: empty_db_def\<close>)
  then show ?thesis
    unfolding seed_db_def using d0 by (simp add: empty_db_def)
qed

lemma valid_categories_distinct:
  "distinct (map fst valid_categories)" "\<forall>(c, subs)\<in>set valid_categories. distinct subs"
  by (simp_all add: valid_categories_def)

lemma init_db_eq:
  "init_db =
     \<lparr>main_categories =
        [\<lparr>mc_id = 1, mc_name = [0xBBF8, 0xC6A9]\<rparr>,
         \<lparr>mc_id = 2, mc_name = [0xC1FC, 0xD551]\<rparr>,
         \<lparr>mc_id = 3, mc_name = [0xAD50, 0xD1B5]\<rparr>,
         \<lparr>mc_id = 4, mc_name = [0xC758, 0xB8CC]\<rparr>,
         \<lparr>mc_id = 5, mc_name = [0xC5EC, 0xD589]\<rparr>,
         \<lparr>mc_id = 6, mc_name = [0xC74C, 0xC2DD]\<rparr>,
         \<lparr>mc_id = 7, mc_name = [0xCDE8, 0xBBF8]\<rparr>,
         \<lparr>mc_id = 8, mc_name = [0xD22C, 0xC790]\<rparr>,
         \<lparr>mc_id = 9, mc_name = [0xACF5, 0xACFC, 0xAE08]\<rparr>],
      main_categories_seq = 9,
      sub_categories =
        [\<lparr>sc_id = 1, sc_main_category_id = 1, sc_name = [0xD53C, 0xBD80, 0x20, 0xBBF8, 0xC6A9]\<rparr>,
         \<lparr>sc_id = 2, sc_main_category_id = 1, sc_name = [0xD5E4, 0xC5B4]\<rparr>,
         \<lparr>sc_id = 3, sc_main_category_id = 1, sc_name = [0xD654, 0xC7A5]\<rparr>,
         \<lparr>sc_id = 4, sc_main_category_id = 2, sc_name = [0xC0DD, 0xD544, 0xD488]\<rparr>,
         \<lparr>sc_id = 5, sc_main_category_id = 2, sc_name = [0xC758, 0xB958]\<rparr>,
         \<lparr>sc_id = 6, sc_main_category_id = 2, sc_name = [0xAC00, 0xC804]\<rparr>,
         \<lparr>sc_id = 7, sc_main_category_id = 2, sc_name = [0xAC00, 0xAD6C]\<rparr>,
         \<lparr>sc_id = 8, sc_main_category_id = 2, sc_name = [0xC2DD, 0xC7AC, 0xB8CC]\<rparr>,
         \<lparr>sc_id = 9, sc_main_category_id = 2, sc_name = [0xC7A5, 0xB09C, 0xAC10]\<rparr>,
         \<lparr>sc_id = 10, sc_main_category_id = 2, sc_name = [0xD654, 0xC7A5, 0xD488]\<rparr>,
         \<lparr>sc_id = 11, sc_main_category_id = 2, sc_name = [0xC2A4, 0xB9C8, 0xD2B8, 0xAE30, 0xAE30]\<rparr>,
         \<lparr>sc_id = 12, sc_main_category_id = 3, sc_name = [0xD0DD, 0xC2DC]\<rparr>,
         \<lparr>sc_id = 13, sc_main_category_id = 3, sc_name = [0xB300, 0xC911, 0xAD50, 0xD1B5]\<rparr>,
         \<lparr>sc_id = 14, sc_main_category_id = 3, sc_name = [0xC5EC, 0xAC1D, 0xC120]\<rparr>,
         \<lparr>sc_id = 15, sc_main_category_id = 3, sc_name = [0xAE30, 0xCC28]\<rparr>,
         \<lparr>sc_id = 16, sc_main_category_id = 3, sc_name = [0xD56D, 0xACF5, 0xAE30]\<rparr>,
         \<lparr>sc_id = 17, sc_main_category_id = 3, sc_name = [0xC8FC, 0xC720]\<rparr>,
         \<lparr>sc_id = 18, sc_main_category_id = 4, sc_name = [0xC57D, 0xD488]\<rparr>,
         \<lparr>sc_id = 19, sc_main_category_id = 4, sc_name = [0xC9C4, 0xB8CC]\<rparr>,
         \<lparr>sc_id = 20, sc_main_category_id = 5, sc_name = [0xC2DD, 0xBE44]\<rparr>,
         \<lparr>sc_id = 21, sc_main_category_id = 5, sc_name = [0xC219, 0xBC15, 0xBE44]\<rparr>,
         \<lparr>sc_id = 22, sc_main_category_id = 5, sc_name = [0xD2F0, 0xCF13]\<rparr>,
         \<lparr>sc_id = 23, sc_main_category_id = 6, sc_name = [0xC544, 0xCE68]\<rparr>,
         \<lparr>sc_id = 24, sc_main_category_id = 6, sc_name = [0xC810, 0xC2EC]\<rparr>,
         \<lparr>sc_id = 25, sc_main_category_id = 6, sc_name = [0xC800, 0xB141]\<rparr>,
         \<lparr>sc_id = 26, sc_main_category_id = 6, sc_name = [0xAC04, 0xC2DD]\<rparr>,
         \<lparr>sc_id = 27, sc_main_category_id = 6, sc_name = [0xC74C, 0xB8CC]\<rparr>,
         \<lparr>sc_id = 28, sc_main_category_id = 6, sc_name = [0xACFC, 0xC77C]\<rparr>,
         \<lparr>sc_id = 29, sc_main_category_id = 6, sc_name = [0xB514, 0xC800, 0xD2B8]\<rparr>,
         \<lparr>sc_id = 30, sc_main_category_id = 6, sc_name = [0xC720, 0xC81C, 0xD488]\<rparr>,
         \<lparr>sc_id = 31, sc_main_category_id = 7, sc_name = [0xAC8C, 0xC784]\<rparr>,
         \<lparr>sc_id = 32, sc_main_category_id = 7, sc_name = [0xC601, 0xD654]\<rparr>,
         \<lparr>sc_id = 33, sc_main_category_id = 7, sc_name = [0xACF5, 0xC5F0]\<rparr>,
         \<lparr>sc_id = 34, sc_main_category_id = 7, sc_name = [0xB180, 0xC774, 0xACF5, 0xC6D0]\<rparr>,
         \<lparr>sc_id = 35, sc_main_category_id = 7, sc_name = [0xC6B4, 0xB3D9]\<rparr>,
         \<lparr>sc_id = 36, sc_main_category_id = 7, sc_name = [0xB3C4, 0xC11C]\<rparr>,
         \<lparr>sc_id = 37, sc_main_category_id = 8, sc_name = [0xAD50, 0xC721]\<rparr>,
         \<lparr>sc_id = 38, sc_main_category_id = 8, sc_name = [0xBCF4, 0xD5D8]\<rparr>,
         \<lparr>sc_id = 39, sc_main_category_id = 8, sc_name = [0xC8FC, 0xC2DD]\<rparr>,
         \<lparr>sc_id = 40, sc_main_category_id = 8, sc_name = [0xBD80, 0xB3D9, 0xC0B0]\<rparr>,
         \<lparr>sc_id = 41, sc_main_category_id = 8, sc_name = [0xC2E0, 0xC6A9, 0xCE74, 0xB4DC]\<rparr>,
         \<lparr>sc_id = 42, sc_main_category_id = 9, sc_name = [0xD1B5, 0xC2E0, 0xBE44]\<rparr>,
         \<lparr>sc_id = 43, sc_main_category_id = 9, sc_name = [0xC804, 0xAE30, 0xC138]\<rparr>,
         \<lparr>sc_id = 44, sc_main_category_id = 9, sc_name = [0xAC00, 0xC2A4, 0xBE44]\<rparr>,
         \<lparr>sc_id = 45, sc_main_category_id = 9, sc_name = [0xAD6C, 0xB3C5, 0xB8CC]\<rparr>,
         \<lparr>sc_id = 46, sc_main_category_id = 9, sc_name = [0xBA64, 0xBC84, 0xC2ED]\<rparr>,
         \<lparr>sc_id = 47, sc_main_category_id = 9, sc_name = [0xC778, 0xD130, 0xB137, 0x20, 0xC694, 0xAE08]\<rparr>,
         \<lparr>sc_id = 48, sc_main_category_id = 9, sc_name = [0xD734, 0xB300, 0xD3F0, 0x20, 0xC694, 0xAE08]\<rparr>,
         \<lparr>sc_id = 49, sc_main_category_id = 9, sc_name = [0xC138, 0xAE08]\<rparr>],
      sub_categories_seq = 49,
      receipts = [], receipts_seq = 0, items = [], items_seq = 0\<rparr>"
  unfolding init_db_def
  by (subst seed_db_closed_form) (simp_all add: valid_categories_def)

subsection \<open>Validation against the seeded table\<close>

text \<open>
  C1. The claim: \<open>validate\<close> returns true for every (category, subcategory) pair of
  the table the store is seeded with. The code at the pair ("medical", "medicine"):
  the pair is in \<open>self.valid_categories\<close>, and \<open>_is_valid_category\<close>, which consults
  its own local table, rejects it.
\<close>

theorem is_valid_category_rejects_seeded_pair:
  "([0xC758, 0xB8CC], [0xC57D, 0xD488]) \<in> set (pairs_of valid_categories) \<and>
   \<not> is_valid_category [0xC758, 0xB8CC] [0xC57D, 0xD488]"
  by (simp add: pairs_of_def valid_categories_def is_valid_category_def
      local_valid_categories_def py_strip_def is_space_def)

subsection \<open>Lookups in the seeded tables\<close>


lemma fetchone_eq_None: "fetchone xs = None \<longleftrightarrow> xs = []"
  by (cases xs) (simp_all add: fetchone_def)

lemma fetchone_filter_Some: "fetchone (filter P xs) = Some r \<Longrightarrow> r \<in> set xs \<and> P r"
proof -
  assume "fetchone (filter P xs) = Some r"
  then have "r \<in> set (filter P xs)"
    by (cases "filter P xs") (simp_all add: fetchone_def)
  then show ?thesis by simp
qed

lemma get_category_ids_rows:
  assumes "get_category_ids lk d c s = (Some m, Some i)"
  shows "\<lparr>mc_id = m, mc_name = c\<rparr> \<in> set (main_categories d) \<and>
         \<lparr>sc_id = i, sc_main_category_id = m, sc_name = s\<rparr> \<in> set (sub_categories d)"
proof -
  from assms obtain mr where mr: "fetchone (filter (\<lambda>r. mc_name r = c) (main_categories d)) = Some mr"
    by (auto simp: get_category_ids_def select_category_ids_def split: option.splits if_splits)
  with assms obtain sr where
    sr: "fetchone (filter (\<lambda>r. sc_main_category_id r = mc_id mr \<and> sc_name r = s) (sub_categories d)) = Some sr"
    and m: "m = mc_id mr" and i: "i = sc_id sr"
    by (auto simp: get_category_ids_def select_category_ids_def split: option.splits if_splits)
  from fetchone_filter_Some[OF mr] fetchone_filter_Some[OF sr] m i
  have "mr \<in> set (main_categories d)" "mc_name mr = c" "sr \<in> set (sub_categories d)"
    "sc_main_category_id sr = m" "sc_name sr = s" by simp_all
  moreover have "mr = \<lparr>mc_id = m, mc_name = c\<rparr>" using m \<open>mc_name mr = c\<close> by simp
  moreover have "sr = \<lparr>sc_id = i, sc_main_category_id = m, sc_name = s\<rparr>"
    using i \<open>sc_main_category_id sr = m\<close> \<open>sc_name sr = s\<close> by simp
  ultimately show ?thesis by simp
qed

lemma ids_main_rows_from: "r \<in> set (main_rows_from n cs) \<Longrightarrow> n < mc_id r"
  by (induction cs arbitrary: n) force+

lemma sub_rows_from_sound:
  "r \<in> set (sub_rows_from n k ss) \<Longrightarrow> n < sc_id r \<and> sc_main_category_id r = k \<and> sc_name r \<in> set ss"
  by (induction ss arbitrary: n) force+

lemma sub_rows_from_complete:
  "s \<in> set ss \<Longrightarrow> \<exists>i. \<lparr>sc_id = i, sc_main_category_id = k, sc_name = s\<rparr> \<in> set (sub_rows_from n k ss)"
  by (induction ss arbitrary: n) auto

lemma all_sub_rows_ids:
  "r \<in> set (all_sub_rows n m tss) \<Longrightarrow> n < sc_id r \<and> m < sc_main_category_id r"
proof (induction tss arbitrary: n m)
  case Nil
  then show ?case by simp
next
  case (Cons ss tss)
  then show ?case using sub_rows_from_sound[of r n "m + 1" ss] by fastforce
qed

lemma pairs_of_Cons: "pairs_of ((c, subs) # tb) = map (\<lambda>s. (c, s)) subs @ pairs_of tb"
  by (simp add: pairs_of_def)

lemma pairs_of_fst: "(c, s) \<in> set (pairs_of tb) \<Longrightarrow> c \<in> fst ` set tb"
  by (force simp: pairs_of_def)

lemma main_lookup:
  "distinct cs \<Longrightarrow> c \<in> set cs \<Longrightarrow>
   \<exists>mid. m < mid \<and> filter (\<lambda>r. mc_name r = c) (main_rows_from m cs) = [\<lparr>mc_id = mid, mc_name = c\<rparr>]"
proof (induction cs arbitrary: m)
  case Nil
  then show ?case by simp
next
  case (Cons x cs)
  show ?case
  proof (cases "x = c")
    case True
    then have "c \<notin> mc_name ` set (main_rows_from (m + 1) cs)"
      using Cons.prems(1) names_main_rows_from[of "m + 1" cs] by simp
    then have "filter (\<lambda>r. mc_name r = c) (main_rows_from (m + 1) cs) = []"
      by (auto simp: filter_empty_conv)
    with True show ?thesis by auto
  next
    case False
    with Cons.prems have "c \<in> set cs" "distinct cs" by auto
    from Cons.IH[OF this(2,1), of "m + 1"] False show ?thesis by force
  qed
qed

lemma seeded_complete:
  "distinct (map fst tb) \<Longrightarrow> (c, s) \<in> set (pairs_of tb) \<Longrightarrow>
   \<exists>mid sid. filter (\<lambda>r. mc_name r = c) (main_rows_from m (map fst tb)) = [\<lparr>mc_id = mid, mc_name = c\<rparr>] \<and>
      \<lparr>sc_id = sid, sc_main_category_id = mid, sc_name = s\<rparr> \<in> set (all_sub_rows n m (map snd tb))"
proof (induction tb arbitrary: m n)
  case Nil
  then show ?case by (simp add: pairs_of_def)
next
  case (Cons e tb)
  obtain c0 subs0 where e: "e = (c0, subs0)" by (cases e)
  show ?case
  proof (cases "c = c0")
    case True
    have "c0 \<notin> fst ` set tb" using Cons.prems(1) e by auto
    then have "(c0, s) \<notin> set (pairs_of tb)" using pairs_of_fst by blast
    then have s: "s \<in> set subs0" using Cons.prems(2) e True by (auto simp: pairs_of_Cons)
    have "c0 \<notin> mc_name ` set (main_rows_from (m + 1) (map fst tb))"
      using \<open>c0 \<notin> fst ` set tb\<close> names_main_rows_from[of "m + 1" "map fst tb"] by simp
    then have "filter (\<lambda>r. mc_name r = c0) (main_rows_from (m + 1) (map fst tb)) = []"
      by (auto simp: filter_empty_conv)
    moreover from sub_rows_from_complete[OF s, of "m + 1" n]
    obtain i where "\<lparr>sc_id = i, sc_main_category_id = m + 1, sc_name = s\<rparr> \<in> set (sub_rows_from n (m + 1) subs0)"
      by blast
    ultimately show ?thesis using True e by auto
  next
    case False
    then have "(c, s) \<in> set (pairs_of tb)" using Cons.prems(2) e by (auto simp: pairs_of_Cons)
    moreover have "distinct (map fst tb)" using Cons.prems(1) by simp
    ultimately obtain mid sid where
      "filter (\<lambda>r. mc_name r = c) (main_rows_from (m + 1) (map fst tb)) = [\<lparr>mc_id = mid, mc_name = c\<rparr>]"
      "\<lparr>sc_id = sid, sc_main_category_id = mid, sc_name = s\<rparr> \<in> set (all_sub_rows (n + int (length subs0)) (m + 1) (map snd tb))"
      using Cons.IH[of "m + 1" "n + int (length subs0)"] by blast
    then show ?thesis using False e by auto
  qed
qed

lemma seeded_sound:
  "mr \<in> set (main_rows_from m (map fst tb)) \<Longrightarrow> sr \<in> set (all_sub_rows n m (map snd tb)) \<Longrightarrow>
   sc_main_category_id sr = mc_id mr \<Longrightarrow> (mc_name mr, sc_name sr) \<in> set (pairs_of tb)"
proof (induction tb arbitrary: m n)
  case Nil
  then show ?case by simp
next
  case (Cons e tb)
  obtain c0 subs0 where e: "e = (c0, subs0)" by (cases e)
  from Cons.prems(1) e consider
    (first) "mr = \<lparr>mc_id = m + 1, mc_name = c0\<rparr>" | (later) "mr \<in> set (main_rows_from (m + 1) (map fst tb))"
    by auto
  then show ?case
  proof cases
    case first
    have "sr \<notin> set (all_sub_rows (n + int (length subs0)) (m + 1) (map snd tb))"
      using all_sub_rows_ids[of sr "n + int (length subs0)" "m + 1" "map snd tb"] Cons.prems(3) first
      by auto
    then have "sr \<in> set (sub_rows_from n (m + 1) subs0)" using Cons.prems(2) e by auto
    then have "sc_name sr \<in> set subs0" using sub_rows_from_sound by blast
    then show ?thesis using first e by (auto simp: pairs_of_Cons)
  next
    case later
    then have "m + 1 < mc_id mr" by (rule ids_main_rows_from)
    then have "sr \<notin> set (sub_rows_from n (m + 1) subs0)"
      using sub_rows_from_sound[of sr n "m + 1" subs0] Cons.prems(3) by auto
    then have "sr \<in> set (all_sub_rows (n + int (length subs0)) (m + 1) (map snd tb))"
      using Cons.prems(2) e by auto
    from Cons.IH[OF later this Cons.prems(3)] show ?thesis using e by (simp add: pairs_of_Cons)
  qed
qed

lemma init_db_tables:
  "main_categories init_db = main_rows_from 0 (map fst valid_categories)"
  "sub_categories init_db = all_sub_rows 0 0 (map snd valid_categories)"
  unfolding init_db_def by (simp_all add: seed_db_closed_form[OF valid_categories_distinct])

lemma valid_categories_text:
  "c \<in> fst ` set valid_categories \<Longrightarrow> sqlite_text c"
  "(c, s) \<in> set (pairs_of valid_categories) \<Longrightarrow> sqlite_text c \<and> sqlite_text s"
proof -
  have all: "list_all (\<lambda>(c, subs). sqlite_text c \<and> list_all sqlite_text subs) valid_categories"
    by (simp add: valid_categories_def sqlite_text_def)
  show "sqlite_text c" if "c \<in> fst ` set valid_categories"
    using that all by (auto simp: list_all_iff)
  show "sqlite_text c \<and> sqlite_text s" if "(c, s) \<in> set (pairs_of valid_categories)"
    using that all by (auto simp: list_all_iff pairs_of_def)
qed

lemma get_category_ids_locked: "get_category_ids True d c s = (None, None)"
  by (simp add: get_category_ids_def select_category_ids_def)

lemma lookup_invalid_category:
  assumes "seeded d" "c \<notin> fst ` set valid_categories"
  shows "get_category_ids lk d c s = (None, None)"
proof -
  have "c \<notin> mc_name ` set (main_categories d)"
    using assms names_main_rows_from[of 0 "map fst valid_categories"]
    by (simp add: seeded_def init_db_tables)
  then have "filter (\<lambda>r. mc_name r = c) (main_categories d) = []"
    by (auto simp: filter_empty_conv)
  then show ?thesis by (simp add: get_category_ids_def select_category_ids_def fetchone_def)
qed

lemma lookup_pair:
  assumes "seeded d" "(c, s) \<in> set (pairs_of valid_categories)"
  shows "\<exists>m i. get_category_ids False d c s = (Some m, Some i) \<and> m \<noteq> 0 \<and> i \<noteq> 0"
proof -
  from seeded_complete[OF valid_categories_distinct(1) assms(2), of 0 0]
  obtain mid sid where
    flt: "filter (\<lambda>r. mc_name r = c) (main_categories d) = [\<lparr>mc_id = mid, mc_name = c\<rparr>]"
    and row: "\<lparr>sc_id = sid, sc_main_category_id = mid, sc_name = s\<rparr> \<in> set (sub_categories d)"
    using assms(1) by (auto simp: seeded_def init_db_tables)
  have "0 < mid"
  proof -
    have "\<lparr>mc_id = mid, mc_name = c\<rparr> \<in> set (filter (\<lambda>r. mc_name r = c) (main_categories d))"
      by (simp only: flt list.set_intros)
    then have "\<lparr>mc_id = mid, mc_name = c\<rparr> \<in> set (main_rows_from 0 (map fst valid_categories))"
      using assms(1) by (simp add: seeded_def init_db_tables)
    from ids_main_rows_from[OF this] show ?thesis by simp
  qed
  let ?P = "\<lambda>r. sc_main_category_id r = mid \<and> sc_name r = s"
  from row have "filter ?P (sub_categories d) \<noteq> []"
    by (force simp: filter_empty_conv)
  then obtain sr where sr: "fetchone (filter ?P (sub_categories d)) = Some sr"
    by (cases "filter ?P (sub_categories d)") (auto simp: fetchone_def)
  from fetchone_filter_Some[OF sr] have "sr \<in> set (all_sub_rows 0 0 (map snd valid_categories))"
    using assms(1) by (simp add: seeded_def init_db_tables)
  then have "0 < sc_id sr" using all_sub_rows_ids by blast
  with sr flt \<open>0 < mid\<close> valid_categories_text(2)[OF assms(2)] show ?thesis
    by (simp add: get_category_ids_def select_category_ids_def fetchone_def)
qed

lemma lookup_sound:
  assumes "seeded d" "get_category_ids lk d c s = (Some m, Some i)"
  shows "(c, s) \<in> set (pairs_of valid_categories)"
proof -
  from get_category_ids_rows[OF assms(2)] assms(1)
  have "\<lparr>mc_id = m, mc_name = c\<rparr> \<in> set (main_rows_from 0 (map fst valid_categories))"
    "\<lparr>sc_id = i, sc_main_category_id = m, sc_name = s\<rparr> \<in> set (all_sub_rows 0 0 (map snd valid_categories))"
    by (simp_all add: seeded_def init_db_tables)
  from seeded_sound[OF this] show ?thesis by simp
qed

subsection \<open>Fuzzy correction\<close>


lemma fold_max_Max: "fold max rs (r :: 'a :: linorder) = Max (set (r # rs))"
  by (simp only: Max.set_eq_fold)

lemma get_close_matches_empty:
  "get_close_matches ratio w ps = [] \<longleftrightarrow> (\<forall>c\<in>set ps. ratio c w < cutoff)"
proof -
  have "get_close_matches ratio w ps = [] \<longleftrightarrow> filter (\<lambda>x. cutoff \<le> ratio x w) ps = []"
    by (cases "filter (\<lambda>x. cutoff \<le> ratio x w) ps") (simp_all add: get_close_matches_def)
  then show ?thesis by (auto simp: filter_empty_conv not_le)
qed

lemma get_close_matches_best:
  assumes "get_close_matches ratio w ps = b # bs"
  shows "bs = [] \<and> closest ratio w ps b"
proof -
  let ?result = "map (\<lambda>x. (ratio x w, x)) (filter (\<lambda>x. cutoff \<le> ratio x w) ps)"
  from assms obtain r rs where res: "?result = r # rs" and b: "b = snd (fold max rs r)" and bs: "bs = []"
    by (auto simp: get_close_matches_def Let_def split: list.splits)
  let ?M = "Max (set ?result)"
  have M: "fold max rs r = ?M" by (simp only: res fold_max_Max)
  have "set ?result \<noteq> {}" using res by simp
  then have Min: "?M \<in> set ?result" by (intro Max_in) simp_all
  then have "fst ?M = ratio (snd ?M) w" "snd ?M \<in> set ps" "cutoff \<le> ratio (snd ?M) w"
    by auto
  moreover have "ratio c w \<le> ratio (snd ?M) w" if c: "c \<in> set ps" for c
  proof (cases "cutoff \<le> ratio c w")
    case True
    with c have "(ratio c w, c) \<in> set ?result" by auto
    then have "(ratio c w, c) \<le> ?M" by (intro Max_ge) simp_all
    then have "ratio c w \<le> fst ?M" by (cases ?M) (auto simp: less_eq_prod_def)
    with \<open>fst ?M = ratio (snd ?M) w\<close> show ?thesis by simp
  next
    case False
    with \<open>cutoff \<le> ratio (snd ?M) w\<close> show ?thesis by simp
  qed
  ultimately show ?thesis using b bs M by (simp add: closest_def)
qed

lemma dict_get_valid:
  "c \<notin> fst ` set valid_categories \<Longrightarrow> dict_get valid_categories c [] = []"
  by (simp add: dict_get_def map_of_eq_None_iff[THEN iffD2])

lemma dict_get_pairs:
  "s \<in> set (dict_get valid_categories c []) \<longleftrightarrow> (c, s) \<in> set (pairs_of valid_categories)"
proof -
  have "s \<in> set (dict_get tb c []) \<longleftrightarrow> (c, s) \<in> set (pairs_of tb)" if "distinct (map fst tb)"
    for tb :: "(ustr \<times> ustr list) list"
    using that
  proof (induction tb)
    case Nil
    then show ?case by (simp add: dict_get_def pairs_of_def)
  next
    case (Cons e tb)
    obtain c0 subs0 where e: "e = (c0, subs0)" by (cases e)
    show ?case
    proof (cases "c = c0")
      case True
      then have "(c, s) \<notin> set (pairs_of tb)" using Cons.prems e pairs_of_fst by fastforce
      with True e show ?thesis by (auto simp: dict_get_def pairs_of_Cons)
    next
      case False
      with Cons e show ?thesis by (auto simp: dict_get_def pairs_of_Cons)
    qed
  qed
  from this[OF valid_categories_distinct(1)] show ?thesis .
qed

lemma resolved_cases:
  "resolved ids \<longleftrightarrow> (\<exists>m i. ids = (Some m, Some i) \<and> m \<noteq> 0 \<and> i \<noteq> 0)"
  by (cases ids) (auto simp: resolved_def truthy_id_def split: option.splits)

lemma resolve_ids_first:
  assumes "get_category_ids (fst lk) d c s = (Some m, Some i)" "m \<noteq> 0" "i \<noteq> 0"
  shows "resolve_ids ratio lk d c s = (Some m, Some i)"
  using assms by (simp add: resolve_ids_def truthy_id_def)

lemma resolve_ids_second:
  assumes "\<not> resolved (get_category_ids (fst lk) d c s)"
  shows "resolve_ids ratio lk d c s =
           (case get_close_matches ratio s (dict_get valid_categories c []) of
              [] \<Rightarrow> get_category_ids (fst lk) d c s
            | best # _ \<Rightarrow> get_category_ids (snd lk) d c best)"
  using assms
  by (cases "get_category_ids (fst lk) d c s")
     (auto simp add: resolve_ids_def resolved_def Let_def split: list.splits)

lemma first_lookup_fails:
  assumes "seeded d" "fst lk \<or> (c, s) \<notin> set (pairs_of valid_categories)"
  shows "\<not> resolved (get_category_ids (fst lk) d c s)"
proof
  assume "resolved (get_category_ids (fst lk) d c s)"
  then obtain m i where ids: "get_category_ids (fst lk) d c s = (Some m, Some i)"
    by (auto simp: resolved_cases)
  then have "\<not> fst lk" using get_category_ids_locked[of d c s] by (cases "fst lk") simp_all
  moreover from lookup_sound[OF assms(1) ids] have "(c, s) \<in> set (pairs_of valid_categories)" .
  ultimately show False using assms(2) by simp
qed

lemma resolve_ids_hit:
  assumes "seeded d" and "ratio_contract ratio"
    and ex: "\<exists>c\<in>set (dict_get valid_categories category []). cutoff \<le> ratio c subcategory"
    and lk: "\<not> snd lk \<or> (\<not> fst lk \<and> subcategory \<in> set (dict_get valid_categories category []))"
  shows "\<exists>best m i. closest ratio subcategory (dict_get valid_categories category []) best \<and>
           resolve_ids ratio lk d category subcategory = (Some m, Some i) \<and> m \<noteq> 0 \<and> i \<noteq> 0 \<and>
           \<lparr>mc_id = m, mc_name = category\<rparr> \<in> set (main_categories d) \<and>
           \<lparr>sc_id = i, sc_main_category_id = m, sc_name = best\<rparr> \<in> set (sub_categories d)"
proof (cases "\<not> fst lk \<and> (category, subcategory) \<in> set (pairs_of valid_categories)")
  let ?subs = "dict_get valid_categories category []"
  case True
  have le1: "ratio x w \<le> 1" and refl: "ratio w w = 1" for x w
    using assms(2) by (simp_all add: ratio_contract_def)
  from True lookup_pair[OF assms(1), of category subcategory] obtain m i where
    ids: "get_category_ids (fst lk) d category subcategory = (Some m, Some i)" "m \<noteq> 0" "i \<noteq> 0"
    by auto
  have "closest ratio subcategory ?subs subcategory"
    using True le1 refl by (simp add: closest_def dict_get_pairs cutoff_def)
  moreover have "resolve_ids ratio lk d category subcategory = (Some m, Some i)"
    using ids by (rule resolve_ids_first)
  ultimately show ?thesis using get_category_ids_rows[OF ids(1)] ids(2,3) by blast
next
  let ?subs = "dict_get valid_categories category []"
  case False
  then have first: "\<not> resolved (get_category_ids (fst lk) d category subcategory)"
    by (intro first_lookup_fails[OF assms(1)]) blast
  from False lk have unlocked: "\<not> snd lk" by (auto simp: dict_get_pairs)
  from ex have "get_close_matches ratio subcategory ?subs \<noteq> []"
    by (auto simp: get_close_matches_empty not_less)
  then obtain best bs where gcm: "get_close_matches ratio subcategory ?subs = best # bs"
    by (cases "get_close_matches ratio subcategory ?subs") auto
  from get_close_matches_best[OF gcm] have best: "closest ratio subcategory ?subs best" by simp
  then have "(category, best) \<in> set (pairs_of valid_categories)"
    by (simp add: closest_def dict_get_pairs)
  from lookup_pair[OF assms(1) this] unlocked obtain m i where
    ids: "get_category_ids (snd lk) d category best = (Some m, Some i)" "m \<noteq> 0" "i \<noteq> 0"
    by auto
  have "resolve_ids ratio lk d category subcategory = (Some m, Some i)"
    using resolve_ids_second[OF first] gcm ids by simp
  then show ?thesis using best get_category_ids_rows[OF ids(1)] ids(2,3) by blast
qed

lemma resolve_ids_locked:
  assumes "seeded d"
    and ex: "\<exists>c\<in>set (dict_get valid_categories category []). cutoff \<le> ratio c subcategory"
    and lk: "snd lk \<and> (fst lk \<or> subcategory \<notin> set (dict_get valid_categories category []))"
  shows "resolve_ids ratio lk d category subcategory = (None, None)"
proof -
  let ?subs = "dict_get valid_categories category []"
  from lk have first: "\<not> resolved (get_category_ids (fst lk) d category subcategory)"
    by (intro first_lookup_fails[OF assms(1)]) (auto simp: dict_get_pairs)
  from ex have "get_close_matches ratio subcategory ?subs \<noteq> []"
    by (auto simp: get_close_matches_empty not_less)
  then obtain best bs where gcm: "get_close_matches ratio subcategory ?subs = best # bs"
    by (cases "get_close_matches ratio subcategory ?subs") auto
  from lk have "get_category_ids (snd lk) d category best = (None, None)"
    using get_category_ids_locked[of d category best] by simp
  then show ?thesis using resolve_ids_second[OF first] gcm by simp
qed

lemma resolve_ids_miss:
  assumes "seeded d" and "ratio_contract ratio"
    and none: "\<forall>c\<in>set (dict_get valid_categories category []). ratio c subcategory < cutoff"
  shows "\<not> resolved (resolve_ids ratio lk d category subcategory)"
proof -
  let ?subs = "dict_get valid_categories category []"
  have refl: "ratio w w = 1" for w
    using assms(2) by (simp add: ratio_contract_def)
  have inexact: "(category, subcategory) \<notin> set (pairs_of valid_categories)"
  proof
    assume "(category, subcategory) \<in> set (pairs_of valid_categories)"
    then have "ratio subcategory subcategory < cutoff" using none by (simp add: dict_get_pairs)
    then show False using refl by (simp add: cutoff_def)
  qed
  then have first: "\<not> resolved (get_category_ids (fst lk) d category subcategory)"
    by (intro first_lookup_fails[OF assms(1)]) simp
  have "get_close_matches ratio subcategory ?subs = []"
    using none by (simp add: get_close_matches_empty)
  then have "resolve_ids ratio lk d category subcategory =
               get_category_ids (fst lk) d category subcategory"
    using resolve_ids_second[OF first] by simp
  then show ?thesis using first by simp
qed

lemma resolved_iff:
  assumes "seeded d" and "ratio_contract ratio"
  shows "resolved (resolve_ids ratio lk d category subcategory) \<longleftrightarrow>
           (\<exists>c\<in>set (dict_get valid_categories category []). cutoff \<le> ratio c subcategory) \<and>
           (\<not> snd lk \<or> (\<not> fst lk \<and> subcategory \<in> set (dict_get valid_categories category [])))"
    (is "?L \<longleftrightarrow> ?E \<and> ?U")
proof
  assume l: ?L
  have ?E using l resolve_ids_miss[OF assms, of category subcategory lk] by (meson not_less)
  moreover have ?U
  proof (rule ccontr)
    assume "\<not> ?U"
    then have "snd lk \<and> (fst lk \<or> subcategory \<notin> set (dict_get valid_categories category []))"
      by blast
    with \<open>?E\<close> have "resolve_ids ratio lk d category subcategory = (None, None)"
      using resolve_ids_locked[OF assms(1), of category ratio subcategory lk] by blast
    with l show False by (simp add: resolved_def truthy_id_def)
  qed
  ultimately show "?E \<and> ?U" ..
next
  assume "?E \<and> ?U"
  then have ?E ?U by blast+
  from resolve_ids_hit[OF assms this] show ?L
    by (auto simp: resolved_def truthy_id_def)
qed

lemma ratio_sample_contract: "ratio_contract ratio_sample"
  by (simp add: ratio_contract_def ratio_sample_def)

lemma seeded_init_db: "seeded init_db"
  by (simp add: seeded_def)

text \<open>
  C2. In a seeded store, for a similarity that keeps the documented contract of
  \<open>ratio\<close>, and whatever lock states the two lookups meet. When the category is a key
  of \<open>self.valid_categories\<close> and some subcategory listed under it has similarity at
  least 0.4 to the given string: if the lookup that decides can read the store (the
  second one, or the first one for a string that is itself listed), the pair resolves
  to the identifiers of the category and of a closest listed subcategory; if it finds
  the database locked, the result is \<open>(None, None)\<close>. When no listed subcategory
  reaches 0.4, the pair does not resolve. When the category is no key, the pair does
  not resolve and the list of candidates is empty.
\<close>

theorem resolve_ids_fuzzy_correction:
  assumes "seeded d" and "ratio_contract ratio"
  shows "(category \<in> fst ` set valid_categories \<longrightarrow>
            ((\<exists>c\<in>set (dict_get valid_categories category []). cutoff \<le> ratio c subcategory) \<longrightarrow>
               ((\<not> snd locked \<or>
                 (\<not> fst locked \<and> subcategory \<in> set (dict_get valid_categories category []))) \<longrightarrow>
                  (\<exists>best m i. closest ratio subcategory (dict_get valid_categories category []) best \<and>
                     resolve_ids ratio locked d category subcategory = (Some m, Some i) \<and>
                     m \<noteq> 0 \<and> i \<noteq> 0 \<and>
                     \<lparr>mc_id = m, mc_name = category\<rparr> \<in> set (main_categories d) \<and>
                     \<lparr>sc_id = i, sc_main_category_id = m, sc_name = best\<rparr> \<in> set (sub_categories d))) \<and>
               ((snd locked \<and>
                 (fst locked \<or> subcategory \<notin> set (dict_get valid_categories category []))) \<longrightarrow>
                  resolve_ids ratio locked d category subcategory = (None, None))) \<and>
            ((\<forall>c\<in>set (dict_get valid_categories category []). ratio c subcategory < cutoff) \<longrightarrow>
               \<not> resolved (resolve_ids ratio locked d category subcategory))) \<and>
         (category \<notin> fst ` set valid_categories \<longrightarrow>
            \<not> resolved (resolve_ids ratio locked d category subcategory) \<and>
            dict_get valid_categories category [] = [])"
proof -
  have "\<not> resolved (resolve_ids ratio locked d category subcategory) \<and>
        dict_get valid_categories category [] = []"
    if "category \<notin> fst ` set valid_categories"
  proof -
    have e: "dict_get valid_categories category [] = []" using that by (rule dict_get_valid)
    then have "\<forall>c\<in>set (dict_get valid_categories category []). ratio c subcategory < cutoff"
      by simp
    from resolve_ids_miss[OF assms this] e show ?thesis by simp
  qed
  with resolve_ids_hit[OF assms, of category subcategory locked]
    resolve_ids_locked[OF assms(1), of category ratio subcategory locked]
    resolve_ids_miss[OF assms, of category subcategory locked]
  show ?thesis by blast
qed

theorem resolve_ids_fuzzy_correction_witness:
  "seeded init_db \<and> ratio_contract ratio_sample \<and>
   [0xC74C, 0xC2DD] \<in> fst ` set valid_categories \<and>
   (\<exists>c\<in>set (dict_get valid_categories [0xC74C, 0xC2DD] []). cutoff \<le> ratio_sample c [0xC74C, 0xB8CC, 0xC218]) \<and>
   (\<exists>best m i. closest ratio_sample [0xC74C, 0xB8CC, 0xC218] (dict_get valid_categories [0xC74C, 0xC2DD] []) best \<and>
       resolve_ids ratio_sample (False, False) init_db [0xC74C, 0xC2DD] [0xC74C, 0xB8CC, 0xC218] =
         (Some m, Some i) \<and>
       m \<noteq> 0 \<and> i \<noteq> 0 \<and>
       \<lparr>mc_id = m, mc_name = [0xC74C, 0xC2DD]\<rparr> \<in> set (main_categories init_db) \<and>
       \<lparr>sc_id = i, sc_main_category_id = m, sc_name = best\<rparr> \<in> set (sub_categories init_db)) \<and>
   [0xC74C, 0xB8CC, 0xC218] \<notin> set (dict_get valid_categories [0xC74C, 0xC2DD] []) \<and>
   resolve_ids ratio_sample (False, True) init_db [0xC74C, 0xC2DD] [0xC74C, 0xB8CC, 0xC218] =
     (None, None) \<and>
   [0xC1FC, 0xD551] \<in> fst ` set valid_categories \<and>
   \<not> (\<exists>c\<in>set (dict_get valid_categories [0xC1FC, 0xD551] []).
         cutoff \<le> ratio_sample c [0xC804, 0xC790, 0xC81C, 0xD488]) \<and>
   \<not> resolved (resolve_ids ratio_sample (False, False) init_db [0xC1FC, 0xD551]
                  [0xC804, 0xC790, 0xC81C, 0xD488]) \<and>
   u ''misc'' \<notin> fst ` set valid_categories \<and>
   \<not> resolved (resolve_ids ratio_sample (False, False) init_db (u ''misc'') [0xC74C, 0xB8CC])"
proof -
  note s = seeded_init_db and r = ratio_sample_contract
  have a: "[0xC74C, 0xC2DD] \<in> fst ` set valid_categories"
    "[0xC1FC, 0xD551] \<in> fst ` set valid_categories"
    "u ''misc'' \<notin> fst ` set valid_categories"
    by (simp_all add: valid_categories_def u_def)
  have b: "\<exists>c\<in>set (dict_get valid_categories [0xC74C, 0xC2DD] []). cutoff \<le> ratio_sample c [0xC74C, 0xB8CC, 0xC218]"
    by (simp add: valid_categories_def dict_get_def ratio_sample_def cutoff_def)
  have n: "[0xC74C, 0xB8CC, 0xC218] \<notin> set (dict_get valid_categories [0xC74C, 0xC2DD] [])"
    by (simp add: valid_categories_def dict_get_def)
  have c: "\<forall>c\<in>set (dict_get valid_categories [0xC1FC, 0xD551] []). ratio_sample c [0xC804, 0xC790, 0xC81C, 0xD488] < cutoff"
    by (simp add: valid_categories_def dict_get_def ratio_sample_def cutoff_def)
  from c have c': "\<not> (\<exists>c\<in>set (dict_get valid_categories [0xC1FC, 0xD551] []).
         cutoff \<le> ratio_sample c [0xC804, 0xC790, 0xC81C, 0xD488])"
    by (simp only: bex_simps not_le not_not)
  note t1 = resolve_ids_fuzzy_correction[OF s r, of "[0xC74C, 0xC2DD]" "[0xC74C, 0xB8CC, 0xC218]" "(False, False)"]
  note t2 = resolve_ids_fuzzy_correction[OF s r, of "[0xC74C, 0xC2DD]" "[0xC74C, 0xB8CC, 0xC218]" "(False, True)"]
  note t3 = resolve_ids_fuzzy_correction[OF s r, of "[0xC1FC, 0xD551]" "[0xC804, 0xC790, 0xC81C, 0xD488]" "(False, False)"]
  note t4 = resolve_ids_fuzzy_correction[OF s r, of "u ''misc''" "[0xC74C, 0xB8CC]" "(False, False)"]
  from t1 a(1) b have w1:
    "\<exists>best m i. closest ratio_sample [0xC74C, 0xB8CC, 0xC218] (dict_get valid_categories [0xC74C, 0xC2DD] []) best \<and>
       resolve_ids ratio_sample (False, False) init_db [0xC74C, 0xC2DD] [0xC74C, 0xB8CC, 0xC218] =
         (Some m, Some i) \<and>
       m \<noteq> 0 \<and> i \<noteq> 0 \<and>
       \<lparr>mc_id = m, mc_name = [0xC74C, 0xC2DD]\<rparr> \<in> set (main_categories init_db) \<and>
       \<lparr>sc_id = i, sc_main_category_id = m, sc_name = best\<rparr> \<in> set (sub_categories init_db)"
    by simp
  from t2 a(1) b n have w2:
    "resolve_ids ratio_sample (False, True) init_db [0xC74C, 0xC2DD] [0xC74C, 0xB8CC, 0xC218] =
       (None, None)"
    by simp
  from t3 a(2) c have w3:
    "\<not> resolved (resolve_ids ratio_sample (False, False) init_db [0xC1FC, 0xD551]
                  [0xC804, 0xC790, 0xC81C, 0xD488])"
    by simp
  from t4 a(3) have w4:
    "\<not> resolved (resolve_ids ratio_sample (False, False) init_db (u ''misc'') [0xC74C, 0xB8CC])"
    by simp
  show ?thesis
    by (intro conjI) (rule s r a b w1 n w2 c' w3 w4)+
qed

lemma sqlite_text_replicate: "c < 0xD800 \<Longrightarrow> sqlite_text (replicate n c)"
  by (induction n) (simp_all add: sqlite_text_def)

text \<open>
  The claim read without the condition on the lock fails: in the freshly seeded store
  the category "food" is valid and its subcategory "drink" has similarity 0.8 to the
  given string, above the cutoff, yet the pair does not resolve when the two lookups
  find the database locked. So it is for the second item of a call of \<open>add_receipt\<close>
  whose first item has a name of four million characters: inserting the first item
  makes the transaction spill, the lookups for the second item find the database
  locked, and the call returns \<open>None\<close> although both items carry the seeded pair
  ("food", "drink").
\<close>

theorem resolve_ids_locked_lookup_fails:
  "[0xC74C, 0xC2DD] \<in> fst ` set valid_categories \<and>
   [0xC74C, 0xB8CC] \<in> set (dict_get valid_categories [0xC74C, 0xC2DD] []) \<and>
   cutoff \<le> ratio_sample [0xC74C, 0xB8CC] [0xC74C, 0xB8CC, 0xC218] \<and>
   \<not> resolved (resolve_ids ratio_sample (True, True) init_db [0xC74C, 0xC2DD]
                  [0xC74C, 0xB8CC, 0xC218]) \<and>
   fst (add_receipt ratio_sample (locked_from 1) (u ''shop'') (u ''2024-03-15'')
          [\<lparr>item_name = replicate 4000000 0x78, item_category = [0xC74C, 0xC2DD],
            item_subcategory = [0xC74C, 0xB8CC], item_amount = 4500\<rparr>,
           \<lparr>item_name = u ''milk'', item_category = [0xC74C, 0xC2DD],
            item_subcategory = [0xC74C, 0xB8CC], item_amount = 2000\<rparr>]
          6500 init_db) = None"
proof -
  have a: "[0xC74C, 0xC2DD] \<in> fst ` set valid_categories"
    "[0xC74C, 0xB8CC] \<in> set (dict_get valid_categories [0xC74C, 0xC2DD] [])"
    "cutoff \<le> ratio_sample [0xC74C, 0xB8CC] [0xC74C, 0xB8CC, 0xC218]"
    by (simp_all add: valid_categories_def dict_get_def ratio_sample_def cutoff_def)
  have lk: "resolve_ids ratio_sample (True, True) d c s = (None, None)" for d c s
    by (simp add: resolve_ids_def get_category_ids_locked truthy_id_def split: list.splits)
  have b: "\<not> resolved (resolve_ids ratio_sample (True, True) init_db [0xC74C, 0xC2DD]
                  [0xC74C, 0xB8CC, 0xC218])"
    by (simp add: lk resolved_def truthy_id_def)
  have ids: "get_category_ids False init_db [0xC74C, 0xC2DD] [0xC74C, 0xB8CC] = (Some 6, Some 27)"
    by (simp add: get_category_ids_def select_category_ids_def sqlite_text_def fetchone_def init_db_eq)
  then have res: "resolve_ids ratio_sample (False, False) init_db [0xC74C, 0xC2DD] [0xC74C, 0xB8CC] =
      (Some 6, Some 27)"
    by (simp add: resolve_ids_def truthy_id_def)
  have seqs: "receipts_seq init_db = 0" "items_seq init_db = 0"
    by (simp_all add: init_db_eq)
  have texts: "sqlite_text (u ''shop'')" "sqlite_text (u ''2024-03-15'')"
    "sqlite_text (replicate 4000000 0x78)"
    by (simp_all add: sqlite_text_replicate) (simp_all add: sqlite_text_def u_def)
  have c: "fst (add_receipt ratio_sample (locked_from 1) (u ''shop'') (u ''2024-03-15'')
          [\<lparr>item_name = replicate 4000000 0x78, item_category = [0xC74C, 0xC2DD],
            item_subcategory = [0xC74C, 0xB8CC], item_amount = 4500\<rparr>,
           \<lparr>item_name = u ''milk'', item_category = [0xC74C, 0xC2DD],
            item_subcategory = [0xC74C, 0xB8CC], item_amount = 2000\<rparr>]
          6500 init_db) = None"
    by (simp add: add_receipt_def insert_receipt_def lastrowid_receipts_def insert_item_def
        sqlite_int_def max_rowid_def locked_from_def res lk seqs texts)
  from a b c show ?thesis by blast
qed

subsection \<open>The insertion loop\<close>

lemma insert_items_unresolved:
  assumes "\<not> resolved (resolve_ids ratio (locks 0) c (item_category it) (item_subcategory it))"
  shows "insert_items ratio locks c rid (it # rest) d = Inr (Returned d)"
  using assms by (auto simp: resolved_cases split: prod.splits option.splits)

lemma insert_item_ok:
  assumes "sqlite_text (item_name it)" "sqlite_int (item_amount it)" "items_seq d < max_rowid"
  shows "insert_item rid it m i d =
           Inr (d\<lparr>items := items d @
                     [\<lparr>i_id = items_seq d + 1, i_receipt_id = rid, i_name = item_name it,
                       i_main_category_id = m, i_sub_category_id = i, i_amount = item_amount it\<rparr>],
                   items_seq := items_seq d + 1\<rparr>)"
  using assms by (simp add: insert_item_def)

lemma insert_item_raises:
  assumes "\<not> (sqlite_text (item_name it) \<and> sqlite_int (item_amount it) \<and> items_seq d < max_rowid)"
  shows "\<exists>e. insert_item rid it m i d = Inl e"
  using assms by (auto simp: insert_item_def)

lemma insert_items_resolved:
  assumes "resolve_ids ratio (locks 0) c (item_category it) (item_subcategory it) = (Some m, Some i)"
    and "m \<noteq> 0" "i \<noteq> 0"
  shows "insert_items ratio locks c rid (it # rest) d =
           (case insert_item rid it m i d of
              Inl e \<Rightarrow> Inl e
            | Inr d' \<Rightarrow> insert_items ratio (\<lambda>k. locks (Suc k)) c rid rest d')"
  using assms by simp

lemma stored_rows_length: "stored_rows ratio locks c rid R its \<Longrightarrow> length R = length its"
  by (induction ratio locks c rid R its rule: stored_rows.induct) simp_all

lemma insert_items_stop:
  assumes "\<not> resolved (resolve_ids ratio (locks (length pre)) c (item_category bad)
                          (item_subcategory bad))"
  shows "(\<exists>e. insert_items ratio locks c rid (pre @ bad # post) d = Inl e) \<or>
         (\<exists>R. insert_items ratio locks c rid (pre @ bad # post) d =
                 Inr (Returned (d\<lparr>items := items d @ R,
                                  items_seq := items_seq d + int (length R)\<rparr>)) \<and>
              length R \<le> length pre \<and>
              stored_rows ratio locks c rid R (take (length R) pre))"
  using assms
proof (induction pre arbitrary: d locks)
  case Nil
  then have "insert_items ratio locks c rid ([] @ bad # post) d = Inr (Returned d)"
    using insert_items_unresolved[of ratio locks c bad rid post d] by simp
  then have "insert_items ratio locks c rid ([] @ bad # post) d =
               Inr (Returned (d\<lparr>items := items d @ [],
                                items_seq := items_seq d + int (length ([] :: item_row list))\<rparr>)) \<and>
             length ([] :: item_row list) \<le> length ([] :: item list) \<and>
             stored_rows ratio locks c rid [] (take (length ([] :: item_row list)) [])"
    by simp
  then show ?case by blast
next
  case (Cons it pre)
  let ?run = "insert_items ratio locks c rid ((it # pre) @ bad # post) d"
  show ?case
  proof (cases "resolved (resolve_ids ratio (locks 0) c (item_category it) (item_subcategory it))")
    case False
    then have "?run = Inr (Returned d)"
      using insert_items_unresolved[of ratio locks c it rid "pre @ bad # post" d] by simp
    then have "?run = Inr (Returned (d\<lparr>items := items d @ [],
                                items_seq := items_seq d + int (length ([] :: item_row list))\<rparr>)) \<and>
             length ([] :: item_row list) \<le> length (it # pre) \<and>
             stored_rows ratio locks c rid [] (take (length ([] :: item_row list)) (it # pre))"
      by simp
    then show ?thesis by blast
  next
    case True
    then obtain m i where
      ids: "resolve_ids ratio (locks 0) c (item_category it) (item_subcategory it) = (Some m, Some i)"
        "m \<noteq> 0" "i \<noteq> 0"
      by (auto simp: resolved_cases)
    let ?row = "\<lparr>i_id = items_seq d + 1, i_receipt_id = rid, i_name = item_name it,
                 i_main_category_id = m, i_sub_category_id = i, i_amount = item_amount it\<rparr>"
    let ?d1 = "d\<lparr>items := items d @ [?row], items_seq := items_seq d + 1\<rparr>"
    let ?locks = "\<lambda>k. locks (Suc k)"
    have row: "stored_as ratio (locks 0) c rid ?row it"
      using ids by (simp add: stored_as_def resolved_cases)
    show ?thesis
    proof (cases "sqlite_text (item_name it) \<and> sqlite_int (item_amount it) \<and> items_seq d < max_rowid")
      case False
      from insert_item_raises[OF this, of rid m i] have "\<exists>e. ?run = Inl e"
        using insert_items_resolved[where locks = locks, OF ids, of rid "pre @ bad # post" d] by auto
      then show ?thesis by blast
    next
      case binds: True
      then have "insert_item rid it m i d = Inr ?d1" by (intro insert_item_ok) simp_all
      then have step: "?run = insert_items ratio ?locks c rid (pre @ bad # post) ?d1"
        using insert_items_resolved[where locks = locks, OF ids, of rid "pre @ bad # post" d] by simp
      have "\<not> resolved (resolve_ids ratio (?locks (length pre)) c (item_category bad)
                          (item_subcategory bad))"
        using Cons.prems by simp
      from Cons.IH[where locks = ?locks and d = ?d1, OF this] show ?thesis
      proof
        assume "\<exists>e. insert_items ratio ?locks c rid (pre @ bad # post) ?d1 = Inl e"
        with step show ?thesis by simp
      next
        assume "\<exists>R. insert_items ratio ?locks c rid (pre @ bad # post) ?d1 =
                 Inr (Returned (?d1\<lparr>items := items ?d1 @ R,
                                    items_seq := items_seq ?d1 + int (length R)\<rparr>)) \<and>
              length R \<le> length pre \<and>
              stored_rows ratio ?locks c rid R (take (length R) pre)"
        then obtain R where
          R: "insert_items ratio ?locks c rid (pre @ bad # post) ?d1 =
                 Inr (Returned (?d1\<lparr>items := items ?d1 @ R,
                                    items_seq := items_seq ?d1 + int (length R)\<rparr>))"
            "length R \<le> length pre"
            "stored_rows ratio ?locks c rid R (take (length R) pre)"
          by blast
        have "?run = Inr (Returned (d\<lparr>items := items d @ (?row # R),
                                 items_seq := items_seq d + int (length (?row # R))\<rparr>))"
          using step R(1) by simp
        moreover have "length (?row # R) \<le> length (it # pre)" using R(2) by simp
        moreover have "stored_rows ratio locks c rid (?row # R) (take (length (?row # R)) (it # pre))"
          using row R(3) by simp
        ultimately show ?thesis by blast
      qed
    qed
  qed
qed

lemma insert_items_prefix:
  assumes "\<forall>k<length pre. resolved (resolve_ids ratio (locks k) c (item_category (pre ! k))
                                      (item_subcategory (pre ! k)))"
    and "\<not> resolved (resolve_ids ratio (locks (length pre)) c (item_category bad)
                          (item_subcategory bad))"
  shows "if can_insert (items_seq d) pre
         then \<exists>R. insert_items ratio locks c rid (pre @ bad # post) d =
                     Inr (Returned (d\<lparr>items := items d @ R,
                                      items_seq := items_seq d + int (length pre)\<rparr>)) \<and>
                   stored_rows ratio locks c rid R pre
         else \<exists>e. insert_items ratio locks c rid (pre @ bad # post) d = Inl e"
  using assms
proof (induction pre arbitrary: d locks)
  case Nil
  then have "insert_items ratio locks c rid ([] @ bad # post) d = Inr (Returned d)"
    using insert_items_unresolved[of ratio locks c bad rid post d] by simp
  then have "insert_items ratio locks c rid ([] @ bad # post) d =
               Inr (Returned (d\<lparr>items := items d @ [],
                                items_seq := items_seq d + int (length ([] :: item list))\<rparr>)) \<and>
             stored_rows ratio locks c rid [] []"
    by simp
  then have "\<exists>R. insert_items ratio locks c rid ([] @ bad # post) d =
               Inr (Returned (d\<lparr>items := items d @ R,
                                items_seq := items_seq d + int (length ([] :: item list))\<rparr>)) \<and>
             stored_rows ratio locks c rid R []"
    by blast
  moreover have "can_insert (items_seq d) []" by simp
  ultimately show ?case by (simp only: if_P)
next
  case (Cons it pre)
  let ?run = "insert_items ratio locks c rid ((it # pre) @ bad # post) d"
  let ?locks = "\<lambda>k. locks (Suc k)"
  from Cons.prems(1) have "resolved (resolve_ids ratio (locks 0) c (item_category it) (item_subcategory it))"
    by auto
  then obtain m i where
    ids: "resolve_ids ratio (locks 0) c (item_category it) (item_subcategory it) = (Some m, Some i)"
      "m \<noteq> 0" "i \<noteq> 0"
    by (auto simp: resolved_cases)
  let ?row = "\<lparr>i_id = items_seq d + 1, i_receipt_id = rid, i_name = item_name it,
               i_main_category_id = m, i_sub_category_id = i, i_amount = item_amount it\<rparr>"
  let ?d1 = "d\<lparr>items := items d @ [?row], items_seq := items_seq d + 1\<rparr>"
  have row: "stored_as ratio (locks 0) c rid ?row it"
    using ids by (simp add: stored_as_def resolved_cases)
  have rest: "\<forall>k<length pre. resolved (resolve_ids ratio (?locks k) c (item_category (pre ! k))
                                      (item_subcategory (pre ! k)))"
    using Cons.prems(1) by auto
  have bad: "\<not> resolved (resolve_ids ratio (?locks (length pre)) c (item_category bad)
                          (item_subcategory bad))"
    using Cons.prems(2) by simp
  note IH = Cons.IH[where locks = ?locks and d = ?d1, OF rest bad]
  show ?case
  proof (cases "sqlite_text (item_name it) \<and> sqlite_int (item_amount it) \<and> items_seq d < max_rowid")
    case False
    from insert_item_raises[OF this, of rid m i] have "\<exists>e. ?run = Inl e"
      using insert_items_resolved[where locks = locks, OF ids, of rid "pre @ bad # post" d] by auto
    moreover have "\<not> can_insert (items_seq d) (it # pre)" using False by auto
    ultimately show ?thesis by (simp only: if_P if_not_P if_True if_False simp_thms)
  next
    case True
    then have "insert_item rid it m i d = Inr ?d1" by (intro insert_item_ok) simp_all
    then have step: "?run = insert_items ratio ?locks c rid (pre @ bad # post) ?d1"
      using insert_items_resolved[where locks = locks, OF ids, of rid "pre @ bad # post" d] by simp
    have seq1: "items_seq ?d1 = items_seq d + 1" by simp
    show ?thesis
    proof (cases "can_insert (items_seq d + 1) pre")
      case False
      with IH have "\<exists>e. insert_items ratio ?locks c rid (pre @ bad # post) ?d1 = Inl e"
        by (simp only: seq1 if_P if_not_P if_True if_False simp_thms)
      with step have "\<exists>e. ?run = Inl e" by simp
      moreover have "\<not> can_insert (items_seq d) (it # pre)" using False by simp
      ultimately show ?thesis by (simp only: if_P if_not_P if_True if_False simp_thms)
    next
      case all: True
      with IH have "\<exists>R. insert_items ratio ?locks c rid (pre @ bad # post) ?d1 =
              Inr (Returned (?d1\<lparr>items := items ?d1 @ R, items_seq := items_seq ?d1 + int (length pre)\<rparr>)) \<and>
              stored_rows ratio ?locks c rid R pre"
        by (simp only: seq1 if_P if_not_P if_True if_False simp_thms)
      then obtain R where
        R: "insert_items ratio ?locks c rid (pre @ bad # post) ?d1 =
              Inr (Returned (?d1\<lparr>items := items ?d1 @ R, items_seq := items_seq ?d1 + int (length pre)\<rparr>))"
        "stored_rows ratio ?locks c rid R pre"
        by blast
      have "?run = Inr (Returned (d\<lparr>items := items d @ (?row # R),
                               items_seq := items_seq d + int (length (it # pre))\<rparr>))"
        using step R(1) by simp
      moreover have "stored_rows ratio locks c rid (?row # R) (it # pre)"
        using row R(2) by simp
      ultimately have "\<exists>R. ?run =
              Inr (Returned (d\<lparr>items := items d @ R,
                               items_seq := items_seq d + int (length (it # pre))\<rparr>)) \<and>
              stored_rows ratio locks c rid R (it # pre)"
        by blast
      moreover have "can_insert (items_seq d) (it # pre)" using True all by simp
      ultimately show ?thesis by (simp only: if_P if_not_P if_True if_False simp_thms)
    qed
  qed
qed

lemma add_receipt_unfold:
  assumes "sqlite_text store_name" "sqlite_text date" "sqlite_int total_amount"
    "receipts_seq d < max_rowid"
  shows "add_receipt ratio locks store_name date new_items total_amount d =
           (case insert_items ratio locks d (receipts_seq d + 1) new_items
                   (d\<lparr>receipts := receipts d @
                         [\<lparr>r_id = receipts_seq d + 1, r_store_name = store_name, r_date = date,
                           r_total_amount = total_amount\<rparr>],
                       receipts_seq := receipts_seq d + 1\<rparr>) of
              Inl e \<Rightarrow> (None, d)
            | Inr (Returned d2) \<Rightarrow> (None, d2)
            | Inr (Completed d2) \<Rightarrow> (Some (receipts_seq d + 1), d2))"
  using assms by (simp add: add_receipt_def insert_receipt_def lastrowid_receipts_def Let_def)

lemma add_receipt_raises:
  assumes "\<not> (sqlite_text store_name \<and> sqlite_text date \<and> sqlite_int total_amount \<and>
              receipts_seq d < max_rowid)"
  shows "add_receipt ratio locks store_name date new_items total_amount d = (None, d)"
  using assms by (auto simp: add_receipt_def insert_receipt_def)

text \<open>
  C3. The item list of \<open>add_receipt\<close> holds an item that does not resolve (under the
  lock states its lookups meet); the items before it and after it are arbitrary. Then
  the call returns \<open>None\<close>, and the store is either unchanged (an exception rolled
  the transaction back) or has gained the new receipt row and one item row for each
  item of an initial part of the items before the unresolvable one, and nothing of
  the items from it on. If moreover every item before it resolves, the store keeps
  the receipt row and a row for each of them when all texts and integers can be
  bound and identifiers are left, and is unchanged otherwise.
\<close>

theorem add_receipt_unresolved_item:
  assumes "\<not> resolved (resolve_ids ratio (locks (length pre)) d (item_category bad)
                          (item_subcategory bad))"
  shows "fst (add_receipt ratio locks store_name date (pre @ bad # post) total_amount d) = None \<and>
         (snd (add_receipt ratio locks store_name date (pre @ bad # post) total_amount d) = d \<or>
          (\<exists>R. length R \<le> length pre \<and>
               stored_rows ratio locks d (receipts_seq d + 1) R (take (length R) pre) \<and>
               snd (add_receipt ratio locks store_name date (pre @ bad # post) total_amount d) =
                 d\<lparr>receipts := receipts d @
                      [\<lparr>r_id = receipts_seq d + 1, r_store_name = store_name, r_date = date,
                        r_total_amount = total_amount\<rparr>],
                   receipts_seq := receipts_seq d + 1,
                   items := items d @ R,
                   items_seq := items_seq d + int (length R)\<rparr>)) \<and>
         ((\<forall>k<length pre. resolved (resolve_ids ratio (locks k) d (item_category (pre ! k))
                                      (item_subcategory (pre ! k)))) \<longrightarrow>
          (if sqlite_text store_name \<and> sqlite_text date \<and> sqlite_int total_amount \<and>
              receipts_seq d < max_rowid \<and> can_insert (items_seq d) pre
           then \<exists>R. stored_rows ratio locks d (receipts_seq d + 1) R pre \<and>
                  snd (add_receipt ratio locks store_name date (pre @ bad # post) total_amount d) =
                    d\<lparr>receipts := receipts d @
                         [\<lparr>r_id = receipts_seq d + 1, r_store_name = store_name, r_date = date,
                           r_total_amount = total_amount\<rparr>],
                      receipts_seq := receipts_seq d + 1,
                      items := items d @ R,
                      items_seq := items_seq d + int (length pre)\<rparr>
           else snd (add_receipt ratio locks store_name date (pre @ bad # post) total_amount d) = d))"
    (is "?none \<and> ?part \<and> ?whole")
proof (cases "sqlite_text store_name \<and> sqlite_text date \<and> sqlite_int total_amount \<and>
              receipts_seq d < max_rowid")
  case False
  from add_receipt_raises[OF False]
  have "add_receipt ratio locks store_name date (pre @ bad # post) total_amount d = (None, d)" .
  moreover have "\<not> (sqlite_text store_name \<and> sqlite_text date \<and> sqlite_int total_amount \<and>
              receipts_seq d < max_rowid \<and> can_insert (items_seq d) pre)"
    using False by blast
  ultimately show ?thesis by (simp add: if_not_P)
next
  case True
  let ?d1 = "d\<lparr>receipts := receipts d @
                  [\<lparr>r_id = receipts_seq d + 1, r_store_name = store_name, r_date = date,
                    r_total_amount = total_amount\<rparr>],
                receipts_seq := receipts_seq d + 1\<rparr>"
  let ?run = "insert_items ratio locks d (receipts_seq d + 1) (pre @ bad # post) ?d1"
  let ?add = "add_receipt ratio locks store_name date (pre @ bad # post) total_amount d"
  have add: "?add = (case ?run of Inl e \<Rightarrow> (None, d)
                     | Inr (Returned d2) \<Rightarrow> (None, d2)
                     | Inr (Completed d2) \<Rightarrow> (Some (receipts_seq d + 1), d2))"
    using True by (intro add_receipt_unfold) simp_all
  from insert_items_stop[where locks = locks and pre = pre, OF assms, of "receipts_seq d + 1" post ?d1]
  have first: "?none \<and> ?part"
  proof
    assume "\<exists>e. ?run = Inl e"
    with add have "?add = (None, d)" by auto
    then show ?thesis by simp
  next
    assume "\<exists>R. ?run = Inr (Returned (?d1\<lparr>items := items ?d1 @ R,
                                          items_seq := items_seq ?d1 + int (length R)\<rparr>)) \<and>
              length R \<le> length pre \<and>
              stored_rows ratio locks d (receipts_seq d + 1) R (take (length R) pre)"
    then obtain R where
      R: "?run = Inr (Returned (?d1\<lparr>items := items ?d1 @ R,
                                     items_seq := items_seq ?d1 + int (length R)\<rparr>))"
        "length R \<le> length pre"
        "stored_rows ratio locks d (receipts_seq d + 1) R (take (length R) pre)"
      by blast
    from add R(1) have
      "?add = (None, d\<lparr>receipts := receipts d @
                     [\<lparr>r_id = receipts_seq d + 1, r_store_name = store_name, r_date = date,
                       r_total_amount = total_amount\<rparr>],
                   receipts_seq := receipts_seq d + 1,
                   items := items d @ R,
                   items_seq := items_seq d + int (length R)\<rparr>)"
      by simp
    with R(2,3) show ?thesis by auto
  qed
  have ?whole
  proof
    assume pres: "\<forall>k<length pre. resolved (resolve_ids ratio (locks k) d (item_category (pre ! k))
                                      (item_subcategory (pre ! k)))"
    note loop = insert_items_prefix[where locks = locks and pre = pre and d = "?d1" and
        rid = "receipts_seq d + 1" and post = post, OF pres assms]
    let ?binds = "can_insert (items_seq d) pre"
    have seq1: "items_seq ?d1 = items_seq d" by simp
    show "if sqlite_text store_name \<and> sqlite_text date \<and> sqlite_int total_amount \<and>
             receipts_seq d < max_rowid \<and> ?binds
           then \<exists>R. stored_rows ratio locks d (receipts_seq d + 1) R pre \<and>
                  snd ?add =
                    d\<lparr>receipts := receipts d @
                         [\<lparr>r_id = receipts_seq d + 1, r_store_name = store_name, r_date = date,
                           r_total_amount = total_amount\<rparr>],
                      receipts_seq := receipts_seq d + 1,
                      items := items d @ R,
                      items_seq := items_seq d + int (length pre)\<rparr>
           else snd ?add = d"
    proof (cases ?binds)
      case False
      with loop have "\<exists>e. ?run = Inl e"
        by (simp only: seq1 if_P if_not_P if_True if_False simp_thms)
      with add have "?add = (None, d)" by auto
      moreover have "\<not> (sqlite_text store_name \<and> sqlite_text date \<and> sqlite_int total_amount \<and>
                         receipts_seq d < max_rowid \<and> ?binds)"
        using False by blast
      ultimately show ?thesis by (simp add: if_not_P)
    next
      case all: True
      with loop obtain R where
        R: "?run = Inr (Returned (?d1\<lparr>items := items ?d1 @ R,
                                       items_seq := items_seq ?d1 + int (length pre)\<rparr>))"
        "stored_rows ratio locks d (receipts_seq d + 1) R pre"
        by (auto simp only: seq1 if_P if_not_P if_True if_False simp_thms)
      from add R(1) have
        "?add = (None, d\<lparr>receipts := receipts d @
                       [\<lparr>r_id = receipts_seq d + 1, r_store_name = store_name, r_date = date,
                         r_total_amount = total_amount\<rparr>],
                     receipts_seq := receipts_seq d + 1,
                     items := items d @ R,
                     items_seq := items_seq d + int (length pre)\<rparr>)"
        by simp
      moreover have "sqlite_text store_name \<and> sqlite_text date \<and> sqlite_int total_amount \<and>
                     receipts_seq d < max_rowid \<and> ?binds"
        using True all by blast
      ultimately show ?thesis using R(2) by (simp add: if_P) blast
    qed
  qed
  with first show ?thesis by blast
qed

theorem add_receipt_unresolved_item_witness:
  "\<not> resolved (resolve_ids ratio_sample (False, False) init_db [0xC1FC, 0xD551]
                  [0xC804, 0xC790, 0xC81C, 0xD488]) \<and>
   resolved (resolve_ids ratio_sample (False, False) init_db [0xC74C, 0xC2DD]
               [0xC74C, 0xB8CC, 0xC218]) \<and>
   sqlite_text (u ''shop'') \<and> sqlite_text (u ''2024-03-15'') \<and> sqlite_int 904500 \<and>
   receipts_seq init_db < max_rowid \<and>
   can_insert (items_seq init_db)
     [\<lparr>item_name = u ''tea'', item_category = [0xC74C, 0xC2DD],
       item_subcategory = [0xC74C, 0xB8CC, 0xC218], item_amount = 4500\<rparr>] \<and>
   fst (add_receipt ratio_sample never_locked (u ''shop'') (u ''2024-03-15'')
          [\<lparr>item_name = u ''tea'', item_category = [0xC74C, 0xC2DD],
            item_subcategory = [0xC74C, 0xB8CC, 0xC218], item_amount = 4500\<rparr>,
           \<lparr>item_name = u ''tv'', item_category = [0xC1FC, 0xD551],
            item_subcategory = [0xC804, 0xC790, 0xC81C, 0xD488], item_amount = 900000\<rparr>,
           \<lparr>item_name = u ''milk'', item_category = [0xC74C, 0xC2DD],
            item_subcategory = [0xC74C, 0xB8CC], item_amount = 2000\<rparr>]
          904500 init_db) = None \<and>
   (\<exists>R. snd (add_receipt ratio_sample never_locked (u ''shop'') (u ''2024-03-15'')
          [\<lparr>item_name = u ''tea'', item_category = [0xC74C, 0xC2DD],
            item_subcategory = [0xC74C, 0xB8CC, 0xC218], item_amount = 4500\<rparr>,
           \<lparr>item_name = u ''tv'', item_category = [0xC1FC, 0xD551],
            item_subcategory = [0xC804, 0xC790, 0xC81C, 0xD488], item_amount = 900000\<rparr>,
           \<lparr>item_name = u ''milk'', item_category = [0xC74C, 0xC2DD],
            item_subcategory = [0xC74C, 0xB8CC], item_amount = 2000\<rparr>]
          904500 init_db) =
        init_db\<lparr>receipts := [\<lparr>r_id = 1, r_store_name = u ''shop'', r_date = u ''2024-03-15'',
                                r_total_amount = 904500\<rparr>],
                receipts_seq := 1, items := R, items_seq := 1\<rparr> \<and>
        length R = 1)"
proof -
  let ?tea = "\<lparr>item_name = u ''tea'', item_category = [0xC74C, 0xC2DD],
                 item_subcategory = [0xC74C, 0xB8CC, 0xC218], item_amount = 4500\<rparr>"
  let ?tv = "\<lparr>item_name = u ''tv'', item_category = [0xC1FC, 0xD551],
            item_subcategory = [0xC804, 0xC790, 0xC81C, 0xD488], item_amount = 900000\<rparr>"
  let ?milk = "\<lparr>item_name = u ''milk'', item_category = [0xC74C, 0xC2DD],
            item_subcategory = [0xC74C, 0xB8CC], item_amount = 2000\<rparr>"
  let ?add = "add_receipt ratio_sample never_locked (u ''shop'') (u ''2024-03-15'')
                [?tea, ?tv, ?milk] 904500 init_db"
  note iff = resolved_iff[OF seeded_init_db ratio_sample_contract]
  have h1: "resolved (resolve_ids ratio_sample (False, False) init_db [0xC74C, 0xC2DD]
                        [0xC74C, 0xB8CC, 0xC218])"
    by (simp add: iff valid_categories_def dict_get_def ratio_sample_def cutoff_def)
  have h2: "\<not> resolved (resolve_ids ratio_sample (False, False) init_db [0xC1FC, 0xD551]
                           [0xC804, 0xC790, 0xC81C, 0xD488])"
    by (simp add: iff valid_categories_def dict_get_def ratio_sample_def cutoff_def)
  then have bad: "\<not> resolved (resolve_ids ratio_sample (never_locked (length [?tea])) init_db
                            (item_category ?tv) (item_subcategory ?tv))"
    by (simp add: never_locked_def)
  have pres: "\<forall>k<length [?tea]. resolved (resolve_ids ratio_sample (never_locked k) init_db
                 (item_category ([?tea] ! k)) (item_subcategory ([?tea] ! k)))"
    using h1 by (simp add: never_locked_def)
  have seqs: "receipts init_db = []" "receipts_seq init_db = 0" "items init_db = []" "items_seq init_db = 0"
    by (simp_all add: init_db_eq)
  have b: "sqlite_text (u ''shop'')" "sqlite_text (u ''2024-03-15'')" "sqlite_int 904500"
    "receipts_seq init_db < max_rowid" "can_insert (items_seq init_db) [?tea]"
    by (simp_all add: sqlite_text_def sqlite_int_def max_rowid_def u_def seqs)
  then have binds: "sqlite_text (u ''shop'') \<and> sqlite_text (u ''2024-03-15'') \<and> sqlite_int 904500 \<and>
      receipts_seq init_db < max_rowid \<and> can_insert (items_seq init_db) [?tea]"
    by simp
  have l: "[?tea] @ ?tv # [?milk] = [?tea, ?tv, ?milk]" by simp
  note inst = add_receipt_unresolved_item[where locks = never_locked and pre = "[?tea]" and bad = "?tv",
      OF bad, of "u ''shop''" "u ''2024-03-15''" "[?milk]" 904500, unfolded l]
  from inst have none: "fst ?add = None" by (rule conjunct1)
  from inst have "(\<forall>k<length [?tea]. resolved (resolve_ids ratio_sample (never_locked k) init_db
                 (item_category ([?tea] ! k)) (item_subcategory ([?tea] ! k)))) \<longrightarrow>
      (if sqlite_text (u ''shop'') \<and> sqlite_text (u ''2024-03-15'') \<and> sqlite_int 904500 \<and>
          receipts_seq init_db < max_rowid \<and> can_insert (items_seq init_db) [?tea]
       then \<exists>R. stored_rows ratio_sample never_locked init_db (receipts_seq init_db + 1) R [?tea] \<and>
              snd ?add =
                init_db\<lparr>receipts := receipts init_db @
                     [\<lparr>r_id = receipts_seq init_db + 1, r_store_name = u ''shop'',
                       r_date = u ''2024-03-15'', r_total_amount = 904500\<rparr>],
                  receipts_seq := receipts_seq init_db + 1,
                  items := items init_db @ R,
                  items_seq := items_seq init_db + int (length [?tea])\<rparr>
       else snd ?add = init_db)"
    by (rule conjunct2[THEN conjunct2])
  with pres binds obtain R where
    R: "stored_rows ratio_sample never_locked init_db (receipts_seq init_db + 1) R [?tea]"
    and st: "snd ?add =
                init_db\<lparr>receipts := receipts init_db @
                     [\<lparr>r_id = receipts_seq init_db + 1, r_store_name = u ''shop'',
                       r_date = u ''2024-03-15'', r_total_amount = 904500\<rparr>],
                  receipts_seq := receipts_seq init_db + 1,
                  items := items init_db @ R,
                  items_seq := items_seq init_db + int (length [?tea])\<rparr>"
    by (auto simp only: if_P)
  from stored_rows_length[OF R] have len: "length R = 1" by simp
  from st have st': "snd ?add =
        init_db\<lparr>receipts := [\<lparr>r_id = 1, r_store_name = u ''shop'', r_date = u ''2024-03-15'',
                                r_total_amount = 904500\<rparr>],
                receipts_seq := 1, items := R, items_seq := 1\<rparr>"
    by (simp add: seqs)
  show ?thesis
    by (intro conjI exI[of _ R]) (rule h1 h2 b none st' len)+
qed

subsection \<open>The category invariant of the item rows\<close>

lemma insert_items_rows:
  "insert_items ratio locks c rid its d = Inr ex \<Longrightarrow>
   \<exists>R. db_of ex = d\<lparr>items := items d @ R, items_seq := items_seq d + int (length R)\<rparr> \<and>
       (\<forall>r\<in>set R. \<exists>it\<in>set its. \<exists>lk. stored_as ratio lk c rid r it)"
proof (induction its arbitrary: d locks)
  case Nil
  then have "db_of ex = d\<lparr>items := items d @ [], items_seq := items_seq d + int (length ([] :: item_row list))\<rparr>"
    by (auto simp: db_of_def)
  then show ?case by (intro exI[of _ "[]"]) simp
next
  case (Cons it rest)
  show ?case
  proof (cases "resolved (resolve_ids ratio (locks 0) c (item_category it) (item_subcategory it))")
    case False
    from insert_items_unresolved[of ratio locks c it rid rest d] False Cons.prems
    have "ex = Returned d" by simp
    then have "db_of ex = d\<lparr>items := items d @ [], items_seq := items_seq d + int (length ([] :: item_row list))\<rparr>"
      by (simp add: db_of_def)
    then show ?thesis by (intro exI[of _ "[]"]) simp
  next
    case True
    then obtain m i where
      ids: "resolve_ids ratio (locks 0) c (item_category it) (item_subcategory it) = (Some m, Some i)"
        "m \<noteq> 0" "i \<noteq> 0"
      by (auto simp: resolved_cases)
    let ?row = "\<lparr>i_id = items_seq d + 1, i_receipt_id = rid, i_name = item_name it,
                 i_main_category_id = m, i_sub_category_id = i, i_amount = item_amount it\<rparr>"
    let ?d1 = "d\<lparr>items := items d @ [?row], items_seq := items_seq d + 1\<rparr>"
    let ?locks = "\<lambda>k. locks (Suc k)"
    have row: "stored_as ratio (locks 0) c rid ?row it"
      using ids by (simp add: stored_as_def resolved_cases)
    have "insert_items ratio ?locks c rid rest ?d1 = Inr ex"
    proof (cases "sqlite_text (item_name it) \<and> sqlite_int (item_amount it) \<and> items_seq d < max_rowid")
      case False
      from insert_item_raises[OF this, of rid m i] Cons.prems show ?thesis
        using insert_items_resolved[where locks = locks, OF ids, of rid rest d] by auto
    next
      case True
      then have "insert_item rid it m i d = Inr ?d1" by (intro insert_item_ok) simp_all
      with Cons.prems show ?thesis
        using insert_items_resolved[where locks = locks, OF ids, of rid rest d] by simp
    qed
    from Cons.IH[OF this] obtain R where
      R: "db_of ex = ?d1\<lparr>items := items ?d1 @ R, items_seq := items_seq ?d1 + int (length R)\<rparr>"
        "\<forall>r\<in>set R. \<exists>it\<in>set rest. \<exists>lk. stored_as ratio lk c rid r it"
      by blast
    have "db_of ex = d\<lparr>items := items d @ (?row # R), items_seq := items_seq d + int (length (?row # R))\<rparr>"
      using R(1) by simp
    moreover have "\<forall>r\<in>set (?row # R). \<exists>x\<in>set (it # rest). \<exists>lk. stored_as ratio lk c rid r x"
    proof
      fix r
      assume "r \<in> set (?row # R)"
      then consider "r = ?row" | "r \<in> set R" by auto
      then show "\<exists>x\<in>set (it # rest). \<exists>lk. stored_as ratio lk c rid r x"
      proof cases
        case 1
        with row show ?thesis by (intro bexI[of _ it] exI[of _ "locks 0"]) simp_all
      next
        case 2
        with R(2) obtain x lk where "x \<in> set rest" "stored_as ratio lk c rid r x" by blast
        then show ?thesis by (intro bexI[of _ x] exI[of _ lk]) simp_all
      qed
    qed
    ultimately show ?thesis by blast
  qed
qed

lemma resolve_ids_lookup:
  assumes "resolve_ids ratio lk d c s = (Some m, Some i)"
  shows "\<exists>l x. get_category_ids l d c x = (Some m, Some i)"
proof (cases "get_close_matches ratio s (dict_get valid_categories c [])")
  case Nil
  with assms have "get_category_ids (fst lk) d c s = (Some m, Some i)"
    by (cases "get_category_ids (fst lk) d c s") (auto simp: resolve_ids_def Let_def split: if_splits)
  then show ?thesis by blast
next
  case (Cons best rest)
  with assms have "get_category_ids (fst lk) d c s = (Some m, Some i) \<or>
                   get_category_ids (snd lk) d c best = (Some m, Some i)"
    by (cases "get_category_ids (fst lk) d c s") (auto simp: resolve_ids_def Let_def split: if_splits)
  then show ?thesis by blast
qed

lemma item_in_taxonomy_tables:
  "main_categories d' = main_categories d \<Longrightarrow> sub_categories d' = sub_categories d \<Longrightarrow>
   item_in_taxonomy d' r = item_in_taxonomy d r"
  by (simp add: item_in_taxonomy_def)

lemma stored_as_in_taxonomy:
  assumes "seeded c" "stored_as ratio lk c rid r it"
  shows "item_in_taxonomy c r"
proof -
  from assms(2) have "resolve_ids ratio lk c (item_category it) (item_subcategory it) =
      (Some (i_main_category_id r), Some (i_sub_category_id r))"
    by (simp add: stored_as_def)
  from resolve_ids_lookup[OF this] obtain l x where
    x: "get_category_ids l c (item_category it) x = (Some (i_main_category_id r), Some (i_sub_category_id r))"
    by blast
  from get_category_ids_rows[OF x] lookup_sound[OF assms(1) x]
  show ?thesis
    unfolding item_in_taxonomy_def list_ex_iff
    by (intro bexI[of _ "\<lparr>sc_id = i_sub_category_id r, sc_main_category_id = i_main_category_id r, sc_name = x\<rparr>"]
              conjI bexI[of _ "\<lparr>mc_id = i_main_category_id r, mc_name = item_category it\<rparr>"]) simp_all
qed

lemma store_invariant_init_db: "store_invariant init_db"
  by (simp add: store_invariant_def seeded_def init_db_eq)

lemma store_invariant_insert_items:
  assumes inv: "seeded c" "main_categories d = main_categories c" "sub_categories d = sub_categories c"
    "list_all (item_in_taxonomy c) (items d)"
    and run: "insert_items ratio locks c rid its d = Inr ex"
  shows "store_invariant (db_of ex)"
proof -
  from insert_items_rows[OF run] obtain R where
    R: "db_of ex = d\<lparr>items := items d @ R, items_seq := items_seq d + int (length R)\<rparr>"
      "\<forall>r\<in>set R. \<exists>it\<in>set its. \<exists>lk. stored_as ratio lk c rid r it"
    by blast
  have tables: "main_categories (db_of ex) = main_categories c" "sub_categories (db_of ex) = sub_categories c"
    using R(1) inv(2,3) by simp_all
  have "list_all (item_in_taxonomy c) R"
    using R(2) stored_as_in_taxonomy[OF inv(1)] by (auto simp: list_all_iff)
  with inv(4) have "list_all (item_in_taxonomy c) (items (db_of ex))"
    using R(1) by simp
  then have "list_all (item_in_taxonomy (db_of ex)) (items (db_of ex))"
    using item_in_taxonomy_tables[OF tables] by (simp add: list_all_iff)
  moreover have "seeded (db_of ex)" using inv(1) tables by (simp add: seeded_def)
  ultimately show ?thesis by (simp add: store_invariant_def)
qed

lemma insert_receipt_tables:
  assumes "insert_receipt store_name date total_amount d = Inr d1"
  shows "main_categories d1 = main_categories d" "sub_categories d1 = sub_categories d"
    "items d1 = items d"
  using assms by (auto simp: insert_receipt_def split: if_splits)

lemma update_receipt_row_tables:
  assumes "update_receipt_row receipt_id store_name date total_amount d = Inr d1"
  shows "main_categories d1 = main_categories d" "sub_categories d1 = sub_categories d"
    "items d1 = items d"
  using assms by (auto simp: update_receipt_row_def split: if_splits)

text \<open>
  C9. The invariant: the category tables are the seeded ones, and every item row names
  a subcategory row of its own main category whose two names form a pair of
  \<open>self.valid_categories\<close>. It holds in the state after \<open>add_receipt\<close> and after
  \<open>update_receipt\<close> whenever it held before, whatever the arguments, whatever lock
  states the lookups meet, and however the call ends.
\<close>

theorem store_invariant_preserved:
  assumes "store_invariant d"
  shows "store_invariant (snd (add_receipt ratio locks store_name date new_items total_amount d)) \<and>
         store_invariant
           (snd (update_receipt ratio locks receipt_id store_name date new_items total_amount d))"
proof
  from assms have sd: "seeded d" and its: "list_all (item_in_taxonomy d) (items d)"
    by (simp_all add: store_invariant_def)
  show "store_invariant (snd (add_receipt ratio locks store_name date new_items total_amount d))"
  proof (cases "insert_receipt store_name date total_amount d")
    case (Inl e)
    then show ?thesis using assms by (simp add: add_receipt_def)
  next
    case d1: (Inr d1)
    let ?run = "insert_items ratio locks d (lastrowid_receipts d1) new_items d1"
    have add: "add_receipt ratio locks store_name date new_items total_amount d =
                 (case ?run of Inl e \<Rightarrow> (None, d)
                  | Inr (Returned d2) \<Rightarrow> (None, d2)
                  | Inr (Completed d2) \<Rightarrow> (Some (lastrowid_receipts d1), d2))"
      using d1 by (simp add: add_receipt_def Let_def)
    show ?thesis
    proof (cases ?run)
      case (Inl e)
      with add assms show ?thesis by simp
    next
      case (Inr ex)
      have "store_invariant (db_of ex)"
        by (rule store_invariant_insert_items[OF sd _ _ _ Inr])
           (use its insert_receipt_tables[OF d1] in simp_all)
      moreover have "snd (add_receipt ratio locks store_name date new_items total_amount d) = db_of ex"
        using add Inr by (cases ex) (simp_all add: db_of_def)
      ultimately show ?thesis by simp
    qed
  qed
  show "store_invariant
          (snd (update_receipt ratio locks receipt_id store_name date new_items total_amount d))"
  proof (cases "update_receipt_row receipt_id store_name date total_amount d")
    case (Inl e)
    then show ?thesis using assms by (simp add: update_receipt_def)
  next
    case d1: (Inr d1)
    let ?run = "insert_items ratio locks d receipt_id new_items (delete_items receipt_id d1)"
    have upd: "update_receipt ratio locks receipt_id store_name date new_items total_amount d =
                 (case ?run of Inl e \<Rightarrow> (False, d)
                  | Inr (Returned d2) \<Rightarrow> (False, d2)
                  | Inr (Completed d2) \<Rightarrow> (True, d2))"
      using d1 by (simp add: update_receipt_def)
    show ?thesis
    proof (cases ?run)
      case (Inl e)
      with upd assms show ?thesis by simp
    next
      case (Inr ex)
      have "list_all (item_in_taxonomy d) (items (delete_items receipt_id d1))"
        using its update_receipt_row_tables(3)[OF d1] by (simp add: delete_items_def list_all_iff)
      then have "store_invariant (db_of ex)"
        using update_receipt_row_tables(1,2)[OF d1]
        by (intro store_invariant_insert_items[OF sd _ _ _ Inr]) (simp_all add: delete_items_def)
      moreover have "snd (update_receipt ratio locks receipt_id store_name date new_items total_amount d) = db_of ex"
        using upd Inr by (cases ex) (simp_all add: db_of_def)
      ultimately show ?thesis by simp
    qed
  qed
qed

theorem store_invariant_preserved_witness:
  "store_invariant init_db \<and>
   store_invariant
     (snd (add_receipt ratio_sample never_locked (u ''shop'') (u ''2024-03-15'')
             [\<lparr>item_name = u ''tea'', item_category = [0xC74C, 0xC2DD],
               item_subcategory = [0xC74C, 0xB8CC, 0xC218], item_amount = 4500\<rparr>]
             4500 init_db)) \<and>
   store_invariant
     (snd (update_receipt ratio_sample never_locked 1 (u ''shop'') (u ''2024-03-15'')
             [\<lparr>item_name = u ''tea'', item_category = [0xC74C, 0xC2DD],
               item_subcategory = [0xC74C, 0xB8CC, 0xC218], item_amount = 4500\<rparr>]
             4500 init_db))"
  using store_invariant_init_db store_invariant_preserved[OF store_invariant_init_db]
  by blast

subsection \<open>A successful \<open>add_receipt\<close>\<close>

lemma insert_items_all:
  assumes "\<forall>k<length its. resolved (resolve_ids ratio (locks k) c (item_category (its ! k))
                                      (item_subcategory (its ! k)))"
    and "can_insert (items_seq d) its"
  shows "\<exists>R. insert_items ratio locks c rid its d =
               Inr (Completed (d\<lparr>items := items d @ R,
                                 items_seq := items_seq d + int (length its)\<rparr>)) \<and>
             stored_rows ratio locks c rid R its"
  using assms
proof (induction its arbitrary: d locks)
  case Nil
  have "insert_items ratio locks c rid [] d =
          Inr (Completed (d\<lparr>items := items d @ [],
                            items_seq := items_seq d + int (length ([] :: item list))\<rparr>)) \<and>
        stored_rows ratio locks c rid [] []"
    by simp
  then show ?case by blast
next
  case (Cons it rest)
  let ?locks = "\<lambda>k. locks (Suc k)"
  from Cons.prems(1) have "resolved (resolve_ids ratio (locks 0) c (item_category it) (item_subcategory it))"
    by auto
  then obtain m i where
    ids: "resolve_ids ratio (locks 0) c (item_category it) (item_subcategory it) = (Some m, Some i)"
      "m \<noteq> 0" "i \<noteq> 0"
    by (auto simp: resolved_cases)
  let ?row = "\<lparr>i_id = items_seq d + 1, i_receipt_id = rid, i_name = item_name it,
               i_main_category_id = m, i_sub_category_id = i, i_amount = item_amount it\<rparr>"
  let ?d1 = "d\<lparr>items := items d @ [?row], items_seq := items_seq d + 1\<rparr>"
  have row: "stored_as ratio (locks 0) c rid ?row it"
    using ids by (simp add: stored_as_def resolved_cases)
  from Cons.prems(2) have "insert_item rid it m i d = Inr ?d1" by (intro insert_item_ok) simp_all
  then have step: "insert_items ratio locks c rid (it # rest) d = insert_items ratio ?locks c rid rest ?d1"
    using insert_items_resolved[where locks = locks, OF ids, of rid rest d] by simp
  have rest: "\<forall>k<length rest. resolved (resolve_ids ratio (?locks k) c (item_category (rest ! k))
                                      (item_subcategory (rest ! k)))"
    using Cons.prems(1) by auto
  have binds: "can_insert (items_seq ?d1) rest"
    using Cons.prems(2) by simp
  from Cons.IH[where locks = ?locks and d = ?d1, OF rest binds] obtain R where
    R: "insert_items ratio ?locks c rid rest ?d1 =
          Inr (Completed (?d1\<lparr>items := items ?d1 @ R, items_seq := items_seq ?d1 + int (length rest)\<rparr>))"
      "stored_rows ratio ?locks c rid R rest"
    by blast
  have "insert_items ratio locks c rid (it # rest) d =
          Inr (Completed (d\<lparr>items := items d @ (?row # R),
                            items_seq := items_seq d + int (length (it # rest))\<rparr>))"
    using step R(1) by simp
  moreover have "stored_rows ratio locks c rid (?row # R) (it # rest)"
    using row R(2) by simp
  ultimately show ?case by blast
qed

text \<open>
  When every item resolves, every text and integer can be bound and identifiers are
  left, \<open>add_receipt\<close> returns the new identifier and the store gains the receipt
  row and exactly one item row per item of the list, in order, each carrying that
  identifier.
\<close>

theorem add_receipt_stores_every_item:
  assumes "\<forall>k<length new_items.
             resolved (resolve_ids ratio (locks k) d (item_category (new_items ! k))
                         (item_subcategory (new_items ! k)))"
    and "sqlite_text store_name" and "sqlite_text date" and "sqlite_int total_amount"
    and "receipts_seq d < max_rowid" and "can_insert (items_seq d) new_items"
  shows "\<exists>R. add_receipt ratio locks store_name date new_items total_amount d =
               (Some (receipts_seq d + 1),
                d\<lparr>receipts := receipts d @
                     [\<lparr>r_id = receipts_seq d + 1, r_store_name = store_name, r_date = date,
                       r_total_amount = total_amount\<rparr>],
                  receipts_seq := receipts_seq d + 1,
                  items := items d @ R,
                  items_seq := items_seq d + int (length new_items)\<rparr>) \<and>
             stored_rows ratio locks d (receipts_seq d + 1) R new_items"
proof -
  let ?d1 = "d\<lparr>receipts := receipts d @
                  [\<lparr>r_id = receipts_seq d + 1, r_store_name = store_name, r_date = date,
                    r_total_amount = total_amount\<rparr>],
                receipts_seq := receipts_seq d + 1\<rparr>"
  have "can_insert (items_seq ?d1) new_items" using assms(6) by simp
  from insert_items_all[where locks = locks and its = new_items and d = ?d1, OF assms(1) this,
      of "receipts_seq d + 1"]
  obtain R where
    R: "insert_items ratio locks d (receipts_seq d + 1) new_items ?d1 =
          Inr (Completed (?d1\<lparr>items := items ?d1 @ R,
                               items_seq := items_seq ?d1 + int (length new_items)\<rparr>))"
      "stored_rows ratio locks d (receipts_seq d + 1) R new_items"
    by blast
  have "add_receipt ratio locks store_name date new_items total_amount d =
          (Some (receipts_seq d + 1),
           d\<lparr>receipts := receipts d @
                [\<lparr>r_id = receipts_seq d + 1, r_store_name = store_name, r_date = date,
                  r_total_amount = total_amount\<rparr>],
             receipts_seq := receipts_seq d + 1,
             items := items d @ R,
             items_seq := items_seq d + int (length new_items)\<rparr>)"
    using R(1) by (simp add: add_receipt_unfold[OF assms(2,3,4,5)])
  with R(2) show ?thesis by blast
qed

theorem add_receipt_stores_every_item_witness:
  "resolved (resolve_ids ratio_sample (False, False) init_db [0xC74C, 0xC2DD] [0xC74C, 0xB8CC, 0xC218]) \<and>
   resolved (resolve_ids ratio_sample (False, False) init_db [0xC74C, 0xC2DD] [0xC74C, 0xB8CC]) \<and>
   sqlite_text (u ''shop'') \<and> sqlite_text (u ''2024-03-15'') \<and> sqlite_int 6500 \<and>
   receipts_seq init_db < max_rowid \<and>
   can_insert (items_seq init_db)
     [\<lparr>item_name = u ''tea'', item_category = [0xC74C, 0xC2DD],
       item_subcategory = [0xC74C, 0xB8CC, 0xC218], item_amount = 4500\<rparr>,
      \<lparr>item_name = u ''milk'', item_category = [0xC74C, 0xC2DD],
       item_subcategory = [0xC74C, 0xB8CC], item_amount = 2000\<rparr>] \<and>
   (\<exists>R. add_receipt ratio_sample never_locked (u ''shop'') (u ''2024-03-15'')
          [\<lparr>item_name = u ''tea'', item_category = [0xC74C, 0xC2DD],
            item_subcategory = [0xC74C, 0xB8CC, 0xC218], item_amount = 4500\<rparr>,
           \<lparr>item_name = u ''milk'', item_category = [0xC74C, 0xC2DD],
            item_subcategory = [0xC74C, 0xB8CC], item_amount = 2000\<rparr>]
          6500 init_db =
        (Some 1,
         init_db\<lparr>receipts := [\<lparr>r_id = 1, r_store_name = u ''shop'', r_date = u ''2024-03-15'',
                                 r_total_amount = 6500\<rparr>],
                 receipts_seq := 1, items := R, items_seq := 2\<rparr>) \<and>
        length R = 2)"
proof -
  let ?its = "[\<lparr>item_name = u ''tea'', item_category = [0xC74C, 0xC2DD],
                 item_subcategory = [0xC74C, 0xB8CC, 0xC218], item_amount = 4500\<rparr>,
               \<lparr>item_name = u ''milk'', item_category = [0xC74C, 0xC2DD],
                 item_subcategory = [0xC74C, 0xB8CC], item_amount = 2000\<rparr>]"
  note iff = resolved_iff[OF seeded_init_db ratio_sample_contract]
  have g: "resolved (resolve_ids ratio_sample (False, False) init_db [0xC74C, 0xC2DD] [0xC74C, 0xB8CC, 0xC218])"
    "resolved (resolve_ids ratio_sample (False, False) init_db [0xC74C, 0xC2DD] [0xC74C, 0xB8CC])"
    by (simp_all add: iff valid_categories_def dict_get_def ratio_sample_def cutoff_def)
  have h1: "\<forall>k<length ?its. resolved (resolve_ids ratio_sample (never_locked k) init_db
               (item_category (?its ! k)) (item_subcategory (?its ! k)))"
    using g by (simp add: never_locked_def less_Suc_eq)
  have seqs: "receipts init_db = []" "receipts_seq init_db = 0" "items init_db = []" "items_seq init_db = 0"
    by (simp_all add: init_db_eq)
  have b: "sqlite_text (u ''shop'')" "sqlite_text (u ''2024-03-15'')" "sqlite_int 6500"
    "receipts_seq init_db < max_rowid" "can_insert (items_seq init_db) ?its"
    by (simp_all add: sqlite_text_def sqlite_int_def max_rowid_def u_def seqs)
  from add_receipt_stores_every_item[where locks = never_locked and new_items = ?its,
      OF h1 b]
  obtain R where
    R: "add_receipt ratio_sample never_locked (u ''shop'') (u ''2024-03-15'') ?its 6500 init_db =
        (Some 1,
         init_db\<lparr>receipts := [\<lparr>r_id = 1, r_store_name = u ''shop'', r_date = u ''2024-03-15'',
                                 r_total_amount = 6500\<rparr>],
                 receipts_seq := 1, items := R, items_seq := 2\<rparr>)"
    and "stored_rows ratio_sample never_locked init_db 1 R ?its"
    by (auto simp: seqs)
  then have len: "length R = 2" by (auto dest: stored_rows_length)
  show ?thesis
    by (intro conjI exI[of _ R]) (rule g b R len)+
qed

subsection \<open>Reading the receipts back\<close>

text \<open>
  C4. The claim: after an \<open>add\<close> in which every item resolves, a read of the stored
  receipts returns the added receipt. The code: the statement of \<open>get_receipts\<close>
  names the columns \<open>category\<close> and \<open>subcategory\<close>, which the table \<open>receipts\<close>
  does not have, so it raises and the method returns the empty list, after any
  \<open>add_receipt\<close> as in every other state of the store.
\<close>

theorem get_receipts_empty_after_add:
  "get_receipts (snd (add_receipt ratio locks store_name date new_items total_amount d)) = []"
  by (simp add: get_receipts_def select_receipts_def receipts_columns_def)

subsection \<open>Trends\<close>

text \<open>
  C6. The claim: \<open>trends\<close> returns the sequence of (period, total) pairs and a grand
  total. The code: the statement of \<open>get_expense_trends\<close> sums a column \<open>amount\<close>
  of the table \<open>receipts\<close>, which has no such column (the amounts are in \<open>items\<close>),
  so it raises and the method returns \<open>None\<close> for every store, category and period.
\<close>

theorem get_expense_trends_none:
  "get_expense_trends strftime category period d = None"
proof -
  have "select_receipts cols rows = Inl (OperationalError ''no such column: amount'')"
    if "cols = [''date'', ''amount''] \<or> cols = [''date'', ''amount'', ''category'']"
    for cols rows
    using that by (auto simp: select_receipts_def receipts_columns_def)
  then have "trends_query strftime (date_format period) category (receipts d) =
               Inl (OperationalError ''no such column: amount'')"
    by (simp add: trends_query_def split: option.splits)
  then show ?thesis by (simp add: get_expense_trends_def)
qed

subsection \<open>Updating a receipt that does not exist\<close>

text \<open>
  C8. The claim: \<open>update\<close> with an identifier that no receipt has changes no row.
  The code on the freshly seeded store, which holds no receipt, called with identifier
  42 and one item of the pair ("food", "drink"): the \<open>UPDATE\<close> and the \<open>DELETE\<close>
  match no row, so nothing has been written when the one lookup runs and it reads the
  store; the call returns \<open>True\<close> and has inserted an item row that carries receipt
  identifier 42.
\<close>

theorem update_receipt_missing_id_inserts:
  "receipts init_db = [] \<and>
   update_receipt ratio never_locked 42 (u ''shop'') (u ''2024-03-15'')
     [\<lparr>item_name = u ''milk'', item_category = [0xC74C, 0xC2DD],
       item_subcategory = [0xC74C, 0xB8CC], item_amount = 2000\<rparr>]
     2000 init_db =
   (True,
    init_db\<lparr>items := [\<lparr>i_id = 1, i_receipt_id = 42, i_name = u ''milk'',
                        i_main_category_id = 6, i_sub_category_id = 27, i_amount = 2000\<rparr>],
            items_seq := 1\<rparr>)"
proof -
  have ids: "get_category_ids False init_db [0xC74C, 0xC2DD] [0xC74C, 0xB8CC] = (Some 6, Some 27)"
    by (simp add: get_category_ids_def select_category_ids_def sqlite_text_def fetchone_def
        init_db_eq)
  then have res: "resolve_ids ratio (False, False) init_db [0xC74C, 0xC2DD] [0xC74C, 0xB8CC] =
      (Some 6, Some 27)"
    by (simp add: resolve_ids_def truthy_id_def)
  have seqs: "receipts init_db = []" "items init_db = []" "items_seq init_db = 0"
    by (simp_all add: init_db_eq)
  have b: "sqlite_text (u ''shop'')" "sqlite_text (u ''2024-03-15'')" "sqlite_text (u ''milk'')"
    by (simp_all add: sqlite_text_def u_def)
  show ?thesis
    by (simp add: update_receipt_def update_receipt_row_def delete_items_def insert_item_def
        sqlite_int_def max_rowid_def never_locked_def res seqs b)
qed

subsection \<open>Statistics\<close>

lemma filter_key_distinct:
  "distinct (map f xs) \<Longrightarrow> x \<in> set xs \<Longrightarrow> filter (\<lambda>y. f x = f y) xs = [x]"
proof (induction xs)
  case Nil
  then show ?case by simp
next
  case (Cons a xs)
  show ?case
  proof (cases "x = a")
    case True
    then have "filter (\<lambda>y. f x = f y) xs = []"
      using Cons.prems(1) by (auto simp: filter_empty_conv)
    with True show ?thesis by simp
  next
    case False
    with Cons.prems have "x \<in> set xs" "f a \<noteq> f x" by auto
    with Cons show ?thesis by auto
  qed
qed

lemma distinct_main_rows_from: "distinct (map mc_id (main_rows_from n cs))"
proof (induction cs arbitrary: n)
  case Nil
  then show ?case by simp
next
  case (Cons c cs)
  have "n + 1 \<notin> mc_id ` set (main_rows_from (n + 1) cs)"
    using ids_main_rows_from[of _ "n + 1" cs] by fastforce
  with Cons show ?case by simp
qed

lemma sub_rows_from_upper: "r \<in> set (sub_rows_from n k ss) \<Longrightarrow> sc_id r \<le> n + int (length ss)"
  by (induction ss arbitrary: n) force+

lemma distinct_sub_rows_from: "distinct (map sc_id (sub_rows_from n k ss))"
proof (induction ss arbitrary: n)
  case Nil
  then show ?case by simp
next
  case (Cons s ss)
  have "n + 1 \<notin> sc_id ` set (sub_rows_from (n + 1) k ss)"
    using sub_rows_from_sound[of _ "n + 1" k ss] by fastforce
  with Cons show ?case by simp
qed

lemma distinct_all_sub_rows: "distinct (map sc_id (all_sub_rows n m tss))"
proof (induction tss arbitrary: n m)
  case Nil
  then show ?case by simp
next
  case (Cons ss tss)
  have "sc_id ` set (sub_rows_from n (m + 1) ss) \<inter>
        sc_id ` set (all_sub_rows (n + int (length ss)) (m + 1) tss) = {}"
    using sub_rows_from_upper[of _ n "m + 1" ss]
      all_sub_rows_ids[of _ "n + int (length ss)" "m + 1" tss]
    by fastforce
  with Cons distinct_sub_rows_from show ?case by simp
qed

lemma join_category_rows:
  assumes "seeded d" "get_category_ids lk d c s = (Some m, Some i)"
  shows "filter (\<lambda>mc. m = mc_id mc) (main_categories d) = [\<lparr>mc_id = m, mc_name = c\<rparr>]"
    and "filter (\<lambda>sc. i = sc_id sc) (sub_categories d) =
           [\<lparr>sc_id = i, sc_main_category_id = m, sc_name = s\<rparr>]"
proof -
  let ?mr = "\<lparr>mc_id = m, mc_name = c\<rparr>"
  let ?sr = "\<lparr>sc_id = i, sc_main_category_id = m, sc_name = s\<rparr>"
  from get_category_ids_rows[OF assms(2)]
  have rows: "?mr \<in> set (main_categories d)" "?sr \<in> set (sub_categories d)" by simp_all
  have "distinct (map mc_id (main_categories d))" "distinct (map sc_id (sub_categories d))"
    using assms(1) distinct_main_rows_from distinct_all_sub_rows
    by (simp_all add: seeded_def init_db_tables)
  from filter_key_distinct[OF this(1) rows(1)] filter_key_distinct[OF this(2) rows(2)]
  show "filter (\<lambda>mc. m = mc_id mc) (main_categories d) = [?mr]"
    and "filter (\<lambda>sc. i = sc_id sc) (sub_categories d) = [?sr]"
    by simp_all
qed

lemma get_category_ids_seeded:
  assumes "seeded d"
  shows "get_category_ids lk d c s = get_category_ids lk init_db c s"
proof -
  from assms have a: "main_categories d = main_categories init_db"
    and b: "sub_categories d = sub_categories init_db"
    by (simp_all add: seeded_def)
  show ?thesis unfolding get_category_ids_def select_category_ids_def a b by (rule refl)
qed

lemma concat_map_if:
  "concat (map (\<lambda>x. if P x then f x else []) xs) = concat (map f (filter P xs))"
  by (induction xs) auto

lemma statistics_of_one_group:
  assumes "statistics_join strftime fmt d = [(k, a), (k, b)]"
    and "sqlite_int a" "sqlite_int (a + b)"
  shows "statistics_query strftime fmt d =
           Inr [(fst k, fst (snd k), snd (snd k), 2, a + b)]"
  using assms
  by (cases k) (simp add: statistics_query_def group_row_def sql_sum_def Let_def)

lemma statistics_query_two_receipts:
  assumes "seeded d"
    and "strftime (u ''%Y-%m'') (u ''2024-03-01'') = Some (u ''2024-03'')"
    and "strftime (u ''%Y-%m'') (u ''2024-03-20'') = Some (u ''2024-03'')"
    and "receipts d = [r1, r2] \<or> receipts d = [r2, r1]"
    and "r_id r1 \<noteq> r_id r2"
    and "r_date r1 = u ''2024-03-01''" and "r_date r2 = u ''2024-03-20''"
    and "items d = [i1, i2] \<or> items d = [i2, i1]"
    and "i_receipt_id i1 = r_id r1" and "i_receipt_id i2 = r_id r2"
    and "i_amount i1 = 10000" and "i_amount i2 = 5000"
    and "get_category_ids False d category subcategory = (Some m, Some s)"
    and "i_main_category_id i1 = m" and "i_sub_category_id i1 = s"
    and "i_main_category_id i2 = m" and "i_sub_category_id i2 = s"
  shows "statistics_query strftime (u ''%Y-%m'') d =
           Inr [(Some (u ''2024-03''), category, subcategory, 2, 15000)]"
proof -
  let ?k = "(Some (u ''2024-03''), category, subcategory)"
  note cat = join_category_rows[OF assms(1) assms(13)]
  have rc1: "filter (\<lambda>r. r_id r = i_receipt_id i1) (receipts d) = [r1]"
    and rc2: "filter (\<lambda>r. r_id r = i_receipt_id i2) (receipts d) = [r2]"
    using assms(4,5,9,10) by auto
  have "statistics_join strftime (u ''%Y-%m'') d = [(?k, 10000), (?k, 5000)] \<or>
        statistics_join strftime (u ''%Y-%m'') d = [(?k, 5000), (?k, 10000)]"
    using assms(8)
  proof
    assume "items d = [i1, i2]"
    then have "statistics_join strftime (u ''%Y-%m'') d = [(?k, 10000), (?k, 5000)]"
      using assms(2,3,6,7,11,12,14-17) cat
      by (simp add: statistics_join_def concat_map_if rc1 rc2)
    then show ?thesis by simp
  next
    assume "items d = [i2, i1]"
    then have "statistics_join strftime (u ''%Y-%m'') d = [(?k, 5000), (?k, 10000)]"
      using assms(2,3,6,7,11,12,14-17) cat
      by (simp add: statistics_join_def concat_map_if rc1 rc2)
    then show ?thesis by simp
  qed
  then show ?thesis
  proof
    assume "statistics_join strftime (u ''%Y-%m'') d = [(?k, 10000), (?k, 5000)]"
    from statistics_of_one_group[OF this] show ?thesis by (simp add: sqlite_int_def)
  next
    assume "statistics_join strftime (u ''%Y-%m'') d = [(?k, 5000), (?k, 10000)]"
    from statistics_of_one_group[OF this] show ?thesis by (simp add: sqlite_int_def)
  qed
qed

text \<open>
  C7. A seeded store that holds exactly two receipts, dated 2024-03-01 and
  2024-03-20, each with one item, of amounts 10000 and 5000, both under the same
  category and subcategory; \<open>strftime\<close> with the monthly format maps both dates to
  \<open>2024-03\<close>. Then \<open>get_statistics('monthly')\<close> is the dict with the single period
  key \<open>2024-03\<close>, total 15000, holding the one category with total 15000 and the one
  subcategory with count 2 and total 15000.
\<close>

theorem get_statistics_two_receipts:
  assumes "seeded d"
    and "strftime (u ''%Y-%m'') (u ''2024-03-01'') = Some (u ''2024-03'')"
    and "strftime (u ''%Y-%m'') (u ''2024-03-20'') = Some (u ''2024-03'')"
    and "receipts d = [r1, r2] \<or> receipts d = [r2, r1]"
    and "r_id r1 \<noteq> r_id r2"
    and "r_date r1 = u ''2024-03-01''" and "r_date r2 = u ''2024-03-20''"
    and "items d = [i1, i2] \<or> items d = [i2, i1]"
    and "i_receipt_id i1 = r_id r1" and "i_receipt_id i2 = r_id r2"
    and "i_amount i1 = 10000" and "i_amount i2 = 5000"
    and "get_category_ids False d category subcategory = (Some m, Some s)"
    and "i_main_category_id i1 = m" and "i_sub_category_id i1 = s"
    and "i_main_category_id i2 = m" and "i_sub_category_id i2 = s"
  shows "get_statistics strftime (u ''monthly'') d =
           Some [(Some (u ''2024-03''),
                  \<lparr>ps_total_amount = 15000,
                   ps_categories =
                     [(category,
                       \<lparr>cs_total_amount = 15000,
                        cs_subcategories =
                          [(subcategory, \<lparr>ss_count = 2, ss_total_amount = 15000\<rparr>)]\<rparr>)]\<rparr>)]"
proof -
  have fmt: "date_format (u ''monthly'') = u ''%Y-%m''"
    by (simp add: date_format_def dict_get_def u_def)
  from statistics_query_two_receipts[where strftime = strftime, OF assms]
  have "statistics_query strftime (u ''%Y-%m'') d =
               Inr [(Some (u ''2024-03''), category, subcategory, 2, 15000)]" .
  then show ?thesis
    by (simp add: get_statistics_def fmt add_stats_row_def dict_get_def)
qed

lemma march_store_by_add_receipt:
  "march_store =
     snd (add_receipt ratio never_locked (u ''cafe'') (u ''2024-03-20'')
            [\<lparr>item_name = u ''tea'', item_category = [0xC74C, 0xC2DD],
              item_subcategory = [0xC74C, 0xB8CC], item_amount = 5000\<rparr>] 5000
            (snd (add_receipt ratio never_locked (u ''shop'') (u ''2024-03-01'')
                    [\<lparr>item_name = u ''milk'', item_category = [0xC74C, 0xC2DD],
                      item_subcategory = [0xC74C, 0xB8CC], item_amount = 10000\<rparr>] 10000
                    init_db)))"
proof -
  have ids: "get_category_ids False init_db [0xC74C, 0xC2DD] [0xC74C, 0xB8CC] = (Some 6, Some 27)"
    by (simp add: get_category_ids_def select_category_ids_def sqlite_text_def fetchone_def
        init_db_eq)
  have res: "resolve_ids ratio (False, False) d [0xC74C, 0xC2DD] [0xC74C, 0xB8CC] = (Some 6, Some 27)"
    if "seeded d" for d
  proof -
    from ids have "get_category_ids False d [0xC74C, 0xC2DD] [0xC74C, 0xB8CC] = (Some 6, Some 27)"
      by (simp only: get_category_ids_seeded[OF that])
    then show ?thesis by (simp add: resolve_ids_def truthy_id_def)
  qed
  have seqs: "receipts init_db = []" "receipts_seq init_db = 0" "items init_db = []" "items_seq init_db = 0"
    by (simp_all add: init_db_eq)
  have b: "sqlite_text (u ''shop'')" "sqlite_text (u ''2024-03-01'')" "sqlite_text (u ''milk'')"
    "sqlite_text (u ''cafe'')" "sqlite_text (u ''2024-03-20'')" "sqlite_text (u ''tea'')"
    by (simp_all add: sqlite_text_def u_def)
  let ?d1 = "init_db\<lparr>receipts := [\<lparr>r_id = 1, r_store_name = u ''shop'', r_date = u ''2024-03-01'',
                             r_total_amount = 10000\<rparr>],
             receipts_seq := 1,
             items := [\<lparr>i_id = 1, i_receipt_id = 1, i_name = u ''milk'', i_main_category_id = 6,
                         i_sub_category_id = 27, i_amount = 10000\<rparr>],
             items_seq := 1\<rparr>"
  have first: "snd (add_receipt ratio never_locked (u ''shop'') (u ''2024-03-01'')
                    [\<lparr>item_name = u ''milk'', item_category = [0xC74C, 0xC2DD],
                      item_subcategory = [0xC74C, 0xB8CC], item_amount = 10000\<rparr>] 10000
                    init_db) = ?d1"
    by (simp add: add_receipt_def insert_receipt_def lastrowid_receipts_def insert_item_def
        sqlite_int_def max_rowid_def never_locked_def b res[OF seeded_init_db] seqs)
  have "seeded ?d1" by (simp add: seeded_def)
  from res[OF this] have second:
    "snd (add_receipt ratio never_locked (u ''cafe'') (u ''2024-03-20'')
            [\<lparr>item_name = u ''tea'', item_category = [0xC74C, 0xC2DD],
              item_subcategory = [0xC74C, 0xB8CC], item_amount = 5000\<rparr>] 5000 ?d1) = march_store"
    by (simp add: march_store_def add_receipt_def insert_receipt_def lastrowid_receipts_def
        insert_item_def sqlite_int_def max_rowid_def never_locked_def b)
  show ?thesis by (simp only: first second)
qed

lemma march_store_facts:
  "seeded march_store"
  "strftime_sample (u ''%Y-%m'') (u ''2024-03-01'') = Some (u ''2024-03'')"
  "strftime_sample (u ''%Y-%m'') (u ''2024-03-20'') = Some (u ''2024-03'')"
  "get_category_ids False march_store [0xC74C, 0xC2DD] [0xC74C, 0xB8CC] = (Some 6, Some 27)"
proof -
  show "seeded march_store" by (simp add: seeded_def march_store_def)
  show "strftime_sample (u ''%Y-%m'') (u ''2024-03-01'') = Some (u ''2024-03'')"
    and "strftime_sample (u ''%Y-%m'') (u ''2024-03-20'') = Some (u ''2024-03'')"
    by (simp_all add: strftime_sample_def two_digits_def ascii_digit_def u_def)
  show "get_category_ids False march_store [0xC74C, 0xC2DD] [0xC74C, 0xB8CC] = (Some 6, Some 27)"
    by (simp add: get_category_ids_def select_category_ids_def sqlite_text_def fetchone_def
        march_store_def init_db_eq)
qed

lemma statistics_query_march_store:
  "statistics_query strftime_sample (u ''%Y-%m'') march_store =
     Inr [(Some (u ''2024-03''), [0xC74C, 0xC2DD], [0xC74C, 0xB8CC], 2, 15000)]"
proof -
  let ?r1 = "\<lparr>r_id = 1, r_store_name = u ''shop'', r_date = u ''2024-03-01'', r_total_amount = 10000\<rparr>"
  let ?r2 = "\<lparr>r_id = 2, r_store_name = u ''cafe'', r_date = u ''2024-03-20'', r_total_amount = 5000\<rparr>"
  let ?i1 = "\<lparr>i_id = 1, i_receipt_id = 1, i_name = u ''milk'', i_main_category_id = 6,
              i_sub_category_id = 27, i_amount = 10000\<rparr>"
  let ?i2 = "\<lparr>i_id = 2, i_receipt_id = 2, i_name = u ''tea'', i_main_category_id = 6,
              i_sub_category_id = 27, i_amount = 5000\<rparr>"
  have rs: "receipts march_store = [?r1, ?r2] \<or> receipts march_store = [?r2, ?r1]"
    and its: "items march_store = [?i1, ?i2] \<or> items march_store = [?i2, ?i1]"
    by (simp_all add: march_store_def)
  show ?thesis
    by (rule statistics_query_two_receipts[where ?r1.0 = "?r1" and ?r2.0 = "?r2" and ?i1.0 = "?i1"
          and ?i2.0 = "?i2" and m = 6 and s = 27])
       (use march_store_facts rs its in simp_all)
qed

theorem get_statistics_two_receipts_witness:
  "seeded march_store \<and>
   strftime_sample (u ''%Y-%m'') (u ''2024-03-01'') = Some (u ''2024-03'') \<and>
   strftime_sample (u ''%Y-%m'') (u ''2024-03-20'') = Some (u ''2024-03'') \<and>
   length (receipts march_store) = 2 \<and> length (items march_store) = 2 \<and>
   get_category_ids False march_store [0xC74C, 0xC2DD] [0xC74C, 0xB8CC] = (Some 6, Some 27) \<and>
   get_statistics strftime_sample (u ''monthly'') march_store =
     Some [(Some (u ''2024-03''),
            \<lparr>ps_total_amount = 15000,
             ps_categories =
               [([0xC74C, 0xC2DD],
                 \<lparr>cs_total_amount = 15000,
                  cs_subcategories =
                    [([0xC74C, 0xB8CC], \<lparr>ss_count = 2, ss_total_amount = 15000\<rparr>)]\<rparr>)]\<rparr>)]"
proof -
  let ?r1 = "\<lparr>r_id = 1, r_store_name = u ''shop'', r_date = u ''2024-03-01'', r_total_amount = 10000\<rparr>"
  let ?r2 = "\<lparr>r_id = 2, r_store_name = u ''cafe'', r_date = u ''2024-03-20'', r_total_amount = 5000\<rparr>"
  let ?i1 = "\<lparr>i_id = 1, i_receipt_id = 1, i_name = u ''milk'', i_main_category_id = 6,
              i_sub_category_id = 27, i_amount = 10000\<rparr>"
  let ?i2 = "\<lparr>i_id = 2, i_receipt_id = 2, i_name = u ''tea'', i_main_category_id = 6,
              i_sub_category_id = 27, i_amount = 5000\<rparr>"
  note f = march_store_facts
  have rs: "receipts march_store = [?r1, ?r2] \<or> receipts march_store = [?r2, ?r1]"
    and its: "items march_store = [?i1, ?i2] \<or> items march_store = [?i2, ?i1]"
    by (simp_all add: march_store_def)
  have "get_statistics strftime_sample (u ''monthly'') march_store =
     Some [(Some (u ''2024-03''),
            \<lparr>ps_total_amount = 15000,
             ps_categories =
               [([0xC74C, 0xC2DD],
                 \<lparr>cs_total_amount = 15000,
                  cs_subcategories =
                    [([0xC74C, 0xB8CC], \<lparr>ss_count = 2, ss_total_amount = 15000\<rparr>)]\<rparr>)]\<rparr>)]"
    by (rule get_statistics_two_receipts[where ?r1.0 = "?r1" and ?r2.0 = "?r2" and ?i1.0 = "?i1"
          and ?i2.0 = "?i2" and m = 6 and s = 27])
       (use f rs its in simp_all)
  moreover have "length (receipts march_store) = 2" "length (items march_store) = 2"
    by (simp_all add: march_store_def)
  ultimately show ?thesis using f by blast
qed

text \<open>
  C10. A period that is none of \<open>daily\<close>, \<open>monthly\<close>, \<open>yearly\<close> gives the result
  of \<open>monthly\<close> on the same store, and this result is the dict built from the rows
  of the query with the monthly format \<open>%Y-%m\<close>: the call returns it whenever that
  query returns its rows, and gives \<open>None\<close> only when the query itself raises (as it
  then does for \<open>monthly\<close>).
\<close>

theorem get_statistics_unknown_period:
  assumes "period \<notin> {u ''daily'', u ''monthly'', u ''yearly''}"
  shows "get_statistics strftime period d = get_statistics strftime (u ''monthly'') d \<and>
         get_statistics strftime period d =
           (case statistics_query strftime (u ''%Y-%m'') d of
              Inl e \<Rightarrow> None
            | Inr results \<Rightarrow> Some (fold add_stats_row results []))"
proof -
  have "date_format period = u ''%Y-%m''"
    using assms by (simp add: date_format_def dict_get_def)
  moreover have "date_format (u ''monthly'') = u ''%Y-%m''"
    by (simp add: date_format_def dict_get_def u_def)
  ultimately show ?thesis by (simp add: get_statistics_def)
qed

theorem get_statistics_unknown_period_witness:
  "u ''weekly'' \<notin> {u ''daily'', u ''monthly'', u ''yearly''} \<and>
   get_statistics strftime_sample (u ''weekly'') march_store =
     Some [(Some (u ''2024-03''),
            \<lparr>ps_total_amount = 15000,
             ps_categories =
               [([0xC74C, 0xC2DD],
                 \<lparr>cs_total_amount = 15000,
                  cs_subcategories =
                    [([0xC74C, 0xB8CC], \<lparr>ss_count = 2, ss_total_amount = 15000\<rparr>)]\<rparr>)]\<rparr>)] \<and>
   get_statistics strftime_sample (u ''monthly'') march_store =
     Some [(Some (u ''2024-03''),
            \<lparr>ps_total_amount = 15000,
             ps_categories =
               [([0xC74C, 0xC2DD],
                 \<lparr>cs_total_amount = 15000,
                  cs_subcategories =
                    [([0xC74C, 0xB8CC], \<lparr>ss_count = 2, ss_total_amount = 15000\<rparr>)]\<rparr>)]\<rparr>)]"
proof -
  have h: "u ''weekly'' \<notin> {u ''daily'', u ''monthly'', u ''yearly''}"
    by (simp add: u_def)
  note inst = get_statistics_unknown_period[OF h, of strftime_sample march_store]
  from inst have "get_statistics strftime_sample (u ''weekly'') march_store =
      (case statistics_query strftime_sample (u ''%Y-%m'') march_store of
         Inl e \<Rightarrow> None
       | Inr results \<Rightarrow> Some (fold add_stats_row results []))"
    by (rule conjunct2)
  then have weekly: "get_statistics strftime_sample (u ''weekly'') march_store =
     Some [(Some (u ''2024-03''),
            \<lparr>ps_total_amount = 15000,
             ps_categories =
               [([0xC74C, 0xC2DD],
                 \<lparr>cs_total_amount = 15000,
                  cs_subcategories =
                    [([0xC74C, 0xB8CC], \<lparr>ss_count = 2, ss_total_amount = 15000\<rparr>)]\<rparr>)]\<rparr>)]"
    by (simp add: statistics_query_march_store add_stats_row_def dict_get_def)
  from inst have "get_statistics strftime_sample (u ''weekly'') march_store =
      get_statistics strftime_sample (u ''monthly'') march_store"
    by (rule conjunct1)
  with weekly have monthly: "get_statistics strftime_sample (u ''monthly'') march_store =
     Some [(Some (u ''2024-03''),
            \<lparr>ps_total_amount = 15000,
             ps_categories =
               [([0xC74C, 0xC2DD],
                 \<lparr>cs_total_amount = 15000,
                  cs_subcategories =
                    [([0xC74C, 0xB8CC], \<lparr>ss_count = 2, ss_total_amount = 15000\<rparr>)]\<rparr>)]\<rparr>)]"
    by simp
  show ?thesis
    by (intro conjI) (rule h weekly monthly)+
qed

subsection \<open>The total of a parsed response\<close>

lemma is_decimal_ascii: "c < 0x80 \<Longrightarrow> is_decimal c \<longleftrightarrow> 0x30 \<le> c \<and> c \<le> 0x39"
  by (auto simp: is_decimal_def decimal_value_def decimal_starts_def)

lemma is_decimal_hangul: "0xAC00 \<le> c \<Longrightarrow> c \<le> 0xD7A3 \<Longrightarrow> \<not> is_decimal c"
  by (simp add: is_decimal_def decimal_value_def decimal_starts_def)

lemma isdigit_ascii: "c < 0x80 \<Longrightarrow> isdigit c \<longleftrightarrow> 0x30 \<le> c \<and> c \<le> 0x39"
  by (auto simp: isdigit_def is_decimal_ascii other_digit_ranges_def)

lemma isdigit_hangul: "0xAC00 \<le> c \<Longrightarrow> c \<le> 0xD7A3 \<Longrightarrow> \<not> isdigit c"
  by (simp add: isdigit_def is_decimal_hangul other_digit_ranges_def)

lemmas parse_eval =
  parse_line_def py_strip_def is_space_def truthy_str_def store_label_def
  is_decimal_ascii is_decimal_hangul isdigit_ascii isdigit_hangul parse_store_name_def
  py_replace_def date_re_def rx_match_at_def u_def parse_date_def date_label_def
  parse_item_def amount_re_def group1_def py_int_def to_ascii_def c_isspace_def
  ascii_digit_def unsigned_value_def won_def is_valid_category_def
  local_valid_categories_def parse_total_def total_patterns_def total_tail_def Let_def

lemma parse_line_store:
  "parse_line line_store empty_draft =
     Inr \<lparr>d_store_name = Some [0xC2A4, 0xD0C0, 0xBC85, 0xC2A4], d_date = None,
       d_items = [],
       d_total_amount = None\<rparr>"
  by (simp add: line_store_def empty_draft_def parse_eval)

lemma parse_line_date:
  "parse_line line_date
      \<lparr>d_store_name = Some [0xC2A4, 0xD0C0, 0xBC85, 0xC2A4], d_date = None,
       d_items = [],
       d_total_amount = None\<rparr> =
     Inr \<lparr>d_store_name = Some [0xC2A4, 0xD0C0, 0xBC85, 0xC2A4], d_date = Some (u ''2024-03-15''),
       d_items = [],
       d_total_amount = None\<rparr>"
  by (simp add: line_date_def parse_eval)

lemma parse_line_item:
  "parse_line line_item
      \<lparr>d_store_name = Some [0xC2A4, 0xD0C0, 0xBC85, 0xC2A4], d_date = Some (u ''2024-03-15''),
       d_items = [],
       d_total_amount = None\<rparr> =
     Inr \<lparr>d_store_name = Some [0xC2A4, 0xD0C0, 0xBC85, 0xC2A4], d_date = Some (u ''2024-03-15''),
       d_items = [\<lparr>item_name = [0xC544, 0xBA54, 0xB9AC, 0xCE74, 0xB178],
         item_category = [0xC74C, 0xC2DD], item_subcategory = [0xC74C, 0xB8CC], item_amount = 4500\<rparr>],
       d_total_amount = None\<rparr>"
  by (simp add: line_item_def parse_eval)

lemma parse_line_total:
  "parse_line line_total
      \<lparr>d_store_name = Some [0xC2A4, 0xD0C0, 0xBC85, 0xC2A4], d_date = Some (u ''2024-03-15''),
       d_items = [\<lparr>item_name = [0xC544, 0xBA54, 0xB9AC, 0xCE74, 0xB178],
         item_category = [0xC74C, 0xC2DD], item_subcategory = [0xC74C, 0xB8CC], item_amount = 4500\<rparr>],
       d_total_amount = None\<rparr> =
     Inr \<lparr>d_store_name = Some [0xC2A4, 0xD0C0, 0xBC85, 0xC2A4], d_date = Some (u ''2024-03-15''),
       d_items = [\<lparr>item_name = [0xC544, 0xBA54, 0xB9AC, 0xCE74, 0xB178],
         item_category = [0xC74C, 0xC2DD], item_subcategory = [0xC74C, 0xB8CC], item_amount = 4500\<rparr>],
       d_total_amount = Some 4500\<rparr>"
  by (simp add: line_total_def parse_eval)

lemma parse_line_second_total:
  "parse_line line_sum
      \<lparr>d_store_name = Some [0xC2A4, 0xD0C0, 0xBC85, 0xC2A4], d_date = Some (u ''2024-03-15''),
       d_items = [\<lparr>item_name = [0xC544, 0xBA54, 0xB9AC, 0xCE74, 0xB178],
         item_category = [0xC74C, 0xC2DD], item_subcategory = [0xC74C, 0xB8CC], item_amount = 4500\<rparr>],
       d_total_amount = Some 4500\<rparr> =
     Inr \<lparr>d_store_name = Some [0xC2A4, 0xD0C0, 0xBC85, 0xC2A4], d_date = Some (u ''2024-03-15''),
       d_items = [\<lparr>item_name = [0xC544, 0xBA54, 0xB9AC, 0xCE74, 0xB178],
         item_category = [0xC74C, 0xC2DD], item_subcategory = [0xC74C, 0xB8CC], item_amount = 4500\<rparr>],
       d_total_amount = Some 9000\<rparr>"
  by (simp add: line_sum_def parse_eval)

lemma split_two_totals_response:
  "py_split 0xA (py_strip two_totals_response) = two_totals_lines"
  by (simp add: two_totals_response_def two_totals_lines_def line_store_def line_date_def
      line_item_def line_total_def line_sum_def py_strip_def is_space_def)

text \<open>
  C5. The claim: once a line has matched a total pattern, a later matching line never
  overwrites the captured total. The code on the five-line response: after the first
  four lines the total is 4500, taken from the fourth line; the fifth line matches the
  "sum" pattern and the parse ends with total 9000.
\<close>

theorem later_total_line_overwrites:
  "parse_lines (take 4 two_totals_lines) empty_draft =
     Inr \<lparr>d_store_name = Some [0xC2A4, 0xD0C0, 0xBC85, 0xC2A4], d_date = Some (u ''2024-03-15''),
       d_items = [\<lparr>item_name = [0xC544, 0xBA54, 0xB9AC, 0xCE74, 0xB178],
         item_category = [0xC74C, 0xC2DD], item_subcategory = [0xC74C, 0xB8CC], item_amount = 4500\<rparr>],
       d_total_amount = Some 4500\<rparr> \<and>
   parse_response two_totals_response [] =
     Inr (Some
      \<lparr>d_store_name = Some [0xC2A4, 0xD0C0, 0xBC85, 0xC2A4], d_date = Some (u ''2024-03-15''),
       d_items = [\<lparr>item_name = [0xC544, 0xBA54, 0xB9AC, 0xCE74, 0xB178],
         item_category = [0xC74C, 0xC2DD], item_subcategory = [0xC74C, 0xB8CC], item_amount = 4500\<rparr>],
       d_total_amount = Some 9000\<rparr>)"
proof -
  have "parse_lines (take 4 two_totals_lines) empty_draft =
     Inr \<lparr>d_store_name = Some [0xC2A4, 0xD0C0, 0xBC85, 0xC2A4], d_date = Some (u ''2024-03-15''),
       d_items = [\<lparr>item_name = [0xC544, 0xBA54, 0xB9AC, 0xCE74, 0xB178],
         item_category = [0xC74C, 0xC2DD], item_subcategory = [0xC74C, 0xB8CC], item_amount = 4500\<rparr>],
       d_total_amount = Some 4500\<rparr>"
    by (simp add: two_totals_lines_def parse_line_store parse_line_date parse_line_item
        parse_line_total)
  moreover have "parse_lines two_totals_lines empty_draft =
     Inr \<lparr>d_store_name = Some [0xC2A4, 0xD0C0, 0xBC85, 0xC2A4], d_date = Some (u ''2024-03-15''),
       d_items = [\<lparr>item_name = [0xC544, 0xBA54, 0xB9AC, 0xCE74, 0xB178],
         item_category = [0xC74C, 0xC2DD], item_subcategory = [0xC74C, 0xB8CC], item_amount = 4500\<rparr>],
       d_total_amount = Some 9000\<rparr>"
    by (simp add: two_totals_lines_def parse_line_store parse_line_date parse_line_item
        parse_line_total parse_line_second_total)
  ultimately show ?thesis
    by (simp add: parse_response_def split_two_totals_response truthy_str_def truthy_int_def
        u_def)
qed

end
